theory Spec2Isabelle
  imports Complex_Main
begin

section \<open>JavaScript numbers\<close>

text \<open>
  A JavaScript number: \<^verbatim>\<open>NaN\<close>, an infinity, or a finite double, which is given by its
  exact value, a rational number. The arithmetic of \<^verbatim>\<open>formatDuration\<close> is taken on the
  exact values. For a double of magnitude below \<open>2^53\<close> that is positive, or negative
  and normal (at most \<open>- 2^-1022\<close>), that is what the code computes: \<^verbatim>\<open>%\<close> and
  \<^verbatim>\<open>Math.floor\<close> are exact on doubles, and the quotient of such a double by 3600 or by
  60 lies further from the next integer than the rounding of the division can move it.
  Beyond \<open>2^53\<close> the rounding can reach the next integer, and the quotient of a negative
  subnormal number underflows to zero; there the model and the code may part, and the
  theorems on \<^verbatim>\<open>formatDuration\<close> carry the range.
\<close>

datatype jsnum = NaN | Num rat | PosInf | NegInf

text \<open>\<^verbatim>\<open>!x\<close> on a number: \<^verbatim>\<open>0\<close> and \<^verbatim>\<open>NaN\<close> are falsy.\<close>

fun js_not :: "jsnum \<Rightarrow> bool" where
  "js_not NaN = True"
| "js_not (Num q) = (q = 0)"
| "js_not PosInf = False"
| "js_not NegInf = False"

fun isNaN :: "jsnum \<Rightarrow> bool" where
  "isNaN NaN = True"
| "isNaN n = False"

text \<open>
  \<^verbatim>\<open>a % b\<close> on finite numbers, \<open>b\<close> not zero: what is left of \<open>a\<close> after the quotient
  truncated towards zero, so with the sign of \<open>a\<close>.
\<close>

definition js_rem :: "rat \<Rightarrow> rat \<Rightarrow> rat" where
  "js_rem a b = a - b * of_int (if a / b < 0 then \<lceil>a / b\<rceil> else \<lfloor>a / b\<rfloor>)"

text \<open>
  \<^verbatim>\<open>Number.prototype.toString\<close> on an integer of magnitude below \<open>2^53\<close>: its decimal
  digits, after \<^verbatim>\<open>-\<close> when it is negative.
\<close>

definition digit_char :: "nat \<Rightarrow> char" where
  "digit_char d = ''0123456789'' ! d"

fun show_nat :: "nat \<Rightarrow> string" where
  "show_nat n = (if n < 10 then [digit_char n] else show_nat (n div 10) @ [digit_char (n mod 10)])"

declare show_nat.simps [simp del]

definition toString :: "int \<Rightarrow> string" where
  "toString i = (if i < 0 then CHR ''-'' # show_nat (nat (- i)) else show_nat (nat i))"

text \<open>\<^verbatim>\<open>s.padStart(n, c)\<close> with a one-character filler.\<close>

definition padStart :: "nat \<Rightarrow> char \<Rightarrow> string \<Rightarrow> string" where
  "padStart n c s = replicate (n - length s) c @ s"

section \<open>JavaScript values\<close>

text \<open>
  The values that reach the utilities from the metadata backend, from \<^verbatim>\<open>JSON.parse\<close> and
  from the host: \<^verbatim>\<open>undefined\<close>, \<^verbatim>\<open>null\<close>, booleans, numbers, strings, arrays and
  objects (an association list of properties). Strings are lists of 8-bit characters.
\<close>

datatype jsval =
    Undefined
  | Null
  | Boolean bool
  | Number jsnum
  | Str string
  | Arr "jsval list"
  | Obj "(string \<times> jsval) list"

fun truthy :: "jsval \<Rightarrow> bool" where
  "truthy Undefined = False"
| "truthy Null = False"
| "truthy (Boolean b) = b"
| "truthy (Number n) = (\<not> js_not n)"
| "truthy (Str s) = (s \<noteq> [])"
| "truthy (Arr xs) = True"
| "truthy (Obj kvs) = True"

fun nullish :: "jsval \<Rightarrow> bool" where
  "nullish Undefined = True"
| "nullish Null = True"
| "nullish v = False"

text \<open>
  \<^verbatim>\<open>v.k\<close> on a value that is not nullish, and \<^verbatim>\<open>v?.k\<close> on any value: the property of an
  object, \<^verbatim>\<open>undefined\<close> when it is missing or when \<open>v\<close> is not an object. (None of the
  property names read by the code is defined on a primitive or on an array.)
\<close>

definition jsget :: "jsval \<Rightarrow> string \<Rightarrow> jsval" where
  "jsget v k = (case v of
       Obj kvs \<Rightarrow> (case map_of kvs k of Some x \<Rightarrow> x | None \<Rightarrow> Undefined)
     | _ \<Rightarrow> Undefined)"

text \<open>\<^verbatim>\<open>v?.[0]\<close>: the first element of an array, the first character of a string.\<close>

definition at0 :: "jsval \<Rightarrow> jsval" where
  "at0 v = (case v of
       Arr (x # xs) \<Rightarrow> x
     | Str (c # cs) \<Rightarrow> Str [c]
     | _ \<Rightarrow> Undefined)"

text \<open>\<^verbatim>\<open>a || b\<close>.\<close>

definition js_or :: "jsval \<Rightarrow> jsval \<Rightarrow> jsval" where
  "js_or a b = (if truthy a then a else b)"

text \<open>\<^verbatim>\<open>parts.join(sep)\<close>.\<close>

fun join :: "string \<Rightarrow> string list \<Rightarrow> string" where
  "join sep [] = []"
| "join sep [x] = x"
| "join sep (x # y # ys) = x @ sep @ join sep (y # ys)"

text \<open>A thrown \<^verbatim>\<open>Error\<close> is its message; the handlers read nothing else of it.\<close>

type_synonym error = string

section \<open>Regular expressions\<close>

text \<open>
  The fragment of JavaScript regular expressions the classifier uses: literals, character
  classes, greedy repetition of a class (\<^verbatim>\<open>*\<close>, \<^verbatim>\<open>+\<close>, \<^verbatim>\<open>{n}\<close>), sequence, alternation,
  the greedy option \<^verbatim>\<open>?\<close> and one capturing group. \<open>rx_run\<close> lists the ways a pattern
  matches at the head of the input in the order the backtracking matcher tries them; a
  state is the text captured so far and the input that is left.
\<close>

datatype rx =
    Lit string
  | Cls "char \<Rightarrow> bool"
  | Many "char \<Rightarrow> bool"
  | Many1 "char \<Rightarrow> bool"
  | Rep nat "char \<Rightarrow> bool"
  | Seq rx rx
  | Alt rx rx
  | Opt rx
  | Cap rx

fun many_rests :: "(char \<Rightarrow> bool) \<Rightarrow> string \<Rightarrow> string list" where
  "many_rests p [] = [[]]"
| "many_rests p (c # cs) = (if p c then many_rests p cs @ [c # cs] else [c # cs])"

fun rx_run :: "rx \<Rightarrow> string option \<times> string \<Rightarrow> (string option \<times> string) list" where
  "rx_run (Lit l) (cap, s) = (if take (length l) s = l then [(cap, drop (length l) s)] else [])"
| "rx_run (Cls p) (cap, s) = (case s of [] \<Rightarrow> [] | c # cs \<Rightarrow> if p c then [(cap, cs)] else [])"
| "rx_run (Many p) (cap, s) = map (Pair cap) (many_rests p s)"
| "rx_run (Many1 p) (cap, s) =
     (case s of [] \<Rightarrow> [] | c # cs \<Rightarrow> if p c then map (Pair cap) (many_rests p cs) else [])"
| "rx_run (Rep n p) (cap, s) =
     (if n \<le> length s \<and> list_all p (take n s) then [(cap, drop n s)] else [])"
| "rx_run (Seq a b) st = concat (map (rx_run b) (rx_run a st))"
| "rx_run (Alt a b) st = rx_run a st @ rx_run b st"
| "rx_run (Opt a) st = rx_run a st @ [st]"
| "rx_run (Cap a) (cap, s) =
     map (\<lambda>(c, r). (Some (take (length s - length r) s), r)) (rx_run a (cap, s))"

text \<open>An unanchored pattern is tried at each position from the left; the first match wins.\<close>

fun rx_exec :: "rx \<Rightarrow> string \<Rightarrow> (string option \<times> string) option" where
  "rx_exec r [] = (case rx_run r (None, []) of [] \<Rightarrow> None | m # ms \<Rightarrow> Some m)"
| "rx_exec r (c # cs) =
     (case rx_run r (None, c # cs) of [] \<Rightarrow> rx_exec r cs | m # ms \<Rightarrow> Some m)"

text \<open>\<^verbatim>\<open>regex.test(s)\<close> for a pattern that starts with \<^verbatim>\<open>^\<close>, and for one that does not.\<close>

definition rx_test_anchored :: "rx \<Rightarrow> string \<Rightarrow> bool" where
  "rx_test_anchored r s = (rx_run r (None, s) \<noteq> [])"

definition rx_test :: "rx \<Rightarrow> string \<Rightarrow> bool" where
  "rx_test r s = (rx_exec r s \<noteq> None)"

text \<open>\<^verbatim>\<open>const match = s.match(regex); return match ? match[1] : null\<close>.\<close>

definition rx_group1 :: "rx \<Rightarrow> string \<Rightarrow> string option" where
  "rx_group1 r s = (case rx_exec r s of None \<Rightarrow> None | Some (cap, rest) \<Rightarrow> cap)"

text \<open>The \<^verbatim>\<open>i\<close> flag on a pattern of lower-case ASCII literals: the input is folded.\<close>

definition lower_char :: "char \<Rightarrow> char" where
  "lower_char c = (if c \<in> set ''ABCDEFGHIJKLMNOPQRSTUVWXYZ''
                   then char_of (of_char c + (32::nat)) else c)"

definition is_space :: "char \<Rightarrow> bool" where
  "is_space c = (of_char c \<in> {9, 10, 11, 12, 13, 32, 160 :: nat})"

definition dot :: "char \<Rightarrow> bool" where
  "dot c = (of_char c \<notin> {10, 13 :: nat})"

definition list_id_char :: "char \<Rightarrow> bool" where
  "list_id_char c =
     (c \<in> set ''abcdefghijklmnopqrstuvwxyzABCDEFGHIJKLMNOPQRSTUVWXYZ0123456789_-'')"

definition video_id_char :: "char \<Rightarrow> bool" where
  "video_id_char c = (c \<notin> {CHR 0x22, CHR ''&'', CHR ''?'', CHR ''/''} \<and> \<not> is_space c)"

section \<open>URL classifier\<close>

text \<open>\<^verbatim>\<open>/^(https?:\/\/)?(www\.)?(youtube\.com|youtu\.be|m\.youtube\.com)/i\<close>\<close>

definition youtubeRegex :: rx where
  "youtubeRegex =
     Seq (Opt (Seq (Lit ''http'') (Seq (Opt (Lit ''s'')) (Lit ''://''))))
    (Seq (Opt (Lit ''www.''))
         (Alt (Lit ''youtube.com'') (Alt (Lit ''youtu.be'') (Lit ''m.youtube.com''))))"

definition isYouTubeUrl :: "string \<Rightarrow> bool" where
  "isYouTubeUrl url = rx_test_anchored youtubeRegex (map lower_char url)"

text \<open>\<^verbatim>\<open>/[?&]list=([a-zA-Z0-9_-]+)/\<close>\<close>

definition playlistRegex :: rx where
  "playlistRegex =
     Seq (Cls (\<lambda>c. c = CHR ''?'' \<or> c = CHR ''&'')) (Seq (Lit ''list='') (Cap (Many1 list_id_char)))"

definition isYouTubePlaylistUrl :: "string \<Rightarrow> bool" where
  "isYouTubePlaylistUrl url = (isYouTubeUrl url \<and> rx_test playlistRegex url)"

definition extractYouTubePlaylistId :: "string \<Rightarrow> string option" where
  "extractYouTubePlaylistId url = rx_group1 playlistRegex url"

text \<open>
  \<^verbatim>\<open>/(?:youtube\.com\/(?:[^\/]+\/.+\/|(?:v|e(?:mbed)?)\/|.*[?&]v=)|youtu\.be\/)([^"&?\/\s]{11})/\<close>
\<close>

definition videoIdRegex :: rx where
  "videoIdRegex =
     Seq (Alt (Seq (Lit ''youtube.com/'')
                   (Alt (Seq (Many1 (\<lambda>c. c \<noteq> CHR ''/'')) (Seq (Lit ''/'') (Seq (Many1 dot) (Lit ''/''))))
                   (Alt (Seq (Alt (Lit ''v'') (Seq (Lit ''e'') (Opt (Lit ''mbed'')))) (Lit ''/''))
                        (Seq (Many dot) (Seq (Cls (\<lambda>c. c = CHR ''?'' \<or> c = CHR ''&'')) (Lit ''v=''))))))
              (Lit ''youtu.be/''))
         (Cap (Rep 11 video_id_char))"

definition extractYouTubeId :: "string \<Rightarrow> string option" where
  "extractYouTubeId url = rx_group1 videoIdRegex url"

section \<open>The world outside the module\<close>

text \<open>
  The credential \<^verbatim>\<open>options.cookies\<close>: absent, \<^verbatim>\<open>null\<close>, a cookie string, or a structured
  cookie collection, which JavaScript compares by reference (the number is the reference).
  On this type \<^verbatim>\<open>a !== b\<close> is \<open>a \<noteq> b\<close>.
\<close>

datatype cookies = CUndefined | CNull | CString string | CObject nat

fun cookies_truthy :: "cookies \<Rightarrow> bool" where
  "cookies_truthy CUndefined = False"
| "cookies_truthy CNull = False"
| "cookies_truthy (CString s) = (s \<noteq> [])"
| "cookies_truthy (CObject r) = True"

record yt_options =
  opt_cookies :: cookies
  opt_client :: "string option"

text \<open>The \<^verbatim>\<open>initOptions\<close> object handed to \<^verbatim>\<open>Innertube.create\<close>.\<close>

record init_options =
  cookie :: "cookies option"
  client_name :: "string option"
  enable_session_cache :: bool

text \<open>
  Every call that leaves the module is recorded, in order: calls on the metadata backend
  (with the session they are made on), runs of the external extractor with their command
  line, and writes and removals of files.
\<close>

datatype event =
    SignOut nat
  | Create init_options
  | YtSearch nat string
  | YtGetInfo nat string
  | YtGetPlaylist nat string
  | Exec string
  | WriteFile string cookies
  | Unlink string

text \<open>How a promise of the backend settles, and how a run of the extractor ends.\<close>

datatype settled = Resolves jsval | Rejects error

datatype exec_outcome = ExecOk string string | ExecErr error

text \<open>
  What the outside answers; \<open>dirname\<close> is the module's \<^verbatim>\<open>__dirname\<close>. Each answer may
  depend on everything that happened before (the trace at the time of the call).
  \<open>url_protocol\<close> is \<^verbatim>\<open>new URL(s).protocol\<close>, \<open>None\<close> when the constructor throws;
  \<open>json_parse\<close> is \<^verbatim>\<open>JSON.parse\<close>, \<open>None\<close> when it throws;
  \<open>number_text\<close> is \<^verbatim>\<open>Number.prototype.toString\<close> on the finite numbers that are not
  integers below \<open>2^53\<close>, and \<open>string_to_number\<close> is \<^verbatim>\<open>Number(s)\<close> on a string. The
  two calls that are raced against a timer, \<^verbatim>\<open>yt.search\<close> and \<^verbatim>\<open>yt.getPlaylist\<close>, answer
  \<open>None\<close> when the timer fires first. \<open>exec\<close> is \<^verbatim>\<open>execAsync\<close>: \<open>ExecOk stdout stderr\<close>,
  or \<open>ExecErr\<close> when the process fails, is killed at its timeout or overflows its buffer.
  A run of the extractor leaves the files as they are.
\<close>

record env =
  dirname :: string
  url_protocol :: "string \<Rightarrow> string option"
  json_parse :: "string \<Rightarrow> jsval option"
  number_text :: "rat \<Rightarrow> string"
  string_to_number :: "string \<Rightarrow> jsnum"
  create_ok :: "event list \<Rightarrow> init_options \<Rightarrow> bool"
  yt_search :: "event list \<Rightarrow> string \<Rightarrow> settled option"
  yt_getInfo :: "event list \<Rightarrow> string \<Rightarrow> settled"
  yt_getPlaylist :: "event list \<Rightarrow> string \<Rightarrow> settled option"
  exec :: "event list \<Rightarrow> string \<Rightarrow> exec_outcome"
  write_ok :: "event list \<Rightarrow> bool"
  unlink_ok :: "event list \<Rightarrow> bool"

text \<open>
  The state the module keeps and the state it acts on: the module variables \<^verbatim>\<open>innertube\<close>
  (a session is named by the position of its creation in the trace) and \<^verbatim>\<open>lastCookies\<close>,
  the paths that exist in the file system, and the trace.
\<close>

record world =
  innertube :: "nat option"
  lastCookies :: cookies
  files :: "string set"
  trace :: "event list"

definition emit :: "event \<Rightarrow> world \<Rightarrow> world" where
  "emit e w = w\<lparr>trace := trace w @ [e]\<rparr>"

section \<open>Conversions\<close>

text \<open>The text of a number whose value is an integer.\<close>

definition int_text :: "env \<Rightarrow> int \<Rightarrow> string" where
  "int_text env n = (if \<bar>n\<bar> < 2 ^ 53 then toString n else number_text env (of_int n))"

text \<open>The string a template literal \<^verbatim>\<open>`${v}`\<close> inserts.\<close>

fun to_str :: "env \<Rightarrow> jsval \<Rightarrow> string" and to_str_elems :: "env \<Rightarrow> jsval list \<Rightarrow> string list" where
  "to_str env Undefined = ''undefined''"
| "to_str env Null = ''null''"
| "to_str env (Boolean b) = (if b then ''true'' else ''false'')"
| "to_str env (Number NaN) = ''NaN''"
| "to_str env (Number PosInf) = ''Infinity''"
| "to_str env (Number NegInf) = ''-Infinity''"
| "to_str env (Number (Num q)) =
     (if of_int \<lfloor>q\<rfloor> = q then int_text env \<lfloor>q\<rfloor> else number_text env q)"
| "to_str env (Str s) = s"
| "to_str env (Arr xs) = join '','' (to_str_elems env xs)"
| "to_str env (Obj kvs) = ''[object Object]''"
| "to_str_elems env [] = []"
| "to_str_elems env (x # xs) = (if nullish x then [] else to_str env x) # to_str_elems env xs"

text \<open>
  \<^verbatim>\<open>Number(v)\<close>, the conversion that \<^verbatim>\<open>isNaN\<close>, \<^verbatim>\<open>/\<close> and \<^verbatim>\<open>%\<close> apply to an operand; an
  array converts by way of its text.
\<close>

fun to_number :: "env \<Rightarrow> jsval \<Rightarrow> jsnum" where
  "to_number env Undefined = NaN"
| "to_number env Null = Num 0"
| "to_number env (Boolean b) = Num (if b then 1 else 0)"
| "to_number env (Number n) = n"
| "to_number env (Str s) = string_to_number env s"
| "to_number env (Arr xs) = string_to_number env (to_str env (Arr xs))"
| "to_number env (Obj kvs) = NaN"

section \<open>Duration formatting\<close>

text \<open>
  \<^verbatim>\<open>
  const formatDuration = (seconds) => {
      if (!seconds || isNaN(seconds)) return 'Unknown';
      const hours = Math.floor(seconds / 3600);
      const minutes = Math.floor((seconds % 3600) / 60);
      const secs = Math.floor(seconds % 60);
      if (hours > 0) {
          return `${hours}:${minutes.toString().padStart(2, '0')}:${secs.toString().padStart(2, '0')}`;
      } else {
          return `${minutes}:${secs.toString().padStart(2, '0')}`;
      }
  };
  \<close>
  The guard \<^verbatim>\<open>!seconds\<close> is on the argument as it comes, \<^verbatim>\<open>isNaN\<close> and the arithmetic
  on its conversion to a number. For \<^verbatim>\<open>Infinity\<close> the hours are \<^verbatim>\<open>Infinity\<close> and both
  remainders \<^verbatim>\<open>NaN\<close>; for \<^verbatim>\<open>-Infinity\<close> the hours are not positive.
\<close>

definition formatDuration :: "env \<Rightarrow> jsval \<Rightarrow> string" where
  "formatDuration env seconds =
     (if \<not> truthy seconds \<or> isNaN (to_number env seconds) then ''Unknown''
      else case to_number env seconds of
        NaN \<Rightarrow> ''Unknown''
      | PosInf \<Rightarrow> ''Infinity:NaN:NaN''
      | NegInf \<Rightarrow> ''NaN:NaN''
      | Num s \<Rightarrow>
          (let hours = \<lfloor>s / 3600\<rfloor>;
               minutes = \<lfloor>js_rem s 3600 / 60\<rfloor>;
               secs = \<lfloor>js_rem s 60\<rfloor>
           in if hours > 0
              then int_text env hours @ '':'' @ padStart 2 (CHR ''0'') (int_text env minutes)
                     @ '':'' @ padStart 2 (CHR ''0'') (int_text env secs)
              else int_text env minutes @ '':'' @ padStart 2 (CHR ''0'') (int_text env secs)))"

text \<open>
  The format as the specification words it, for a number of seconds \<open>s\<close>:
  \<open>h = floor (s / 3600)\<close>, \<open>m = floor ((s mod 3600) / 60)\<close>, \<open>c = floor (s mod 60)\<close>,
  rendered \<^verbatim>\<open>h:MM:SS\<close> when \<open>h > 0\<close> and \<^verbatim>\<open>m:SS\<close> otherwise, minutes and seconds padded
  with zeros to two characters. Its \<open>mod\<close> is read as the remainder of the language: the
  remainder of the magnitude, with the sign of \<open>s\<close>.
\<close>

definition remainder :: "rat \<Rightarrow> rat \<Rightarrow> rat" where
  "remainder a b = sgn a * (\<bar>a\<bar> - b * of_int \<lfloor>\<bar>a\<bar> / b\<rfloor>)"

definition two_digits :: "int \<Rightarrow> string" where
  "two_digits n = (if length (toString n) < 2 then CHR ''0'' # toString n else toString n)"

definition duration_spec :: "rat \<Rightarrow> string" where
  "duration_spec s =
     (let h = \<lfloor>s / 3600\<rfloor>; m = \<lfloor>remainder s 3600 / 60\<rfloor>; c = \<lfloor>remainder s 60\<rfloor>
      in if h > 0 then toString h @ '':'' @ two_digits m @ '':'' @ two_digits c
         else toString m @ '':'' @ two_digits c)"

section \<open>Metadata backend client\<close>

text \<open>
  \<^verbatim>\<open>initializeYouTube(options)\<close>. A failing \<^verbatim>\<open>signOut\<close> is ignored; a failing
  \<^verbatim>\<open>Innertube.create\<close> leaves \<^verbatim>\<open>innertube = null\<close> and \<^verbatim>\<open>lastCookies\<close> as it was.
\<close>

definition initOptionsFor :: "yt_options \<Rightarrow> init_options" where
  "initOptionsFor options = \<lparr>
     cookie = (if cookies_truthy (opt_cookies options) then Some (opt_cookies options) else None),
     client_name = (case opt_client options of
                      None \<Rightarrow> None
                    | Some c \<Rightarrow> if c \<noteq> [] then Some c else None),
     enable_session_cache = True\<rparr>"

definition initializeYouTube :: "env \<Rightarrow> yt_options \<Rightarrow> world \<Rightarrow> nat option \<times> world" where
  "initializeYouTube env options w =
     (let currentCookies = opt_cookies options;
          needsReinit = (innertube w = None \<or> currentCookies \<noteq> lastCookies w)
      in if needsReinit then
           (let initOptions = initOptionsFor options;
                w1 = (case innertube w of Some s \<Rightarrow> emit (SignOut s) w | None \<Rightarrow> w);
                w2 = emit (Create initOptions) w1
            in if create_ok env (trace w1) initOptions
               then (Some (length (trace w1)),
                     w2\<lparr>innertube := Some (length (trace w1)), lastCookies := currentCookies\<rparr>)
               else (None, w2\<lparr>innertube := None\<rparr>))
         else (innertube w, w))"

text \<open>A run of calls, one after the other, each with its own options.\<close>

definition initializeAll :: "env \<Rightarrow> yt_options list \<Rightarrow> world \<Rightarrow> world" where
  "initializeAll env os w = foldl (\<lambda>w' options. snd (initializeYouTube env options w')) w os"

text \<open>The parts of a trace: session creations, sign-outs, searches, runs of the extractor.\<close>

fun is_create :: "event \<Rightarrow> bool" where
  "is_create (Create io) = True"
| "is_create e = False"

fun is_signout :: "event \<Rightarrow> bool" where
  "is_signout (SignOut s) = True"
| "is_signout e = False"

fun is_search :: "event \<Rightarrow> bool" where
  "is_search (YtSearch s q) = True"
| "is_search e = False"

fun is_exec :: "event \<Rightarrow> bool" where
  "is_exec (Exec c) = True"
| "is_exec e = False"

text \<open>
  The track object built from a search result, from a recommended item of a mix and from
  a related item (the three mappers of the source are the same):
  \<^verbatim>\<open>
  video => ({ id: video.id, title: video.title?.text || 'Unknown Title',
              duration: video.duration?.text || 'Unknown',
              thumbnail: video.thumbnails?.[0]?.url || null,
              url: `https://www.youtube.com/watch?v=${video.id}`,
              author: video.author?.name || 'Unknown Artist',
              views: video.view_count?.text || '0' })
  \<close>
  It throws a \<^verbatim>\<open>TypeError\<close> on a nullish \<^verbatim>\<open>video\<close>; the callers below check that first.
\<close>

definition videoTrack :: "env \<Rightarrow> jsval \<Rightarrow> jsval" where
  "videoTrack env video = Obj [
     (''id'', jsget video ''id''),
     (''title'', js_or (jsget (jsget video ''title'') ''text'') (Str ''Unknown Title'')),
     (''duration'', js_or (jsget (jsget video ''duration'') ''text'') (Str ''Unknown'')),
     (''thumbnail'', js_or (jsget (at0 (jsget video ''thumbnails'')) ''url'') Null),
     (''url'', Str (''https://www.youtube.com/watch?v='' @ to_str env (jsget video ''id''))),
     (''author'', js_or (jsget (jsget video ''author'') ''name'') (Str ''Unknown Artist'')),
     (''views'', js_or (jsget (jsget video ''view_count'') ''text'') (Str ''0''))]"

text \<open>
  \<^verbatim>\<open>searchYouTube(query, limit, options)\<close>: every failure inside is caught and gives \<^verbatim>\<open>[]\<close>.
\<close>

definition searchYouTube :: "env \<Rightarrow> string \<Rightarrow> nat \<Rightarrow> yt_options \<Rightarrow> world \<Rightarrow> jsval list \<times> world" where
  "searchYouTube env query limit options w =
     (case initializeYouTube env options w of
        (None, w1) \<Rightarrow> ([], w1)
      | (Some yt, w1) \<Rightarrow>
          (let w2 = emit (YtSearch yt query) w1
           in case yt_search env (trace w1) query of
                None \<Rightarrow> ([], w2)
              | Some (Rejects e) \<Rightarrow> ([], w2)
              | Some (Resolves searchResults) \<Rightarrow>
                  if nullish searchResults then ([], w2)
                  else (case jsget searchResults ''videos'' of
                          Arr videos \<Rightarrow>
                            if videos = [] then ([], w2)
                            else if list_ex nullish (take limit videos) then ([], w2)
                            else (map (videoTrack env) (take limit videos), w2)
                        | v \<Rightarrow> ([], w2))))"

text \<open>
  \<^verbatim>\<open>getYouTubeMetadata(videoId, options)\<close>: the track object, or \<^verbatim>\<open>null\<close> on any failure.
\<close>

definition getYouTubeMetadata :: "env \<Rightarrow> string \<Rightarrow> yt_options \<Rightarrow> world \<Rightarrow> jsval \<times> world" where
  "getYouTubeMetadata env videoId options w =
     (case initializeYouTube env options w of
        (None, w1) \<Rightarrow> (Null, w1)
      | (Some yt, w1) \<Rightarrow>
          (let w2 = emit (YtGetInfo yt videoId) w1
           in case yt_getInfo env (trace w1) videoId of
                Rejects e \<Rightarrow> (Null, w2)
              | Resolves info \<Rightarrow>
                  if \<not> truthy info then (Null, w2)
                  else (let basic = jsget info ''basic_info''
                        in (Obj [
                             (''id'', Str videoId),
                             (''title'', js_or (jsget basic ''title'') (Str ''Unknown Title'')),
                             (''duration'', js_or (jsget (jsget basic ''duration'') ''text'') (Str ''Unknown'')),
                             (''thumbnail'', js_or (jsget (at0 (jsget basic ''thumbnail'')) ''url'') Null),
                             (''url'', Str (''https://www.youtube.com/watch?v='' @ videoId)),
                             (''author'', js_or (jsget basic ''author'') (Str ''Unknown Artist'')),
                             (''views'', js_or (jsget basic ''view_count'') (Number (Num 0))),
                             (''description'', js_or (jsget basic ''short_description'') (Str ''''))], w2))))"

text \<open>
  The filter on the recommendations:
  \<^verbatim>\<open>item => item.type === 'CompactVideo' && item.id && item.title\<close>.
\<close>

definition playable :: "jsval \<Rightarrow> bool" where
  "playable item = (jsget item ''type'' = Str ''CompactVideo''
                     \<and> truthy (jsget item ''id'') \<and> truthy (jsget item ''title''))"

text \<open>
  \<^verbatim>\<open>getRelatedTracks(videoId, options, limit)\<close> of the utilities: the recommended items
  that are playable, at most \<open>limit\<close> of them, or \<^verbatim>\<open>[]\<close> on any failure. A feed that is
  not an array, or that holds a nullish item, makes the filter throw.
\<close>

definition getRelatedTracks :: "env \<Rightarrow> string \<Rightarrow> yt_options \<Rightarrow> nat \<Rightarrow> world \<Rightarrow> jsval list \<times> world" where
  "getRelatedTracks env videoId options limit w =
     (case initializeYouTube env options w of
        (None, w1) \<Rightarrow> ([], w1)
      | (Some yt, w1) \<Rightarrow>
          (let w2 = emit (YtGetInfo yt videoId) w1
           in case yt_getInfo env (trace w1) videoId of
                Rejects e \<Rightarrow> ([], w2)
              | Resolves info \<Rightarrow>
                  if \<not> truthy info \<or> \<not> truthy (jsget info ''watch_next_feed'') then ([], w2)
                  else (case jsget info ''watch_next_feed'' of
                          Arr items \<Rightarrow>
                            if list_ex nullish items then ([], w2)
                            else (map (videoTrack env) (take limit (filter playable items)), w2)
                        | v \<Rightarrow> ([], w2))))"

section \<open>Playlists\<close>

text \<open>\<^verbatim>\<open>s.includes(sub)\<close> and \<^verbatim>\<open>s.startsWith(p)\<close>.\<close>

definition startsWith :: "string \<Rightarrow> string \<Rightarrow> bool" where
  "startsWith s p = (take (length p) s = p)"

fun str_includes :: "string \<Rightarrow> string \<Rightarrow> bool" where
  "str_includes [] sub = (sub = [])"
| "str_includes (c # cs) sub = (startsWith (c # cs) sub \<or> str_includes cs sub)"

text \<open>
  The callback of a playlist entry; its \<^verbatim>\<open>try\<close>/\<^verbatim>\<open>catch\<close> turns the \<^verbatim>\<open>TypeError\<close> of a
  nullish entry into \<^verbatim>\<open>null\<close>:
  \<^verbatim>\<open>
  async (video) => {
      try {
          const videoId = video.id || video.video_id;
          const title = video.title?.text || video.title || 'Unknown Title';
          const author = video.author?.name || video.channel?.name || 'Unknown Artist';
          const duration = video.duration?.text || video.duration || 'Unknown';
          const thumbnail = video.thumbnails?.[0]?.url || video.thumbnail?.url || null;
          const views = video.view_count?.text || video.views || '0';
          if (!videoId) { return null; }
          return { id: videoId, title: title, duration: duration, thumbnail: thumbnail,
                   url: `https://www.youtube.com/watch?v=${videoId}`, author: author, views: views };
      } catch (error) { return null; }
  }
  \<close>
\<close>

definition playlistEntry :: "env \<Rightarrow> jsval \<Rightarrow> jsval" where
  "playlistEntry env video =
     (if nullish video then Null
      else
        (let videoId = js_or (jsget video ''id'') (jsget video ''video_id'');
             title = js_or (js_or (jsget (jsget video ''title'') ''text'') (jsget video ''title''))
                           (Str ''Unknown Title'');
             author = js_or (js_or (jsget (jsget video ''author'') ''name'')
                                   (jsget (jsget video ''channel'') ''name''))
                            (Str ''Unknown Artist'');
             duration = js_or (js_or (jsget (jsget video ''duration'') ''text'') (jsget video ''duration''))
                              (Str ''Unknown'');
             thumbnail = js_or (js_or (jsget (at0 (jsget video ''thumbnails'')) ''url'')
                                      (jsget (jsget video ''thumbnail'') ''url''))
                               Null;
             views = js_or (js_or (jsget (jsget video ''view_count'') ''text'') (jsget video ''views''))
                           (Str ''0'')
         in if \<not> truthy videoId then Null
            else Obj [
              (''id'', videoId),
              (''title'', title),
              (''duration'', duration),
              (''thumbnail'', thumbnail),
              (''url'', Str (''https://www.youtube.com/watch?v='' @ to_str env videoId)),
              (''author'', author),
              (''views'', views)]))"

text \<open>
  \<^verbatim>\<open>Promise.allSettled\<close> gives one result per promise, at the promise's position, whatever
  the order in which the promises settle. The callback above never rejects.
\<close>

datatype settlement = Fulfilled jsval | Rejected error

fun settlement_value :: "settlement \<Rightarrow> jsval" where
  "settlement_value (Fulfilled v) = v"
| "settlement_value (Rejected e) = Undefined"

fun fulfilled_not_null :: "settlement \<Rightarrow> bool" where
  "fulfilled_not_null (Fulfilled v) = (v \<noteq> Null)"
| "fulfilled_not_null (Rejected e) = False"

definition batchSize :: nat where
  "batchSize = 10"

text \<open>
  One turn of the loop body, for the batch \<^verbatim>\<open>videos.slice(i, i + batchSize)\<close>:
  \<^verbatim>\<open>
  const batchResults = await Promise.allSettled(batchPromises);
  const validResults = batchResults
      .filter(result => result.status === 'fulfilled' && result.value !== null)
      .map(result => result.value);
  \<close>
\<close>

definition validResults :: "env \<Rightarrow> jsval list \<Rightarrow> jsval list" where
  "validResults env batch =
     (let batchResults = map (\<lambda>video. Fulfilled (playlistEntry env video)) batch
      in map settlement_value (filter fulfilled_not_null batchResults))"

text \<open>
  \<^verbatim>\<open>for (let i = 0; i < videos.length; i += batchSize) { ...; tracks.push(...validResults); }\<close>
\<close>

function batchLoop :: "env \<Rightarrow> nat \<Rightarrow> jsval list \<Rightarrow> jsval list \<Rightarrow> jsval list" where
  "batchLoop env i videos tracks =
     (if i < length videos
      then batchLoop env (i + batchSize) videos
             (tracks @ validResults env (take batchSize (drop i videos)))
      else tracks)"
  by pat_completeness auto
termination
  by (relation "measure (\<lambda>(env, i, videos, tracks). length videos - i)") (auto simp: batchSize_def)

declare batchLoop.simps [simp del]

text \<open>The batches the loop takes, in the order it takes them.\<close>

function batches :: "nat \<Rightarrow> jsval list \<Rightarrow> jsval list list" where
  "batches i videos =
     (if i < length videos
      then take batchSize (drop i videos) # batches (i + batchSize) videos
      else [])"
  by pat_completeness auto
termination
  by (relation "measure (\<lambda>(i, videos). length videos - i)") (auto simp: batchSize_def)

declare batches.simps [simp del]

text \<open>The playlist object returned for an ordinary playlist.\<close>

definition playlistObject :: "string \<Rightarrow> jsval \<Rightarrow> jsval list \<Rightarrow> jsval" where
  "playlistObject playlistId playlist tracks = Obj [
     (''id'', Str playlistId),
     (''title'', js_or (js_or (jsget (jsget playlist ''info'') ''title'')
                              (jsget (jsget playlist ''title'') ''text''))
                       (Str ''Unknown Playlist'')),
     (''description'', js_or (js_or (jsget (jsget playlist ''info'') ''description'')
                                    (jsget (jsget playlist ''description'') ''text''))
                             (Str '''')),
     (''thumbnail'', js_or (js_or (jsget (at0 (jsget (jsget playlist ''info'') ''thumbnails'')) ''url'')
                                  (jsget (at0 (jsget playlist ''thumbnails'')) ''url''))
                           Null),
     (''author'', js_or (js_or (jsget (jsget (jsget playlist ''info'') ''author'') ''name'')
                               (jsget (jsget playlist ''author'') ''name''))
                        (Str ''Unknown'')),
     (''url'', Str (''https://www.youtube.com/playlist?list='' @ playlistId)),
     (''tracks'', Arr tracks)]"

text \<open>
  The inner \<^verbatim>\<open>try\<close> block of the mix branch, given how \<^verbatim>\<open>yt.getInfo(seedVideoId)\<close>
  settled. A feed that is present but not an array, or that holds a nullish item, throws
  a \<^verbatim>\<open>TypeError\<close> (its message is the engine's).
\<close>

definition mixFromSeed :: "env \<Rightarrow> string \<Rightarrow> string \<Rightarrow> settled \<Rightarrow> error + jsval" where
  "mixFromSeed env playlistId seedVideoId outcome =
     (case outcome of
        Rejects e \<Rightarrow> Inl e
      | Resolves seedVideo \<Rightarrow>
          if \<not> truthy seedVideo then Inl ''Seed video not found''
          else
            (let basic = jsget seedVideo ''basic_info'';
                 seed = Obj [
                   (''id'', Str seedVideoId),
                   (''title'', js_or (jsget basic ''title'') (Str ''Unknown Title'')),
                   (''duration'', js_or (jsget (jsget basic ''duration'') ''text'') (Str ''Unknown'')),
                   (''thumbnail'', js_or (jsget (at0 (jsget basic ''thumbnail'')) ''url'') Null),
                   (''url'', Str (''https://www.youtube.com/watch?v='' @ seedVideoId)),
                   (''author'', js_or (jsget basic ''author'') (Str ''Unknown Artist'')),
                   (''views'', js_or (jsget basic ''view_count'') (Str ''0''))];
                 feed = jsget seedVideo ''watch_next_feed'';
                 related =
                   (if truthy feed
                    then (case feed of
                            Arr items \<Rightarrow>
                              if list_ex nullish items
                              then Inl ''Cannot read properties of undefined (reading type)''
                              else Inr (map (videoTrack env) (take 19 (filter playable items)))
                          | v \<Rightarrow> Inl ''seedVideo.watch_next_feed.filter is not a function'')
                    else Inr [])
             in case related of
                  Inl e \<Rightarrow> Inl e
                | Inr relatedVideos \<Rightarrow> Inr (Obj [
                    (''id'', Str playlistId),
                    (''title'', Str (''Mix - '' @ to_str env (js_or (jsget basic ''title'') (Str ''Unknown'')))),
                    (''description'', Str ''YouTube Mix playlist (auto-generated)''),
                    (''thumbnail'', js_or (jsget (at0 (jsget basic ''thumbnail'')) ''url'') Null),
                    (''author'', Str ''YouTube''),
                    (''url'', Str (''https://www.youtube.com/playlist?list='' @ playlistId)),
                    (''tracks'', Arr (seed # relatedVideos))])))"

text \<open>
  The body of the outer \<^verbatim>\<open>try\<close> of \<^verbatim>\<open>getYouTubePlaylist\<close>. For \<^verbatim>\<open>videos\<close> that is a
  non-empty string the loop runs and \<^verbatim>\<open>batch.map\<close> is not a function; for any other value
  that is not an array \<^verbatim>\<open>videos.length\<close> is \<^verbatim>\<open>undefined\<close> and the loop does not run.
\<close>

definition playlistBody :: "env \<Rightarrow> string \<Rightarrow> yt_options \<Rightarrow> world \<Rightarrow> (error + jsval) \<times> world" where
  "playlistBody env playlistId options w =
     (if startsWith playlistId ''RD'' then
        (let seedVideoId = (if length playlistId > 2 then Some (drop 2 playlistId) else None)
         in case seedVideoId of
              None \<Rightarrow> (Inl ''Invalid YouTube Mix playlist ID format'', w)
            | Some seed \<Rightarrow>
                if length seed \<noteq> 11 then (Inl ''Invalid YouTube Mix playlist ID format'', w)
                else (case initializeYouTube env options w of
                        (None, w1) \<Rightarrow> (Inl ''YouTube service not available'', w1)
                      | (Some yt, w1) \<Rightarrow>
                          (case mixFromSeed env playlistId seed (yt_getInfo env (trace w1) seed) of
                             Inl mixError \<Rightarrow>
                               (Inl ''Unable to access Mix playlist. This may be a private or unavailable Mix.'',
                                emit (YtGetInfo yt seed) w1)
                           | Inr mix \<Rightarrow> (Inr mix, emit (YtGetInfo yt seed) w1))))
      else
        (case initializeYouTube env options w of
           (None, w1) \<Rightarrow> (Inl ''YouTube service not available'', w1)
         | (Some yt, w1) \<Rightarrow>
             (let w2 = emit (YtGetPlaylist yt playlistId) w1
              in case yt_getPlaylist env (trace w1) playlistId of
                   None \<Rightarrow> (Inl ''Playlist request timeout'', w2)
                 | Some (Rejects e) \<Rightarrow> (Inl e, w2)
                 | Some (Resolves playlist) \<Rightarrow>
                     if \<not> truthy playlist then (Inl ''Playlist not found or inaccessible'', w2)
                     else if \<not> truthy (jsget playlist ''videos'') \<and> \<not> truthy (jsget playlist ''items'')
                     then (Inl ''Playlist is private or unavailable. Please check your authentication.'', w2)
                     else (case js_or (js_or (jsget playlist ''videos'') (jsget playlist ''items'')) (Arr []) of
                             Arr videos \<Rightarrow>
                               if videos = [] then (Inr (playlistObject playlistId playlist []), w2)
                               else (Inr (playlistObject playlistId playlist (batchLoop env 0 videos [])), w2)
                           | Str s \<Rightarrow> (Inl ''batch.map is not a function'', w2)
                           | v \<Rightarrow> (Inr (playlistObject playlistId playlist []), w2)))))"

text \<open>
  The outer \<^verbatim>\<open>catch\<close>:
  \<^verbatim>\<open>
  if (error.message.includes('unviewable') || error.message.includes('private')) {
      throw new Error('This playlist is private or requires authentication. Please check your YouTube cookies.');
  } else if (error.message.includes('timeout')) {
      throw new Error('Playlist request timed out. Please try again.');
  } else if (error.message.includes('not found')) {
      throw new Error('Playlist not found. Please check the playlist ID.');
  }
  throw error;
  \<close>
\<close>

definition playlistCatch :: "error \<Rightarrow> error" where
  "playlistCatch message =
     (if str_includes message ''unviewable'' \<or> str_includes message ''private''
      then ''This playlist is private or requires authentication. Please check your YouTube cookies.''
      else if str_includes message ''timeout'' then ''Playlist request timed out. Please try again.''
      else if str_includes message ''not found'' then ''Playlist not found. Please check the playlist ID.''
      else message)"

definition getYouTubePlaylist :: "env \<Rightarrow> string \<Rightarrow> yt_options \<Rightarrow> world \<Rightarrow> (error + jsval) \<times> world" where
  "getYouTubePlaylist env playlistId options w =
     (case playlistBody env playlistId options w of
        (Inl e, w') \<Rightarrow> (Inl (playlistCatch e), w')
      | (Inr playlist, w') \<Rightarrow> (Inr playlist, w'))"

section \<open>External extractor client\<close>

text \<open>\<^verbatim>\<open>s.trim()\<close> and \<^verbatim>\<open>s.split(c)\<close> for a one-character separator.\<close>

definition trim :: "string \<Rightarrow> string" where
  "trim s = rev (dropWhile is_space (rev (dropWhile is_space s)))"

fun split_on :: "char \<Rightarrow> string \<Rightarrow> string list" where
  "split_on d [] = [[]]"
| "split_on d (c # cs) =
     (if c = d then [] # split_on d cs
      else (case split_on d cs of [] \<Rightarrow> [[c]] | x # xs \<Rightarrow> (c # x) # xs))"

text \<open>
  \<^verbatim>\<open>convertToNetscapeFormat(browserCookies)\<close>. One turn of its loop appends the line of a
  cookie \<open>ck\<close> of the form \<^verbatim>\<open>name=value\<close>, or skips it:
  \<^verbatim>\<open>
  if (!cookie || !cookie.includes('=')) continue;
  const [name, ...valueParts] = cookie.split('=');
  const value = valueParts.join('=');
  if (!name || !value) continue;
  const secure = name.includes('Secure') ? 'TRUE' : 'FALSE';
  netscapeCookies += `.youtube.com\tTRUE\t/\t${secure}\t0\t${name.trim()}\t${value.trim()}\n`;
  \<close>
  On a credential that is not a string \<^verbatim>\<open>browserCookies.split\<close> throws, and the function's
  \<^verbatim>\<open>catch\<close> returns the credential as it came.
\<close>

definition cookieLine :: "string \<Rightarrow> string \<Rightarrow> string" where
  "cookieLine netscapeCookies ck =
     (if ck = [] \<or> \<not> str_includes ck ''='' then netscapeCookies
      else
        (case split_on (CHR ''='') ck of
           [] \<Rightarrow> netscapeCookies
         | name # valueParts \<Rightarrow>
             (let val = join ''='' valueParts
              in if name = [] \<or> val = [] then netscapeCookies
                 else netscapeCookies @ ''.youtube.com'' @ [CHR 0x09] @ ''TRUE'' @ [CHR 0x09] @ ''/''
                        @ [CHR 0x09] @ (if str_includes name ''Secure'' then ''TRUE'' else ''FALSE'')
                        @ [CHR 0x09] @ ''0'' @ [CHR 0x09] @ trim name @ [CHR 0x09] @ trim val
                        @ [CHR 0x0A])))"

definition convertToNetscapeFormat :: "cookies \<Rightarrow> cookies" where
  "convertToNetscapeFormat browserCookies =
     (case browserCookies of
        CString s \<Rightarrow>
          CString (foldl cookieLine
                     (''# Netscape HTTP Cookie File'' @ [CHR 0x0A]
                        @ ''# This is a generated file! Do not edit.'' @ [CHR 0x0A, CHR 0x0A])
                     (map trim (split_on (CHR '';'') s)))
      | other \<Rightarrow> other)"

text \<open>
  The temporary cookie-jar files, \<^verbatim>\<open>path.join(__dirname, 'temp_cookies.txt')\<close> for stream
  resolution and \<^verbatim>\<open>path.join(__dirname, 'temp_cookies_metadata.txt')\<close> for the metadata
  fetch.
\<close>

definition tempCookiesFile :: "env \<Rightarrow> string" where
  "tempCookiesFile env = dirname env @ ''/temp_cookies.txt''"

definition tempCookiesMetadataFile :: "env \<Rightarrow> string" where
  "tempCookiesMetadataFile env = dirname env @ ''/temp_cookies_metadata.txt''"

text \<open>
  The two file operations around a run. A write that throws leaves no file; in both
  functions the \<^verbatim>\<open>catch\<close> around the write lets the call go on without the
  \<^verbatim>\<open>--cookies\<close> argument.
  \<^verbatim>\<open>
  try {
      const netscapeCookies = convertToNetscapeFormat(cookies);
      fs.writeFileSync(tempCookiesFile, netscapeCookies);
      args.push('--cookies', tempCookiesFile);
  } catch (cookieError) { }
  \<close>
\<close>

definition writeCookies :: "env \<Rightarrow> string \<Rightarrow> cookies \<Rightarrow> string list \<Rightarrow> world \<Rightarrow> string list \<times> world" where
  "writeCookies env file cookies args w =
     (let netscapeCookies = convertToNetscapeFormat cookies;
          w1 = emit (WriteFile file netscapeCookies) w
      in if write_ok env (trace w)
         then (args @ [''--cookies'', file], w1\<lparr>files := insert file (files w1)\<rparr>)
         else (args, w1))"

text \<open>
  \<^verbatim>\<open>
  try {
      if (fs.existsSync(tempCookiesFile)) { fs.unlinkSync(tempCookiesFile); }
  } catch (cleanupError) { }
  \<close>
\<close>

definition cleanupCookies :: "env \<Rightarrow> string \<Rightarrow> world \<Rightarrow> world" where
  "cleanupCookies env file w =
     (if file \<in> files w
      then (let w1 = emit (Unlink file) w
            in if unlink_ok env (trace w) then w1\<lparr>files := files w1 - {file}\<rparr> else w1)
      else w)"

definition streamArgs :: "string \<Rightarrow> string list" where
  "streamArgs quality =
     [''-f'', quality, ''--get-url'', ''--no-playlist'', ''--no-warnings'',
      ''--no-check-certificates'', ''--prefer-insecure'', ''--skip-download'',
      ''--no-call-home'', ''--no-cache-dir'', ''--socket-timeout'', ''10'',
      ''--retries'', ''3'', ''--fragment-retries'', ''3'']"

text \<open>\<^verbatim>\<open>`"${ytdlpPath}" ${args.join(' ')} "${url}"`\<close>\<close>

definition commandLine :: "string \<Rightarrow> string list \<Rightarrow> string \<Rightarrow> string" where
  "commandLine ytdlpPath args url =
     [CHR 0x22] @ ytdlpPath @ [CHR 0x22] @ '' '' @ join '' '' args @ '' '' @ [CHR 0x22] @ url @ [CHR 0x22]"

text \<open>
  \<^verbatim>\<open>getStreamingUrl(url, ytdlpPath, quality, cookies)\<close>. The cookie file is written when
  \<^verbatim>\<open>cookies && typeof cookies === 'string' && cookies.trim()\<close>; the clean-up, under
  \<^verbatim>\<open>if (cookies)\<close>, stands after the \<^verbatim>\<open>await execAsync(...)\<close>, so it is reached only when
  the run resolves. The outer \<^verbatim>\<open>catch\<close> logs and rethrows.
\<close>

definition getStreamingUrl ::
    "env \<Rightarrow> string \<Rightarrow> string \<Rightarrow> string \<Rightarrow> cookies \<Rightarrow> world \<Rightarrow> (error + string) \<times> world" where
  "getStreamingUrl env url ytdlpPath quality cookies w =
     (if ytdlpPath \<notin> files w then (Inl (''yt-dlp binary not found at: '' @ ytdlpPath), w)
      else
        (case (case cookies of
                 CString s \<Rightarrow>
                   if s \<noteq> [] \<and> trim s \<noteq> []
                   then writeCookies env (tempCookiesFile env) cookies (streamArgs quality) w
                   else (streamArgs quality, w)
               | other \<Rightarrow> (streamArgs quality, w)) of
           (optimizedArgs, w1) \<Rightarrow>
             (let command = commandLine ytdlpPath optimizedArgs url;
                  w2 = emit (Exec command) w1
              in case exec env (trace w1) command of
                   ExecErr e \<Rightarrow> (Inl e, w2)
                 | ExecOk stdout stderr \<Rightarrow>
                     (let w3 = (if cookies_truthy cookies
                                then cleanupCookies env (tempCookiesFile env) w2 else w2)
                      in if stderr \<noteq> [] \<and> stdout = [] then (Inl (''yt-dlp error: '' @ stderr), w3)
                         else if trim stdout = [] \<or> \<not> startsWith (trim stdout) ''http''
                         then (Inl ''Invalid streaming URL returned'', w3)
                         else (Inr (trim stdout), w3)))))"

text \<open>
  What \<^verbatim>\<open>getStreamingUrl\<close> makes of the end of a run, read off the lines after
  \<^verbatim>\<open>await execAsync(...)\<close>: the error of the run, the diagnostic text, the rejection of
  an output that is not a URL, or the trimmed output.
\<close>

definition streamOutcome :: "exec_outcome \<Rightarrow> error + string" where
  "streamOutcome r =
     (case r of
        ExecErr e \<Rightarrow> Inl e
      | ExecOk out err \<Rightarrow>
          if err \<noteq> [] \<and> out = [] then Inl (''yt-dlp error: '' @ err)
          else if trim out = [] \<or> \<not> startsWith (trim out) ''http''
          then Inl ''Invalid streaming URL returned''
          else Inr (trim out))"

text \<open>\<^verbatim>\<open>info.duration ? formatDuration(info.duration) : 'Unknown'\<close>\<close>

definition durationField :: "env \<Rightarrow> jsval \<Rightarrow> jsval" where
  "durationField env info =
     (if truthy (jsget info ''duration'')
      then Str (formatDuration env (jsget info ''duration''))
      else Str ''Unknown'')"

definition metadataArgs :: "string list" where
  "metadataArgs =
     [''-J'', ''--no-playlist'', ''--no-warnings'', ''--no-check-certificates'',
      ''--socket-timeout'', ''10'', ''--retries'', ''2'']"

text \<open>
  \<^verbatim>\<open>getYouTubeMetadataWithYtDlp(videoId, ytdlpPath, cookies)\<close>. The cookie file is written
  under \<^verbatim>\<open>if (cookies)\<close>, and removed, under the same test, after
  \<^verbatim>\<open>await execAsync(...)\<close> has resolved. \<^verbatim>\<open>JSON.parse\<close> may throw, and so does
  \<^verbatim>\<open>info.title\<close> on a document that is \<^verbatim>\<open>null\<close>.
\<close>

definition getYouTubeMetadataWithYtDlp ::
    "env \<Rightarrow> string \<Rightarrow> string \<Rightarrow> cookies \<Rightarrow> world \<Rightarrow> (error + jsval) \<times> world" where
  "getYouTubeMetadataWithYtDlp env videoId ytdlpPath cookies w =
     (if ytdlpPath \<notin> files w then (Inl (''yt-dlp binary not found at: '' @ ytdlpPath), w)
      else
        (case (if cookies_truthy cookies
               then writeCookies env (tempCookiesMetadataFile env) cookies metadataArgs w
               else (metadataArgs, w)) of
           (args, w1) \<Rightarrow>
             (let url = ''https://www.youtube.com/watch?v='' @ videoId;
                  command = commandLine ytdlpPath args url;
                  w2 = emit (Exec command) w1
              in case exec env (trace w1) command of
                   ExecErr e \<Rightarrow> (Inl e, w2)
                 | ExecOk stdout stderr \<Rightarrow>
                     (let w3 = (if cookies_truthy cookies
                                then cleanupCookies env (tempCookiesMetadataFile env) w2 else w2)
                      in if stderr \<noteq> [] \<and> stdout = []
                         then (Inl (''yt-dlp metadata error: '' @ stderr), w3)
                         else (case json_parse env stdout of
                                 None \<Rightarrow> (Inl ''Unexpected token in JSON'', w3)
                               | Some info \<Rightarrow>
                                   if nullish info
                                   then (Inl ''Cannot read properties of null (reading title)'', w3)
                                   else (Inr (Obj [
                                     (''id'', Str videoId),
                                     (''title'', js_or (js_or (jsget info ''title'') (jsget info ''fulltitle''))
                                                       (Str ''Unknown Title'')),
                                     (''duration'', durationField env info),
                                     (''thumbnail'', js_or (jsget info ''thumbnail'') Null),
                                     (''url'', Str url),
                                     (''author'', js_or (js_or (jsget info ''uploader'') (jsget info ''channel''))
                                                        (Str ''Unknown Artist'')),
                                     (''views'', js_or (jsget info ''view_count'') (Number (Num 0))),
                                     (''description'', js_or (jsget info ''description'') (Str ''''))]), w3))))))"

text \<open>\<^verbatim>\<open>getBasicInfo(url, ytdlpPath)\<close>, for the sites that are not YouTube.\<close>

definition getBasicInfo :: "env \<Rightarrow> string \<Rightarrow> string \<Rightarrow> world \<Rightarrow> (error + jsval) \<times> world" where
  "getBasicInfo env url ytdlpPath w =
     (if ytdlpPath \<notin> files w then (Inl (''yt-dlp binary not found at: '' @ ytdlpPath), w)
      else
        (let command = [CHR 0x22] @ ytdlpPath @ [CHR 0x22] @ '' -J --flat-playlist --no-warnings ''
                         @ [CHR 0x22] @ url @ [CHR 0x22];
             w1 = emit (Exec command) w
         in case exec env (trace w) command of
              ExecErr e \<Rightarrow> (Inl e, w1)
            | ExecOk stdout stderr \<Rightarrow>
                if stderr \<noteq> [] \<and> stdout = [] then (Inl (''yt-dlp info error: '' @ stderr), w1)
                else (case json_parse env stdout of
                        None \<Rightarrow> (Inl ''Unexpected token in JSON'', w1)
                      | Some info \<Rightarrow>
                          if nullish info
                          then (Inl ''Cannot read properties of null (reading id)'', w1)
                          else (Inr (Obj [
                            (''id'', js_or (jsget info ''id'') (Str ''unknown'')),
                            (''title'', js_or (js_or (jsget info ''title'') (jsget info ''fulltitle''))
                                              (Str ''Unknown Title'')),
                            (''duration'', durationField env info),
                            (''thumbnail'', js_or (jsget info ''thumbnail'') Null),
                            (''url'', js_or (jsget info ''webpage_url'') (Str url)),
                            (''author'', js_or (js_or (jsget info ''uploader'') (jsget info ''channel''))
                                               (Str ''Unknown Artist'')),
                            (''description'', js_or (jsget info ''description'') (Str ''''))]), w1))))"

section \<open>URL validation\<close>

text \<open>
  \<^verbatim>\<open>new URL(s)\<close> throws a \<^verbatim>\<open>TypeError\<close> on a string that does not parse; otherwise the
  code reads only the \<^verbatim>\<open>protocol\<close> of the result (the scheme in lower case, with its colon).
\<close>

definition new_URL :: "env \<Rightarrow> string \<Rightarrow> error + string" where
  "new_URL env s = (case url_protocol env s of None \<Rightarrow> Inl ''Invalid URL'' | Some p \<Rightarrow> Inr p)"

text \<open>\<^verbatim>\<open>isValidUrl\<close>: \<^verbatim>\<open>try { new URL(string); return true; } catch (_) { return false; }\<close>\<close>

definition isValidUrl :: "env \<Rightarrow> string \<Rightarrow> bool" where
  "isValidUrl env s = (case new_URL env s of Inl e \<Rightarrow> False | Inr u \<Rightarrow> True)"

text \<open>
  \<^verbatim>\<open>
  const validateUrl = (url) => {
      if (!url || typeof url !== 'string') { return false; }
      if (!isValidUrl(url)) { return false; }
      const unsupportedProtocols = ['file:', 'ftp:', 'mailto:'];
      const protocol = new URL(url).protocol;
      if (unsupportedProtocols.includes(protocol)) { return false; }
      return true;
  };
  \<close>
  The second \<^verbatim>\<open>new URL(url)\<close> stands outside any \<^verbatim>\<open>try\<close>: were it to throw, so would
  \<^verbatim>\<open>validateUrl\<close>.
\<close>

definition validateUrl :: "env \<Rightarrow> jsval \<Rightarrow> error + bool" where
  "validateUrl env url =
     (case url of
        Str s \<Rightarrow>
          if s = [] then Inr False
          else if \<not> isValidUrl env s then Inr False
          else (case new_URL env s of
                  Inl e \<Rightarrow> Inl e
                | Inr protocol \<Rightarrow>
                    if protocol \<in> set [''file:'', ''ftp:'', ''mailto:''] then Inr False
                    else Inr True)
      | other \<Rightarrow> Inr False)"

section \<open>Resolution orchestrator\<close>

text \<open>
  The extractor object after its constructor has run: \<^verbatim>\<open>youtubeiOptions.cookies\<close> is
  \<^verbatim>\<open>options.youtubeiOptions?.cookies || null\<close>, so it is \<^verbatim>\<open>null\<close> or truthy.
\<close>

record extractor =
  ytdlpPath :: string
  enableYouTubeSearch :: bool
  enableDirectUrls :: bool
  streamQuality :: string
  youtubeiOptions :: yt_options

text \<open>
  \<^verbatim>\<open>this.createResponse(playlist, tracks)\<close> of the host. A \<^verbatim>\<open>Track\<close> and a \<^verbatim>\<open>Playlist\<close> of
  the host are taken as the data they are constructed from.
\<close>

record response =
  resp_playlist :: jsval
  resp_tracks :: "jsval list"

definition createResponse :: "jsval \<Rightarrow> jsval list \<Rightarrow> response" where
  "createResponse p ts = \<lparr>resp_playlist = p, resp_tracks = ts\<rparr>"

text \<open>
  \<^verbatim>\<open>
  new Track(this, { title: trackInfo.title, author: trackInfo.author, duration: trackInfo.duration,
                    url: trackInfo.url, thumbnail: trackInfo.thumbnail, source: 'ytdlp-extractor',
                    raw: ..., requestedBy: ..., queryType: ... })
  \<close>
\<close>

definition newTrack :: "jsval \<Rightarrow> jsval \<Rightarrow> jsval \<Rightarrow> string \<Rightarrow> (string \<times> jsval) list \<Rightarrow> jsval" where
  "newTrack trackInfo raw requestedBy queryType extra = Obj ([
     (''title'', jsget trackInfo ''title''),
     (''author'', jsget trackInfo ''author''),
     (''duration'', jsget trackInfo ''duration''),
     (''url'', jsget trackInfo ''url''),
     (''thumbnail'', jsget trackInfo ''thumbnail''),
     (''source'', Str ''ytdlp-extractor''),
     (''raw'', raw),
     (''requestedBy'', requestedBy),
     (''queryType'', Str queryType)] @ extra)"

text \<open>\<^verbatim>\<open>{ ...obj, k1: v1, ... }\<close>: the later properties replace those of the same name.\<close>

definition spread_with :: "jsval \<Rightarrow> (string \<times> jsval) list \<Rightarrow> jsval" where
  "spread_with obj extra =
     (case obj of
        Obj kvs \<Rightarrow> Obj (filter (\<lambda>kv. fst kv \<notin> set (map fst extra)) kvs @ extra)
      | other \<Rightarrow> Obj extra)"

definition cookiesOrNull :: "extractor \<Rightarrow> cookies" where
  "cookiesOrNull this =
     (if cookies_truthy (opt_cookies (youtubeiOptions this))
      then opt_cookies (youtubeiOptions this) else CNull)"

text \<open>
  \<^verbatim>\<open>handleYouTubePlaylist(url, context)\<close>. The test
  \<^verbatim>\<open>!playlistInfo || !playlistInfo.tracks || playlistInfo.tracks.length === 0\<close> throws for a
  playlist without tracks. The \<^verbatim>\<open>catch\<close> logs and rethrows. Each track refers to the
  playlist and the playlist to its tracks; the playlist inside a track is given here
  with the empty \<^verbatim>\<open>tracks\<close> it is constructed with.
\<close>

definition handleYouTubePlaylist ::
    "env \<Rightarrow> extractor \<Rightarrow> string \<Rightarrow> jsval \<Rightarrow> world \<Rightarrow> (error + response) \<times> world" where
  "handleYouTubePlaylist env this url context w =
     (case extractYouTubePlaylistId url of
        None \<Rightarrow> (Inl ''Could not extract playlist ID'', w)
      | Some playlistId \<Rightarrow>
          if playlistId = [] then (Inl ''Could not extract playlist ID'', w)
          else
            (case getYouTubePlaylist env playlistId (youtubeiOptions this) w of
               (Inl e, w1) \<Rightarrow> (Inl e, w1)
             | (Inr playlistInfo, w1) \<Rightarrow>
                 if \<not> truthy playlistInfo \<or> \<not> truthy (jsget playlistInfo ''tracks'')
                    \<or> jsget playlistInfo ''tracks'' = Arr []
                 then (Inl ''Could not get playlist information or playlist is empty'', w1)
                 else
                   (case jsget playlistInfo ''tracks'' of
                      Arr trackList \<Rightarrow>
                        if list_ex nullish trackList \<or> nullish context
                        then (Inl ''Cannot read properties of undefined'', w1)
                        else
                          (let fields = [
                                 (''title'', jsget playlistInfo ''title''),
                                 (''description'', jsget playlistInfo ''description''),
                                 (''thumbnail'', jsget playlistInfo ''thumbnail''),
                                 (''type'', Str ''playlist''),
                                 (''source'', Str ''ytdlp-extractor''),
                                 (''author'', Obj [(''name'', jsget playlistInfo ''author''), (''url'', Null)])];
                               rest = [
                                 (''id'', Str playlistId),
                                 (''url'', jsget playlistInfo ''url''),
                                 (''rawPlaylist'', playlistInfo)];
                               created = Obj (fields @ [(''tracks'', Arr [])] @ rest);
                               newTracks = map (\<lambda>trackData.
                                   newTrack trackData trackData (jsget context ''requestedBy'')
                                     ''arbitrary'' [(''playlist'', created)]) trackList
                           in (Inr (createResponse (Obj (fields @ [(''tracks'', Arr newTracks)] @ rest))
                                      newTracks), w1))
                    | other \<Rightarrow> (Inl ''playlistInfo.tracks.map is not a function'', w1))))"

text \<open>
  \<^verbatim>\<open>handleDirectUrl(url, context)\<close>. For a single video the extractor's document is tried
  first and the metadata backend second; for a site that is not YouTube there is only
  \<^verbatim>\<open>getBasicInfo\<close>. The \<^verbatim>\<open>catch\<close> logs and rethrows.
\<close>

definition handleDirectUrl ::
    "env \<Rightarrow> extractor \<Rightarrow> string \<Rightarrow> jsval \<Rightarrow> world \<Rightarrow> (error + response) \<times> world" where
  "handleDirectUrl env this url context w =
     (case validateUrl env (Str url) of
        Inl e \<Rightarrow> (Inl e, w)
      | Inr False \<Rightarrow> (Inl ''Invalid URL format'', w)
      | Inr True \<Rightarrow>
          if isYouTubeUrl url then
            (if isYouTubePlaylistUrl url then handleYouTubePlaylist env this url context w
             else
               (case extractYouTubeId url of
                  None \<Rightarrow> (Inl ''Could not extract YouTube video ID'', w)
                | Some videoId \<Rightarrow>
                    if videoId = [] then (Inl ''Could not extract YouTube video ID'', w)
                    else
                      (case (case getYouTubeMetadataWithYtDlp env videoId (ytdlpPath this)
                                    (cookiesOrNull this) w of
                               (Inr info, w1) \<Rightarrow> (info, w1)
                             | (Inl ytdlpError, w1) \<Rightarrow>
                                 getYouTubeMetadata env videoId (youtubeiOptions this) w1) of
                         (trackInfo, w2) \<Rightarrow>
                           if \<not> truthy trackInfo then (Inl ''Could not get YouTube metadata'', w2)
                           else if nullish context then (Inl ''Cannot read properties of undefined'', w2)
                           else (Inr (createResponse Null
                                   [newTrack trackInfo trackInfo (jsget context ''requestedBy'')
                                      ''arbitrary'' []]), w2))))
          else
            (case getBasicInfo env url (ytdlpPath this) w of
               (Inl e, w1) \<Rightarrow> (Inl e, w1)
             | (Inr trackInfo, w1) \<Rightarrow>
                 if nullish context then (Inl ''Cannot read properties of undefined'', w1)
                 else (Inr (createResponse Null
                         [newTrack trackInfo trackInfo (jsget context ''requestedBy'')
                            ''arbitrary'' []]), w1)))"

text \<open>
  \<^verbatim>\<open>handleSearchQuery(query, context)\<close>: its \<^verbatim>\<open>catch\<close> returns the empty response.
\<close>

definition handleSearchQuery ::
    "env \<Rightarrow> extractor \<Rightarrow> string \<Rightarrow> jsval \<Rightarrow> world \<Rightarrow> (error + response) \<times> world" where
  "handleSearchQuery env this query context w =
     (if \<not> enableYouTubeSearch this then (Inr (createResponse Null []), w)
      else
        (case searchYouTube env query 1 (youtubeiOptions this) w of
           (searchResults, w1) \<Rightarrow>
             (case searchResults of
                [] \<Rightarrow> (Inr (createResponse Null []), w1)
              | result # others \<Rightarrow>
                  if nullish result \<or> nullish context then (Inr (createResponse Null []), w1)
                  else (Inr (createResponse Null
                          [newTrack result
                             (spread_with result
                                [(''originalQuery'', Str query), (''searchMethod'', Str ''youtubei'')])
                             (jsget context ''requestedBy'') ''youtubeSearch'' []]), w1))))"

text \<open>
  \<^verbatim>\<open>
  async handle(query, context) {
      try {
          if (isValidUrl(query)) { return await this.handleDirectUrl(query, context); }
          else { return await this.handleSearchQuery(query, context); }
      } catch (error) {
          this.debug(`Handle error: ${error.message}`);
          return this.createResponse(null, []);
      }
  }
  \<close>
\<close>

definition handle ::
    "env \<Rightarrow> extractor \<Rightarrow> string \<Rightarrow> jsval \<Rightarrow> world \<Rightarrow> (error + response) \<times> world" where
  "handle env this query context w =
     (case (if isValidUrl env query then handleDirectUrl env this query context w
            else handleSearchQuery env this query context w) of
        (Inl e, w1) \<Rightarrow> (Inr (createResponse Null []), w1)
      | (Inr r, w1) \<Rightarrow> (Inr r, w1))"

text \<open>
  \<^verbatim>\<open>stream(info)\<close>: the URL is \<^verbatim>\<open>info.url || info.raw?.url\<close>, the credential
  \<^verbatim>\<open>this.youtubeiOptions?.cookies || null\<close>. The \<^verbatim>\<open>catch\<close> logs and rethrows.
\<close>

definition stream :: "env \<Rightarrow> extractor \<Rightarrow> jsval \<Rightarrow> world \<Rightarrow> (error + string) \<times> world" where
  "stream env this info w =
     (if nullish info then (Inl ''Cannot read properties of undefined'', w)
      else
        (let url = js_or (jsget info ''url'') (jsget (jsget info ''raw'') ''url'')
         in if \<not> truthy url then (Inl ''No URL found in track info'', w)
            else
              (case getStreamingUrl env (to_str env url) (ytdlpPath this) (streamQuality this)
                      (cookiesOrNull this) w of
                 (Inl e, w1) \<Rightarrow> (Inl e, w1)
               | (Inr streamUrl, w1) \<Rightarrow>
                   if streamUrl = [] \<or> \<not> startsWith streamUrl ''http''
                   then (Inl ''Invalid streaming URL returned'', w1)
                   else (Inr streamUrl, w1))))"

text \<open>
  \<^verbatim>\<open>getRelatedTracks(track, history)\<close> of the extractor; \<open>history\<close> is the array
  \<^verbatim>\<open>history.tracks.toArray()\<close>. Every failure inside is caught and gives the empty
  response. The URLs compared are strings on the side of the candidates, where
  \<^verbatim>\<open>!==\<close> and \<^verbatim>\<open>Set.has\<close> are equality of values.
\<close>

definition extractor_getRelatedTracks ::
    "env \<Rightarrow> extractor \<Rightarrow> jsval \<Rightarrow> jsval list \<Rightarrow> world \<Rightarrow> response \<times> world" where
  "extractor_getRelatedTracks env this track history w =
     (if nullish track then (createResponse Null [], w)
      else
        (case jsget track ''url'' of
           Str url \<Rightarrow>
             if \<not> isYouTubeUrl url then (createResponse Null [], w)
             else
               (case extractYouTubeId url of
                  None \<Rightarrow> (createResponse Null [], w)
                | Some videoId \<Rightarrow>
                    if videoId = [] then (createResponse Null [], w)
                    else
                      (case getRelatedTracks env videoId (youtubeiOptions this) 10 w of
                         (found, w1) \<Rightarrow>
                           (case (if found = []
                                  then (if truthy (jsget track ''author'')
                                           \<and> jsget track ''author'' \<noteq> Str ''Unknown Artist''
                                        then searchYouTube env (to_str env (jsget track ''author'') @ '' music'')
                                               5 (youtubeiOptions this) w1
                                        else (found, w1))
                                  else (found, w1)) of
                              (relatedTracks, w2) \<Rightarrow>
                                if list_ex nullish history then (createResponse Null [], w2)
                                else
                                  (let historyUrls = set (map (\<lambda>t. jsget t ''url'') history);
                                       filteredTracks = filter (\<lambda>trackData.
                                           jsget trackData ''url'' \<notin> historyUrls
                                           \<and> jsget trackData ''url'' \<noteq> jsget track ''url'') relatedTracks
                                   in if filteredTracks = [] then (createResponse Null [], w2)
                                      else (createResponse Null
                                              (map (\<lambda>trackData.
                                                 newTrack trackData
                                                   (spread_with trackData
                                                      [(''relatedTo'', jsget track ''url''),
                                                       (''autoplay'', Boolean True)])
                                                   (jsget track ''requestedBy'') ''autoplay'' [])
                                                 (take 5 filteredTracks)), w2)))))
         | other \<Rightarrow> (createResponse Null [], w)))"

section \<open>An example deployment\<close>

text \<open>
  A concrete outside world on which the theorems below are instantiated: the module lives
  in \<^verbatim>\<open>/app\<close>, \<^verbatim>\<open>https\<close> and \<^verbatim>\<open>file\<close> URLs parse, sessions can be created, searches and
  playlists come back empty, \<^verbatim>\<open>getInfo\<close> rejects, and the external extractor fails.
  The two conversions between numbers and strings are tables with the entries the
  examples use.
\<close>

definition example_env :: env where
  "example_env = \<lparr>
     dirname = ''/app'',
     url_protocol = (\<lambda>s. if startsWith s ''https://'' then Some ''https:''
                         else if startsWith s ''file://'' then Some ''file:'' else None),
     json_parse = (\<lambda>s. None),
     number_text = (\<lambda>q. if q = 3 / 2 then ''1.5'' else ''1e+21''),
     string_to_number = (\<lambda>s. if s = [] then Num 0 else if s = ''90'' then Num 90 else NaN),
     create_ok = (\<lambda>tr io. True),
     yt_search = (\<lambda>tr q. Some (Resolves (Obj [(''videos'', Arr [])]))),
     yt_getInfo = (\<lambda>tr i. Rejects ''Video unavailable''),
     yt_getPlaylist = (\<lambda>tr i. Some (Resolves (Obj [(''videos'', Arr [])]))),
     exec = (\<lambda>tr c. ExecErr ''Command failed''),
     write_ok = (\<lambda>tr. True),
     unlink_ok = (\<lambda>tr. True)\<rparr>"

definition example_world :: world where
  "example_world = \<lparr>innertube = None, lastCookies = CNull,
                     files = {''/usr/bin/yt-dlp''}, trace = []\<rparr>"

definition example_extractor :: extractor where
  "example_extractor = \<lparr>
     ytdlpPath = ''/usr/bin/yt-dlp'',
     enableYouTubeSearch = True,
     enableDirectUrls = True,
     streamQuality = ''bestaudio'',
     youtubeiOptions = \<lparr>opt_cookies = CString ''SID=abc'', opt_client = None\<rparr>\<rparr>"

text \<open>
  A playlist of ten entries whose fourth entry has no id, and a deployment whose backend
  answers \<^verbatim>\<open>getPlaylist\<close> with it.
\<close>

definition example_entry :: "string \<Rightarrow> jsval" where
  "example_entry i = Obj [(''id'', Str i), (''title'', Obj [(''text'', Str (''Song '' @ i))])]"

definition example_before :: "jsval list" where
  "example_before = [example_entry ''a'', example_entry ''b'', example_entry ''c'']"

definition example_failing :: jsval where
  "example_failing = Obj [(''title'', Str ''Deleted video'')]"

definition example_after :: "jsval list" where
  "example_after = [example_entry ''e'', example_entry ''f'', example_entry ''g'',
                    example_entry ''h'', example_entry ''i'', example_entry ''j'']"

definition example_playlist :: jsval where
  "example_playlist =
     Obj [(''videos'', Arr (example_before @ [example_failing] @ example_after))]"

definition example_playlist_env :: env where
  "example_playlist_env =
     example_env\<lparr>yt_getPlaylist := (\<lambda>tr i. Some (Resolves example_playlist))\<rparr>"

text \<open>
  A deployment whose extractor resolves the one video it knows, when it is run by its own
  path with the options that ask for the URL of the audio, and answers each such run with a
  URL of its own (the URL counts the events before the run). Any other command fails.
\<close>

definition example_stream_env :: env where
  "example_stream_env =
     example_env\<lparr>exec := (\<lambda>tr c.
       if startsWith c ([CHR 0x22] @ ''/usr/bin/yt-dlp'' @ [CHR 0x22] @ '' -f bestaudio --get-url '')
          \<and> str_includes c ('' '' @ [CHR 0x22] @ ''https://www.youtube.com/watch?v=dQw4w9WgXcQ''
                               @ [CHR 0x22])
       then ExecOk (''https://cdn.example/'' @ show_nat (length tr)) []
       else ExecErr ''Command failed'')\<rparr>"

definition example_track :: jsval where
  "example_track = Obj [(''title'', Str ''Song''),
                        (''url'', Str ''https://www.youtube.com/watch?v=dQw4w9WgXcQ'')]"

text \<open>Two seed tracks for the related-track discovery, with and without a known author.\<close>

definition example_known_track :: jsval where
  "example_known_track = Obj [(''title'', Str ''Song''),
                              (''author'', Str ''Rick Astley''),
                              (''url'', Str ''https://www.youtube.com/watch?v=dQw4w9WgXcQ'')]"

definition example_unknown_track :: jsval where
  "example_unknown_track = Obj [(''title'', Str ''Song''),
                                (''author'', Str ''Unknown Artist''),
                                (''url'', Str ''https://www.youtube.com/watch?v=dQw4w9WgXcQ'')]"

text \<open>A deployment whose backend does not answer \<^verbatim>\<open>getPlaylist\<close> within the timeout.\<close>

definition example_timeout_env :: env where
  "example_timeout_env = example_env\<lparr>yt_getPlaylist := (\<lambda>tr i. None)\<rparr>"

section \<open>Verified properties\<close>

subsection \<open>Decimal rendering\<close>

lemma show_nat_length_small: "n < 10 \<Longrightarrow> length (show_nat n) = 1"
  by (simp add: show_nat.simps)

lemma show_nat_nonempty: "0 < length (show_nat n)"
  by (subst show_nat.simps) simp

lemma show_nat_length_big: "10 \<le> n \<Longrightarrow> 2 \<le> length (show_nat n)"
proof -
  assume h: "10 \<le> n"
  have "0 < length (show_nat (n div 10))"
    by (rule show_nat_nonempty)
  then have "2 \<le> length (show_nat (n div 10) @ [digit_char (n mod 10)])"
    by (cases "show_nat (n div 10)") simp_all
  with h show ?thesis
    by (subst show_nat.simps) simp
qed

lemma toString_nonempty: "0 < length (toString n)"
  using show_nat_nonempty [of "nat n"] by (simp add: toString_def)

lemma padStart_two_digits: "padStart 2 (CHR ''0'') (toString n) = two_digits n"
proof (cases "length (toString n) < 2")
  case True
  with toString_nonempty [of n] have "length (toString n) = 1" by linarith
  then show ?thesis by (simp add: padStart_def two_digits_def)
next
  case False
  then show ?thesis by (simp add: padStart_def two_digits_def)
qed

lemma two_digits_length: "0 \<le> n \<Longrightarrow> n < 100 \<Longrightarrow> length (two_digits n) = 2"
proof -
  assume a: "0 \<le> n" "n < 100"
  show ?thesis
  proof (cases "n < 10")
    case True
    with a show ?thesis by (simp add: two_digits_def toString_def show_nat_length_small)
  next
    case False
    with a have "nat n div 10 < 10" by simp
    then have "length (show_nat (nat n div 10)) = 1" by (rule show_nat_length_small)
    with False a have "length (toString n) = 2"
      by (simp add: toString_def) (subst show_nat.simps, simp)
    then show ?thesis by (simp add: two_digits_def)
  qed
qed

lemma colon_in_text: "CHR '':'' \<in> set (xs @ '':'' @ ys)"
  by simp

subsection \<open>Remainders\<close>

lemma js_rem_remainder: "0 < b \<Longrightarrow> js_rem a b = remainder a b"
proof (cases "a < 0")
  case True
  assume b: "0 < b"
  with True have neg: "a / b < 0" by (simp add: divide_neg_pos)
  have "\<lceil>a / b\<rceil> = - \<lfloor>- (a / b)\<rfloor>" by (simp add: ceiling_def)
  also have "- (a / b) = \<bar>a\<bar> / b" using True by simp
  finally have "\<lceil>a / b\<rceil> = - \<lfloor>\<bar>a\<bar> / b\<rfloor>" .
  with True neg show ?thesis
    by (simp add: js_rem_def remainder_def algebra_simps)
next
  case False
  assume b: "0 < b"
  with False have "\<not> a / b < 0" by (simp add: divide_less_0_iff)
  with False show ?thesis
    by (cases "a = 0") (simp_all add: js_rem_def remainder_def)
qed

lemma remainder_magnitude:
  fixes a b :: rat
  assumes "0 < b"
  shows "0 \<le> \<bar>a\<bar> - b * of_int \<lfloor>\<bar>a\<bar> / b\<rfloor>" and "\<bar>a\<bar> - b * of_int \<lfloor>\<bar>a\<bar> / b\<rfloor> < b"
proof -
  have "of_int \<lfloor>\<bar>a\<bar> / b\<rfloor> \<le> \<bar>a\<bar> / b" by (rule of_int_floor_le)
  with assms have "of_int \<lfloor>\<bar>a\<bar> / b\<rfloor> * b \<le> \<bar>a\<bar>"
    using pos_le_divide_eq by blast
  then show "0 \<le> \<bar>a\<bar> - b * of_int \<lfloor>\<bar>a\<bar> / b\<rfloor>" by (simp add: mult.commute)
  have "\<bar>a\<bar> / b < of_int \<lfloor>\<bar>a\<bar> / b\<rfloor> + 1" by linarith
  with assms have "\<bar>a\<bar> < (of_int \<lfloor>\<bar>a\<bar> / b\<rfloor> + 1) * b"
    using pos_divide_less_eq by blast
  then show "\<bar>a\<bar> - b * of_int \<lfloor>\<bar>a\<bar> / b\<rfloor> < b" by (simp add: algebra_simps)
qed

lemma remainder_abs: "0 < b \<Longrightarrow> \<bar>remainder a b\<bar> < b"
  using remainder_magnitude [of b a]
  by (simp add: remainder_def abs_mult)

lemma remainder_pos: "0 < a \<Longrightarrow> remainder a b = a - b * of_int \<lfloor>a / b\<rfloor>"
  by (simp add: remainder_def)

lemma floor_div_int:
  fixes x :: rat
  assumes "0 < b"
  shows "\<lfloor>x / of_int b\<rfloor> = \<lfloor>x\<rfloor> div b"
proof -
  define n where "n = \<lfloor>x\<rfloor>"
  have nx: "of_int n \<le> x" "x < of_int n + 1" unfolding n_def by linarith+
  have b: "(0::rat) < of_int b" using assms by simp
  have "0 \<le> n mod b" using assms by simp
  then have "(n div b) * b \<le> n"
    using div_mult_mod_eq [of n b] by linarith
  then have "(of_int ((n div b) * b) :: rat) \<le> of_int n" by (simp only: of_int_le_iff)
  with nx have "of_int (n div b) * of_int b \<le> x" by simp
  with b have lo: "of_int (n div b) \<le> x / of_int b" by (simp add: pos_le_divide_eq)
  have "n mod b < b" using assms by simp
  then have "n + 1 \<le> (n div b) * b + b"
    using div_mult_mod_eq [of n b] by linarith
  then have "(of_int (n + 1) :: rat) \<le> of_int ((n div b) * b + b)" by (simp only: of_int_le_iff)
  with nx have "x < (of_int (n div b) + 1) * of_int b" by (simp add: algebra_simps)
  with b have hi: "x / of_int b < of_int (n div b) + 1" by (simp add: pos_divide_less_eq)
  from lo hi have "\<lfloor>x / of_int b\<rfloor> = n div b" by (rule floor_unique)
  then show ?thesis by (simp add: n_def)
qed

lemma floor_abs_bound:
  fixes x :: rat
  assumes "\<bar>x\<bar> < of_int k"
  shows "\<bar>\<lfloor>x\<rfloor>\<bar> \<le> k"
proof -
  from assms have "x < of_int k" "of_int (- k) < x" by simp_all
  then have "\<lfloor>x\<rfloor> < k" "- k \<le> \<lfloor>x\<rfloor>"
    by (simp_all add: floor_less_iff le_floor_iff less_imp_le)
  then show ?thesis by simp
qed

lemma int_text_toString: "\<bar>n\<bar> < 2 ^ 53 \<Longrightarrow> int_text env n = toString n"
  by (simp add: int_text_def)

lemma hours_in_range:
  fixes s :: rat
  assumes "\<bar>s\<bar> < 2 ^ 53"
  shows "\<bar>\<lfloor>s / 3600\<rfloor>\<bar> < 2 ^ 53"
proof -
  from assms have "\<bar>s / 3600\<bar> < of_int (2 ^ 53 - 1)" by simp
  from floor_abs_bound [OF this] show ?thesis by simp
qed

lemma field_in_range:
  fixes r :: rat
  assumes "\<bar>r\<bar> < 3600"
  shows "\<bar>\<lfloor>r / 60\<rfloor>\<bar> < 2 ^ 53" and "\<bar>\<lfloor>r\<rfloor>\<bar> < 2 ^ 53"
proof -
  from assms have "\<bar>r / 60\<bar> < of_int 60" by simp
  from floor_abs_bound [OF this] show "\<bar>\<lfloor>r / 60\<rfloor>\<bar> < 2 ^ 53" by simp
  from assms have "\<bar>r\<bar> < of_int 3600" by simp
  from floor_abs_bound [OF this] show "\<bar>\<lfloor>r\<rfloor>\<bar> < 2 ^ 53" by simp
qed

subsection \<open>formatDuration\<close>

lemma formatDuration_in_range:
  assumes "s \<noteq> 0" "\<bar>s\<bar> < 2 ^ 53"
  shows "formatDuration env (Number (Num s)) = duration_spec s"
proof -
  have r1: "\<bar>remainder s 3600\<bar> < 3600" by (simp add: remainder_abs)
  have "\<bar>remainder s 60\<bar> < 60" by (simp add: remainder_abs)
  then have r2: "\<bar>remainder s 60\<bar> < 3600" by simp
  note t = int_text_toString [OF hours_in_range [OF assms(2)]]
    int_text_toString [OF field_in_range(1) [OF r1]]
    int_text_toString [OF field_in_range(2) [OF r2]]
  from assms(1) show ?thesis
    by (simp add: formatDuration_def duration_spec_def Let_def js_rem_remainder t
        padStart_two_digits)
qed

lemma formatDuration_Unknown_iff:
  "formatDuration env v = ''Unknown'' \<longleftrightarrow> \<not> truthy v \<or> isNaN (to_number env v)"
proof (cases "\<not> truthy v \<or> isNaN (to_number env v)")
  case True
  then show ?thesis by (auto simp: formatDuration_def)
next
  case False
  have "CHR '':'' \<in> set (formatDuration env v)"
    using False
    by (cases "to_number env v") (simp_all add: formatDuration_def Let_def)
  then have "formatDuration env v \<noteq> ''Unknown''" by auto
  with False show ?thesis by simp
qed

lemma formatDuration_Number_Unknown_iff:
  "formatDuration env (Number n) = ''Unknown'' \<longleftrightarrow> n = NaN \<or> n = Num 0"
  by (cases n) (simp_all add: formatDuration_Unknown_iff)

lemma positive_fields:
  fixes s :: rat
  assumes "0 < s"
  shows "\<lfloor>s / 3600\<rfloor> = \<lfloor>s\<rfloor> div 3600"
    and "\<lfloor>remainder s 3600 / 60\<rfloor> = (\<lfloor>s\<rfloor> mod 3600) div 60"
    and "\<lfloor>remainder s 60\<rfloor> = \<lfloor>s\<rfloor> mod 60"
proof -
  show h: "\<lfloor>s / 3600\<rfloor> = \<lfloor>s\<rfloor> div 3600"
    using floor_div_int [of 3600 s] by simp
  have m60: "\<lfloor>s / 60\<rfloor> = \<lfloor>s\<rfloor> div 60"
    using floor_div_int [of 60 s] by simp
  have "remainder s 3600 = s - of_int (3600 * (\<lfloor>s\<rfloor> div 3600))"
    using assms by (simp add: remainder_pos h)
  then have "\<lfloor>remainder s 3600\<rfloor> = \<lfloor>s\<rfloor> - 3600 * (\<lfloor>s\<rfloor> div 3600)"
    by (simp only: floor_diff_of_int)
  then have fl: "\<lfloor>remainder s 3600\<rfloor> = \<lfloor>s\<rfloor> mod 3600"
    by (simp add: minus_mult_div_eq_mod)
  show "\<lfloor>remainder s 3600 / 60\<rfloor> = (\<lfloor>s\<rfloor> mod 3600) div 60"
    using floor_div_int [of 60 "remainder s 3600"] fl by simp
  have "remainder s 60 = s - of_int (60 * (\<lfloor>s\<rfloor> div 60))"
    using assms by (simp add: remainder_pos m60)
  then have "\<lfloor>remainder s 60\<rfloor> = \<lfloor>s\<rfloor> - 60 * (\<lfloor>s\<rfloor> div 60)"
    by (simp only: floor_diff_of_int)
  then show "\<lfloor>remainder s 60\<rfloor> = \<lfloor>s\<rfloor> mod 60"
    by (simp add: minus_mult_div_eq_mod)
qed

text \<open>
  C2, as the code has it. \<^verbatim>\<open>formatDuration\<close> returns \<^verbatim>\<open>"Unknown"\<close> exactly when its
  argument is falsy or converts to \<^verbatim>\<open>NaN\<close>; for a number that is exactly when the number is
  \<^verbatim>\<open>NaN\<close> or zero, so zero is not formatted. Every other number \<open>s\<close>, whole or fractional,
  that is positive or at most \<open>- 2^-1022\<close>, and of magnitude below \<open>2^53\<close>, is rendered
  from \<open>h = \<lfloor>s / 3600\<rfloor>\<close>, \<open>m = \<lfloor>(s % 3600) / 60\<rfloor>\<close> and \<open>c = \<lfloor>s % 60\<rfloor>\<close>, with \<open>%\<close> the
  remainder that takes the sign of \<open>s\<close>: as \<open>h:mm:cc\<close> when \<open>h > 0\<close> and as \<open>m:cc\<close> otherwise,
  the fields after the first padded on the left with \<open>0\<close> to two characters. In that range the
  rounding of the two divisions never reaches the next whole number and every field is a whole
  number below \<open>2^53\<close>, printed in decimal. For a positive \<open>s\<close> the fields are those of the
  floored number of seconds, \<open>h = \<lfloor>s\<rfloor> div 3600\<close>, \<open>m = (\<lfloor>s\<rfloor> mod 3600) div 60\<close> lying in
  \<open>0..59\<close> and \<open>c = \<lfloor>s\<rfloor> mod 60\<close> lying in \<open>0..59\<close>, and each padded field is exactly two
  characters long. In particular \<^verbatim>\<open>formatDuration(59) = "0:59"\<close>,
  \<^verbatim>\<open>formatDuration(3661) = "1:01:01"\<close>, \<^verbatim>\<open>formatDuration(212.091) = "3:32"\<close> and
  \<^verbatim>\<open>formatDuration(NaN) = "Unknown"\<close>.
\<close>

theorem formatDuration_amended:
  "(formatDuration env v = ''Unknown'' \<longleftrightarrow> \<not> truthy v \<or> isNaN (to_number env v))
   \<and> (formatDuration env (Number n) = ''Unknown'' \<longleftrightarrow> n = NaN \<or> n = Num 0)
   \<and> ((0 < s \<or> s \<le> - (1 / 2 ^ 1022)) \<and> \<bar>s\<bar> < 2 ^ 53
        \<longrightarrow> formatDuration env (Number (Num s)) = duration_spec s)
   \<and> (0 < s \<and> s < 2 ^ 53
        \<longrightarrow> formatDuration env (Number (Num s)) = duration_spec s
          \<and> \<lfloor>s / 3600\<rfloor> = \<lfloor>s\<rfloor> div 3600
          \<and> \<lfloor>remainder s 3600 / 60\<rfloor> = (\<lfloor>s\<rfloor> mod 3600) div 60
          \<and> \<lfloor>remainder s 60\<rfloor> = \<lfloor>s\<rfloor> mod 60
          \<and> 0 \<le> (\<lfloor>s\<rfloor> mod 3600) div 60 \<and> (\<lfloor>s\<rfloor> mod 3600) div 60 < 60
          \<and> 0 \<le> \<lfloor>s\<rfloor> mod 60 \<and> \<lfloor>s\<rfloor> mod 60 < 60
          \<and> length (two_digits ((\<lfloor>s\<rfloor> mod 3600) div 60)) = 2
          \<and> length (two_digits (\<lfloor>s\<rfloor> mod 60)) = 2)
   \<and> formatDuration env (Number (Num 59)) = ''0:59''
   \<and> formatDuration env (Number (Num 3661)) = ''1:01:01''
   \<and> formatDuration env (Number (Num (212091 / 1000))) = ''3:32''
   \<and> formatDuration env (Number NaN) = ''Unknown''"
proof -
  have range: "(0 < s \<or> s \<le> - (1 / 2 ^ 1022)) \<and> \<bar>s\<bar> < 2 ^ 53
      \<longrightarrow> formatDuration env (Number (Num s)) = duration_spec s"
  proof
    assume a: "(0 < s \<or> s \<le> - (1 / 2 ^ 1022)) \<and> \<bar>s\<bar> < 2 ^ 53"
    have "(0::rat) < 1 / 2 ^ 1022" by simp
    with a have "s \<noteq> 0" by linarith
    with a show "formatDuration env (Number (Num s)) = duration_spec s"
      by (simp add: formatDuration_in_range)
  qed
  have m: "0 \<le> (\<lfloor>s\<rfloor> mod 3600) div 60 \<and> (\<lfloor>s\<rfloor> mod 3600) div 60 < 60"
  proof -
    have "0 \<le> \<lfloor>s\<rfloor> mod 3600" "\<lfloor>s\<rfloor> mod 3600 < 3600" by simp_all
    then show ?thesis by (simp add: div_less_iff_less_mult pos_imp_zdiv_nonneg_iff)
  qed
  have c: "0 \<le> \<lfloor>s\<rfloor> mod 60 \<and> \<lfloor>s\<rfloor> mod 60 < 60" by simp
  have lm: "length (two_digits ((\<lfloor>s\<rfloor> mod 3600) div 60)) = 2"
    using m by (simp add: two_digits_length)
  have lc: "length (two_digits (\<lfloor>s\<rfloor> mod 60)) = 2"
    using c by (simp add: two_digits_length)
  have pos: "0 < s \<and> s < 2 ^ 53
      \<longrightarrow> formatDuration env (Number (Num s)) = duration_spec s
        \<and> \<lfloor>s / 3600\<rfloor> = \<lfloor>s\<rfloor> div 3600
        \<and> \<lfloor>remainder s 3600 / 60\<rfloor> = (\<lfloor>s\<rfloor> mod 3600) div 60
        \<and> \<lfloor>remainder s 60\<rfloor> = \<lfloor>s\<rfloor> mod 60"
  proof
    assume a: "0 < s \<and> s < 2 ^ 53"
    then have "s \<noteq> 0" "\<bar>s\<bar> < 2 ^ 53" by simp_all
    then have "formatDuration env (Number (Num s)) = duration_spec s"
      by (rule formatDuration_in_range)
    with a positive_fields [of s]
    show "formatDuration env (Number (Num s)) = duration_spec s
        \<and> \<lfloor>s / 3600\<rfloor> = \<lfloor>s\<rfloor> div 3600
        \<and> \<lfloor>remainder s 3600 / 60\<rfloor> = (\<lfloor>s\<rfloor> mod 3600) div 60
        \<and> \<lfloor>remainder s 60\<rfloor> = \<lfloor>s\<rfloor> mod 60" by simp
  qed
  have d1: "duration_spec 59 = ''0:59''" by code_simp
  have d2: "duration_spec 3661 = ''1:01:01''" by code_simp
  have d3: "duration_spec (212091 / 1000) = ''3:32''" by code_simp
  have e1: "formatDuration env (Number (Num 59)) = ''0:59''"
    using formatDuration_in_range [of 59 env] d1 by simp
  have e2: "formatDuration env (Number (Num 3661)) = ''1:01:01''"
    using formatDuration_in_range [of 3661 env] d2 by simp
  have e3: "formatDuration env (Number (Num (212091 / 1000))) = ''3:32''"
    using formatDuration_in_range [of "212091 / 1000" env] d3 by simp
  have e4: "formatDuration env (Number NaN) = ''Unknown''"
    by (simp add: formatDuration_def)
  from formatDuration_Unknown_iff [of env v] formatDuration_Number_Unknown_iff [of env n]
    range pos m c lm lc e1 e2 e3 e4
  show ?thesis by blast
qed

theorem formatDuration_amended_witness:
  "truthy (Str ''90'') \<and> \<not> isNaN (to_number example_env (Str ''90''))
   \<and> formatDuration example_env (Str ''90'') \<noteq> ''Unknown''
   \<and> formatDuration example_env (Str ''90'') = ''1:30''
   \<and> formatDuration example_env (Number (Num 0)) = ''Unknown''
   \<and> (0::rat) < 7451 / 2 \<and> (7451 / 2 :: rat) < 2 ^ 53
   \<and> formatDuration example_env (Number (Num (7451 / 2))) = duration_spec (7451 / 2)
   \<and> duration_spec (7451 / 2) = ''1:02:05''
   \<and> \<lfloor>7451 / 2 :: rat\<rfloor> = 3725
   \<and> \<lfloor>remainder (7451 / 2) 3600 / 60\<rfloor> = 2 \<and> \<lfloor>remainder (7451 / 2) 60\<rfloor> = 5
   \<and> length (two_digits 2) = 2 \<and> length (two_digits 5) = 2
   \<and> (- 90 :: rat) \<le> - (1 / 2 ^ 1022) \<and> \<bar>- 90 :: rat\<bar> < 2 ^ 53
   \<and> formatDuration example_env (Number (Num (- 90))) = duration_spec (- 90)
   \<and> duration_spec (- 90) = ''-2:-30''"
proof -
  have t: "truthy (Str ''90'')" by simp
  have n: "to_number example_env (Str ''90'') = Num 90" by (simp add: example_env_def)
  have f: "formatDuration example_env (Str ''90'') = ''1:30''" by code_simp
  have d: "duration_spec (7451 / 2) = ''1:02:05''" by code_simp
  have d': "duration_spec (- 90) = ''-2:-30''" by code_simp
  have fl: "\<lfloor>7451 / 2 :: rat\<rfloor> = 3725" by (simp add: floor_unique)
  have b: "(- 90 :: rat) \<le> - (1 / 2 ^ 1022)" by simp
  from formatDuration_amended [of example_env "Str ''90''" "Num 0" "7451 / 2"]
    formatDuration_amended [of example_env "Str ''90''" "Num 0" "- 90"] t n f d d' fl b
  show ?thesis by simp
qed

text \<open>
  C2 as stated fails at zero: \<^verbatim>\<open>formatDuration(0)\<close> is \<^verbatim>\<open>"Unknown"\<close>, not \<^verbatim>\<open>"0:00"\<close>,
  although zero is not \<^verbatim>\<open>NaN\<close>; the guard \<^verbatim>\<open>!seconds\<close> catches it.
\<close>

theorem formatDuration_zero_counterexample:
  "formatDuration example_env (Number (Num 0)) = ''Unknown''
   \<and> formatDuration example_env (Number (Num 0)) \<noteq> ''0:00''
   \<and> to_number example_env (Number (Num 0)) = Num 0
   \<and> \<not> isNaN (to_number example_env (Number (Num 0)))
   \<and> \<lfloor>0 / 3600 :: rat\<rfloor> = 0 \<and> \<lfloor>remainder 0 3600 / 60\<rfloor> = 0 \<and> \<lfloor>remainder 0 60\<rfloor> = 0"
  by (simp add: formatDuration_def remainder_def)

subsection \<open>The backend session\<close>

lemma init_reuse:
  "innertube w = Some s \<Longrightarrow> opt_cookies options = lastCookies w \<Longrightarrow>
   initializeYouTube env options w = (Some s, w)"
  by (simp add: initializeYouTube_def)

lemma init_trace_changes_iff:
  "trace (snd (initializeYouTube env options w)) \<noteq> trace w
   \<longleftrightarrow> innertube w = None \<or> opt_cookies options \<noteq> lastCookies w"
  by (auto simp: initializeYouTube_def Let_def emit_def split: option.splits)

lemma init_change_ok:
  assumes "innertube w = Some s" "opt_cookies options \<noteq> lastCookies w"
    "create_ok env (trace w @ [SignOut s]) (initOptionsFor options)"
  shows "initializeYouTube env options w =
    (Some (Suc (length (trace w))),
     w\<lparr>innertube := Some (Suc (length (trace w))), lastCookies := opt_cookies options,
       trace := trace w @ [SignOut s, Create (initOptionsFor options)]\<rparr>)"
  using assms by (simp add: initializeYouTube_def Let_def emit_def)

lemma init_none_ok:
  assumes "innertube w = None" "create_ok env (trace w) (initOptionsFor options)"
  shows "initializeYouTube env options w =
    (Some (length (trace w)),
     w\<lparr>innertube := Some (length (trace w)), lastCookies := opt_cookies options,
       trace := trace w @ [Create (initOptionsFor options)]\<rparr>)"
  using assms by (simp add: initializeYouTube_def Let_def emit_def)

lemma init_reinit:
  assumes "innertube w = None \<or> opt_cookies options \<noteq> lastCookies w"
  shows "trace (snd (initializeYouTube env options w))
           = trace w @ (case innertube w of Some s \<Rightarrow> [SignOut s] | None \<Rightarrow> [])
               @ [Create (initOptionsFor options)]"
    and "innertube (snd (initializeYouTube env options w)) = fst (initializeYouTube env options w)"
    and "fst (initializeYouTube env options w) = None
           \<longleftrightarrow> \<not> create_ok env
                   (trace w @ (case innertube w of Some s \<Rightarrow> [SignOut s] | None \<Rightarrow> []))
                   (initOptionsFor options)"
    and "fst (initializeYouTube env options w) \<noteq> None
           \<longrightarrow> lastCookies (snd (initializeYouTube env options w)) = opt_cookies options"
  using assms
  by (auto simp: initializeYouTube_def Let_def emit_def split: option.splits)

lemma initializeAll_reuse:
  "innertube w = Some s \<Longrightarrow> \<forall>options \<in> set os. opt_cookies options = lastCookies w \<Longrightarrow>
   initializeAll env os w = w"
  unfolding initializeAll_def
  by (induction os) (simp_all add: init_reuse)

lemma initializeAll_Cons:
  "initializeAll env (options # os) w = initializeAll env os (snd (initializeYouTube env options w))"
  by (simp add: initializeAll_def)

text \<open>
  C5. A call of \<^verbatim>\<open>initializeYouTube\<close> touches the backend exactly when no session exists
  or the supplied credential differs from the one of the current session, and then it signs
  out the current session, if there is one, and asks for the creation of one session with
  the options made of the new credential; the session it returns is the one the module
  holds afterwards, and it is none exactly when the creation fails. When no session exists
  and the creation succeeds, a session is created without any sign-out, it is held with the
  supplied credential, and the calls that follow with that credential add nothing. When the
  credential changes and the creation succeeds, the old session is signed out once and one
  session is created, and the calls that follow with the new credential add nothing: over
  the whole run there is one sign-out and one creation. Calls with the credential of the
  current session return that session and leave the state as it is.
\<close>

theorem session_recreated_exactly_on_change:
  "(trace (snd (initializeYouTube env options w)) \<noteq> trace w
      \<longleftrightarrow> innertube w = None \<or> opt_cookies options \<noteq> lastCookies w)
   \<and> (innertube w = Some s \<and> opt_cookies options \<noteq> lastCookies w
        \<and> create_ok env (trace w @ [SignOut s]) (initOptionsFor options)
        \<and> (\<forall>o' \<in> set later. opt_cookies o' = opt_cookies options)
      \<longrightarrow> trace (initializeAll env (options # later) w)
             = trace w @ [SignOut s, Create (initOptionsFor options)]
          \<and> innertube (initializeAll env (options # later) w) = Some (Suc (length (trace w)))
          \<and> lastCookies (initializeAll env (options # later) w) = opt_cookies options
          \<and> length (filter is_create (trace (initializeAll env (options # later) w)))
             = Suc (length (filter is_create (trace w)))
          \<and> length (filter is_signout (trace (initializeAll env (options # later) w)))
             = Suc (length (filter is_signout (trace w))))
   \<and> (innertube w = Some s \<and> (\<forall>o' \<in> set later. opt_cookies o' = lastCookies w)
      \<longrightarrow> initializeAll env later w = w
          \<and> (\<forall>o' \<in> set later. initializeYouTube env o' w = (Some s, w)))
   \<and> (innertube w = None \<and> create_ok env (trace w) (initOptionsFor options)
        \<and> (\<forall>o' \<in> set later. opt_cookies o' = opt_cookies options)
      \<longrightarrow> initializeYouTube env options w
            = (Some (length (trace w)),
               w\<lparr>innertube := Some (length (trace w)), lastCookies := opt_cookies options,
                 trace := trace w @ [Create (initOptionsFor options)]\<rparr>)
          \<and> initializeAll env (options # later) w = snd (initializeYouTube env options w)
          \<and> trace (initializeAll env (options # later) w)
             = trace w @ [Create (initOptionsFor options)]
          \<and> innertube (initializeAll env (options # later) w) = Some (length (trace w))
          \<and> lastCookies (initializeAll env (options # later) w) = opt_cookies options
          \<and> length (filter is_create (trace (initializeAll env (options # later) w)))
             = Suc (length (filter is_create (trace w)))
          \<and> length (filter is_signout (trace (initializeAll env (options # later) w)))
             = length (filter is_signout (trace w)))
   \<and> (innertube w = None \<or> opt_cookies options \<noteq> lastCookies w
      \<longrightarrow> trace (snd (initializeYouTube env options w))
            = trace w @ (case innertube w of Some s' \<Rightarrow> [SignOut s'] | None \<Rightarrow> [])
                @ [Create (initOptionsFor options)]
          \<and> innertube (snd (initializeYouTube env options w))
              = fst (initializeYouTube env options w)
          \<and> (fst (initializeYouTube env options w) = None
               \<longleftrightarrow> \<not> create_ok env
                     (trace w @ (case innertube w of Some s' \<Rightarrow> [SignOut s'] | None \<Rightarrow> []))
                     (initOptionsFor options))
          \<and> (fst (initializeYouTube env options w) \<noteq> None
               \<longrightarrow> lastCookies (snd (initializeYouTube env options w)) = opt_cookies options))"
proof (intro conjI)
  show "trace (snd (initializeYouTube env options w)) \<noteq> trace w
      \<longleftrightarrow> innertube w = None \<or> opt_cookies options \<noteq> lastCookies w"
    by (rule init_trace_changes_iff)
next
  show "innertube w = Some s \<and> opt_cookies options \<noteq> lastCookies w
        \<and> create_ok env (trace w @ [SignOut s]) (initOptionsFor options)
        \<and> (\<forall>o' \<in> set later. opt_cookies o' = opt_cookies options)
      \<longrightarrow> trace (initializeAll env (options # later) w)
             = trace w @ [SignOut s, Create (initOptionsFor options)]
          \<and> innertube (initializeAll env (options # later) w) = Some (Suc (length (trace w)))
          \<and> lastCookies (initializeAll env (options # later) w) = opt_cookies options
          \<and> length (filter is_create (trace (initializeAll env (options # later) w)))
             = Suc (length (filter is_create (trace w)))
          \<and> length (filter is_signout (trace (initializeAll env (options # later) w)))
             = Suc (length (filter is_signout (trace w)))"
  proof
    assume h: "innertube w = Some s \<and> opt_cookies options \<noteq> lastCookies w
        \<and> create_ok env (trace w @ [SignOut s]) (initOptionsFor options)
        \<and> (\<forall>o' \<in> set later. opt_cookies o' = opt_cookies options)"
    define w1 where "w1 = w\<lparr>innertube := Some (Suc (length (trace w))),
       lastCookies := opt_cookies options,
       trace := trace w @ [SignOut s, Create (initOptionsFor options)]\<rparr>"
    from h have step: "snd (initializeYouTube env options w) = w1"
      by (simp add: init_change_ok w1_def)
    have "initializeAll env later w1 = w1"
      using h by (intro initializeAll_reuse [where s = "Suc (length (trace w))"])
        (simp_all add: w1_def)
    with step have all: "initializeAll env (options # later) w = w1"
      by (simp add: initializeAll_Cons)
    show "trace (initializeAll env (options # later) w)
             = trace w @ [SignOut s, Create (initOptionsFor options)]
          \<and> innertube (initializeAll env (options # later) w) = Some (Suc (length (trace w)))
          \<and> lastCookies (initializeAll env (options # later) w) = opt_cookies options
          \<and> length (filter is_create (trace (initializeAll env (options # later) w)))
             = Suc (length (filter is_create (trace w)))
          \<and> length (filter is_signout (trace (initializeAll env (options # later) w)))
             = Suc (length (filter is_signout (trace w)))"
      by (simp add: all w1_def)
  qed
next
  show "innertube w = Some s \<and> (\<forall>o' \<in> set later. opt_cookies o' = lastCookies w)
      \<longrightarrow> initializeAll env later w = w
          \<and> (\<forall>o' \<in> set later. initializeYouTube env o' w = (Some s, w))"
  proof (intro impI conjI)
    assume h: "innertube w = Some s \<and> (\<forall>o' \<in> set later. opt_cookies o' = lastCookies w)"
    then show "initializeAll env later w = w"
      by (intro initializeAll_reuse [where s = s]) simp_all
    from h show "\<forall>o' \<in> set later. initializeYouTube env o' w = (Some s, w)"
      by (simp add: init_reuse)
  qed
next
  show "innertube w = None \<and> create_ok env (trace w) (initOptionsFor options)
        \<and> (\<forall>o' \<in> set later. opt_cookies o' = opt_cookies options)
      \<longrightarrow> initializeYouTube env options w
            = (Some (length (trace w)),
               w\<lparr>innertube := Some (length (trace w)), lastCookies := opt_cookies options,
                 trace := trace w @ [Create (initOptionsFor options)]\<rparr>)
          \<and> initializeAll env (options # later) w = snd (initializeYouTube env options w)
          \<and> trace (initializeAll env (options # later) w)
             = trace w @ [Create (initOptionsFor options)]
          \<and> innertube (initializeAll env (options # later) w) = Some (length (trace w))
          \<and> lastCookies (initializeAll env (options # later) w) = opt_cookies options
          \<and> length (filter is_create (trace (initializeAll env (options # later) w)))
             = Suc (length (filter is_create (trace w)))
          \<and> length (filter is_signout (trace (initializeAll env (options # later) w)))
             = length (filter is_signout (trace w))"
  proof
    assume h: "innertube w = None \<and> create_ok env (trace w) (initOptionsFor options)
        \<and> (\<forall>o' \<in> set later. opt_cookies o' = opt_cookies options)"
    define w1 where "w1 = w\<lparr>innertube := Some (length (trace w)),
       lastCookies := opt_cookies options,
       trace := trace w @ [Create (initOptionsFor options)]\<rparr>"
    from h have step: "initializeYouTube env options w = (Some (length (trace w)), w1)"
      by (simp add: init_none_ok w1_def)
    have "initializeAll env later w1 = w1"
      using h by (intro initializeAll_reuse [where s = "length (trace w)"])
        (simp_all add: w1_def)
    with step have all: "initializeAll env (options # later) w = w1"
      by (simp add: initializeAll_Cons)
    show "initializeYouTube env options w
            = (Some (length (trace w)),
               w\<lparr>innertube := Some (length (trace w)), lastCookies := opt_cookies options,
                 trace := trace w @ [Create (initOptionsFor options)]\<rparr>)
          \<and> initializeAll env (options # later) w = snd (initializeYouTube env options w)
          \<and> trace (initializeAll env (options # later) w)
             = trace w @ [Create (initOptionsFor options)]
          \<and> innertube (initializeAll env (options # later) w) = Some (length (trace w))
          \<and> lastCookies (initializeAll env (options # later) w) = opt_cookies options
          \<and> length (filter is_create (trace (initializeAll env (options # later) w)))
             = Suc (length (filter is_create (trace w)))
          \<and> length (filter is_signout (trace (initializeAll env (options # later) w)))
             = length (filter is_signout (trace w))"
      unfolding all step by (simp add: w1_def)
  qed
next
  show "innertube w = None \<or> opt_cookies options \<noteq> lastCookies w
      \<longrightarrow> trace (snd (initializeYouTube env options w))
            = trace w @ (case innertube w of Some s' \<Rightarrow> [SignOut s'] | None \<Rightarrow> [])
                @ [Create (initOptionsFor options)]
          \<and> innertube (snd (initializeYouTube env options w))
              = fst (initializeYouTube env options w)
          \<and> (fst (initializeYouTube env options w) = None
               \<longleftrightarrow> \<not> create_ok env
                     (trace w @ (case innertube w of Some s' \<Rightarrow> [SignOut s'] | None \<Rightarrow> []))
                     (initOptionsFor options))
          \<and> (fst (initializeYouTube env options w) \<noteq> None
               \<longrightarrow> lastCookies (snd (initializeYouTube env options w)) = opt_cookies options)"
    using init_reinit [of w options env] by blast
qed

theorem session_recreated_exactly_on_change_witness:
  "innertube (example_world\<lparr>innertube := Some 0\<rparr>) = Some 0
   \<and> opt_cookies (youtubeiOptions example_extractor) \<noteq> lastCookies (example_world\<lparr>innertube := Some 0\<rparr>)
   \<and> trace (initializeAll example_env
        [youtubeiOptions example_extractor, youtubeiOptions example_extractor,
         youtubeiOptions example_extractor] (example_world\<lparr>innertube := Some 0\<rparr>))
      = [SignOut 0, Create (initOptionsFor (youtubeiOptions example_extractor))]
   \<and> initializeAll example_env [\<lparr>opt_cookies = CNull, opt_client = None\<rparr>]
        (example_world\<lparr>innertube := Some 0\<rparr>) = example_world\<lparr>innertube := Some 0\<rparr>
   \<and> innertube example_world = None
   \<and> create_ok example_env (trace example_world) (initOptionsFor (youtubeiOptions example_extractor))
   \<and> initializeYouTube example_env (youtubeiOptions example_extractor) example_world
      = (Some 0, example_world\<lparr>innertube := Some 0, lastCookies := CString ''SID=abc'',
           trace := [Create (initOptionsFor (youtubeiOptions example_extractor))]\<rparr>)
   \<and> trace (initializeAll example_env
        [youtubeiOptions example_extractor, youtubeiOptions example_extractor,
         youtubeiOptions example_extractor] example_world)
      = [Create (initOptionsFor (youtubeiOptions example_extractor))]
   \<and> innertube (initializeAll example_env
        [youtubeiOptions example_extractor, youtubeiOptions example_extractor,
         youtubeiOptions example_extractor] example_world) = Some 0
   \<and> fst (initializeYouTube (example_env\<lparr>create_ok := (\<lambda>tr io. False)\<rparr>)
        (youtubeiOptions example_extractor) example_world) = None
   \<and> innertube (snd (initializeYouTube (example_env\<lparr>create_ok := (\<lambda>tr io. False)\<rparr>)
        (youtubeiOptions example_extractor) example_world)) = None"
  using session_recreated_exactly_on_change
    [of example_env "youtubeiOptions example_extractor" "example_world\<lparr>innertube := Some 0\<rparr>" 0
        "[youtubeiOptions example_extractor, youtubeiOptions example_extractor]"]
    session_recreated_exactly_on_change
    [of example_env "youtubeiOptions example_extractor" "example_world\<lparr>innertube := Some 0\<rparr>" 0
        "[\<lparr>opt_cookies = CNull, opt_client = None\<rparr>]"]
    session_recreated_exactly_on_change
    [of example_env "youtubeiOptions example_extractor" example_world 0
        "[youtubeiOptions example_extractor, youtubeiOptions example_extractor]"]
    session_recreated_exactly_on_change
    [of "example_env\<lparr>create_ok := (\<lambda>tr io. False)\<rparr>" "youtubeiOptions example_extractor"
        example_world 0 "[]"]
  by (simp add: example_env_def example_world_def example_extractor_def)

subsection \<open>validateUrl\<close>

lemma validateUrl_Str:
  "validateUrl env (Str s) =
     Inr (s \<noteq> [] \<and> (\<exists>p. url_protocol env s = Some p \<and> p \<notin> {''file:'', ''ftp:'', ''mailto:''}))"
  by (cases "url_protocol env s") (simp_all add: validateUrl_def isValidUrl_def new_URL_def)

lemma validateUrl_not_string: "\<forall>s. v \<noteq> Str s \<Longrightarrow> validateUrl env v = Inr False"
  by (cases v) (simp_all add: validateUrl_def)

text \<open>
  C9. For every value, \<^verbatim>\<open>validateUrl\<close> returns a boolean and does not throw. It returns
  \<^verbatim>\<open>true\<close> exactly for a non-empty string that parses as a URL and whose scheme is not
  \<^verbatim>\<open>file\<close>, \<^verbatim>\<open>ftp\<close> or \<^verbatim>\<open>mailto\<close>. \<^verbatim>\<open>validateUrl('')\<close> is \<^verbatim>\<open>false\<close>; given that the
  platform's URL parser reads the scheme \<^verbatim>\<open>file:\<close> off \<^verbatim>\<open>file:///etc/passwd\<close> and
  \<^verbatim>\<open>https:\<close> off \<^verbatim>\<open>https://example.com\<close>, the first is rejected and the second accepted.
\<close>

theorem validateUrl_correct:
  "(\<exists>b. validateUrl env v = Inr b)
   \<and> (validateUrl env v = Inr True
        \<longleftrightarrow> (\<exists>s p. v = Str s \<and> s \<noteq> [] \<and> url_protocol env s = Some p
                  \<and> p \<notin> {''file:'', ''ftp:'', ''mailto:''}))
   \<and> validateUrl env (Str '''') = Inr False
   \<and> (url_protocol env ''file:///etc/passwd'' = Some ''file:''
        \<longrightarrow> validateUrl env (Str ''file:///etc/passwd'') = Inr False)
   \<and> (url_protocol env ''https://example.com'' = Some ''https:''
        \<longrightarrow> validateUrl env (Str ''https://example.com'') = Inr True)"
proof (intro conjI impI)
  show "\<exists>b. validateUrl env v = Inr b"
    by (cases v) (auto simp: validateUrl_Str validateUrl_not_string)
  show "validateUrl env v = Inr True
        \<longleftrightarrow> (\<exists>s p. v = Str s \<and> s \<noteq> [] \<and> url_protocol env s = Some p
                  \<and> p \<notin> {''file:'', ''ftp:'', ''mailto:''})"
    by (cases v) (auto simp: validateUrl_Str validateUrl_not_string)
  show "validateUrl env (Str '''') = Inr False"
    by (simp add: validateUrl_Str)
next
  assume "url_protocol env ''file:///etc/passwd'' = Some ''file:''"
  then show "validateUrl env (Str ''file:///etc/passwd'') = Inr False"
    by (simp add: validateUrl_Str)
next
  assume "url_protocol env ''https://example.com'' = Some ''https:''"
  then show "validateUrl env (Str ''https://example.com'') = Inr True"
    by (simp add: validateUrl_Str)
qed

theorem validateUrl_correct_witness:
  "url_protocol example_env ''file:///etc/passwd'' = Some ''file:''
   \<and> url_protocol example_env ''https://example.com'' = Some ''https:''
   \<and> validateUrl example_env (Str ''file:///etc/passwd'') = Inr False
   \<and> validateUrl example_env (Str ''https://example.com'') = Inr True
   \<and> validateUrl example_env (Number (Num 7)) = Inr False"
proof -
  have f: "url_protocol example_env ''file:///etc/passwd'' = Some ''file:''"
    by (simp add: example_env_def startsWith_def)
  have h: "url_protocol example_env ''https://example.com'' = Some ''https:''"
    by (simp add: example_env_def startsWith_def)
  have n: "validateUrl example_env (Number (Num 7)) \<noteq> Inr True"
    using validateUrl_correct [of example_env "Number (Num 7)"] by simp
  obtain b where b: "validateUrl example_env (Number (Num 7)) = Inr b"
    using validateUrl_correct [of example_env "Number (Num 7)"] by blast
  with n have "validateUrl example_env (Number (Num 7)) = Inr False" by simp
  then show ?thesis
    using f h validateUrl_correct [of example_env "Str ''x''"] by simp
qed

subsection \<open>Playlist batches\<close>

lemma validResults_filter:
  "validResults env batch = filter (\<lambda>t. t \<noteq> Null) (map (playlistEntry env) batch)"
  unfolding validResults_def Let_def
  by (induction batch) simp_all

lemma validResults_append:
  "validResults env (xs @ ys) = validResults env xs @ validResults env ys"
  by (simp add: validResults_filter)

lemma batchLoop_batches:
  "batchLoop env i videos tracks = tracks @ concat (map (validResults env) (batches i videos))"
proof (induction env i videos tracks rule: batchLoop.induct)
  case (1 env i videos tracks)
  show ?case
  proof (cases "i < length videos")
    case True
    with "1" show ?thesis
      by (subst batchLoop.simps, subst batches.simps) simp
  next
    case False
    then show ?thesis
      by (subst batchLoop.simps, subst batches.simps) simp
  qed
qed

lemma concat_batches: "concat (batches i videos) = drop i videos"
proof (induction i videos rule: batches.induct)
  case (1 i videos)
  show ?case
  proof (cases "i < length videos")
    case True
    have "take batchSize (drop i videos) @ drop (i + batchSize) videos = drop i videos"
      by (metis add.commute append_take_drop_id drop_drop)
    with True "1" show ?thesis
      by (subst batches.simps) simp
  next
    case False
    then show ?thesis
      by (subst batches.simps) simp
  qed
qed

lemma concat_validResults:
  "concat (map (validResults env) bs) = validResults env (concat bs)"
  by (induction bs) (simp_all add: validResults_append, simp add: validResults_filter)

lemma batchLoop_filter:
  "batchLoop env 0 videos [] = filter (\<lambda>t. t \<noteq> Null) (map (playlistEntry env) videos)"
  by (simp add: batchLoop_batches concat_validResults concat_batches validResults_filter)

lemma batches_nth:
  "k < length (batches i videos) \<Longrightarrow>
   batches i videos ! k = take batchSize (drop (i + k * batchSize) videos)
   \<and> i + k * batchSize < length videos"
proof (induction i videos arbitrary: k rule: batches.induct)
  case (1 i videos)
  show ?case
  proof (cases "i < length videos")
    case True
    note lt = this
    show ?thesis
    proof (cases k)
      case 0
      with lt show ?thesis by (subst batches.simps) simp
    next
      case (Suc j)
      with "1.prems" lt have "j < length (batches (i + batchSize) videos)"
        by (subst (asm) batches.simps) simp
      with "1.IH" [OF lt] have
        "batches (i + batchSize) videos ! j = take batchSize (drop (i + batchSize + j * batchSize) videos)
         \<and> i + batchSize + j * batchSize < length videos"
        by blast
      with lt Suc show ?thesis
        by (subst batches.simps) (simp add: add.assoc add.commute add.left_commute)
    qed
  next
    case False
    with "1.prems" show ?thesis
      by (subst (asm) batches.simps) simp
  qed
qed

lemma playlistEntry_Null_iff:
  "playlistEntry env video = Null
   \<longleftrightarrow> nullish video \<or> \<not> truthy (js_or (jsget video ''id'') (jsget video ''video_id''))"
  by (simp add: playlistEntry_def Let_def)

lemma getYouTubePlaylist_tracks:
  assumes "initializeYouTube env options w = (Some yt, w1)"
    and "\<not> startsWith playlistId ''RD''"
    and "yt_getPlaylist env (trace w1) playlistId = Some (Resolves playlist)"
    and "truthy playlist"
    and "jsget playlist ''videos'' = Arr videos"
  shows "getYouTubePlaylist env playlistId options w =
           (Inr (playlistObject playlistId playlist
                   (filter (\<lambda>t. t \<noteq> Null) (map (playlistEntry env) videos))),
            emit (YtGetPlaylist yt playlistId) w1)"
  using assms
  by (simp add: getYouTubePlaylist_def playlistBody_def Let_def js_or_def batchLoop_filter)

text \<open>
  C6. The loop takes the entries in consecutive groups of ten: the \<open>k\<close>-th batch is
  \<^verbatim>\<open>videos.slice(10 * k, 10 * k + 10)\<close>, it is not empty, and the batches together are the
  input. The tracks returned are the entries that resolve, in the order of the input: the
  loop's result is the input mapped entry by entry, with the \<^verbatim>\<open>null\<close> results left out, and
  an entry gives \<^verbatim>\<open>null\<close> exactly when reading it throws or it has no id. So a group of ten
  in which exactly the fourth entry fails gives the other nine tracks in input order.
  The result of a batch is positional (\<^verbatim>\<open>Promise.allSettled\<close>), so the order in which the
  entries of a batch settle has no part in it. The same holds of the playlist that
  \<^verbatim>\<open>getYouTubePlaylist\<close> returns.
\<close>

theorem playlist_batches_preserve_order:
  "batchLoop env 0 videos [] = filter (\<lambda>t. t \<noteq> Null) (map (playlistEntry env) videos)
   \<and> batchLoop env 0 videos [] = concat (map (validResults env) (batches 0 videos))
   \<and> concat (batches 0 videos) = videos
   \<and> (\<forall>k < length (batches 0 videos).
         batches 0 videos ! k = take 10 (drop (10 * k) videos)
         \<and> 0 < length (batches 0 videos ! k) \<and> length (batches 0 videos ! k) \<le> 10)
   \<and> (playlistEntry env video = Null
        \<longleftrightarrow> nullish video \<or> \<not> truthy (js_or (jsget video ''id'') (jsget video ''video_id'')))
   \<and> (length before = 3 \<and> length after = 6 \<and> playlistEntry env failing = Null
        \<and> (\<forall>v \<in> set (before @ after). playlistEntry env v \<noteq> Null)
        \<longrightarrow> batchLoop env 0 (before @ [failing] @ after) [] = map (playlistEntry env) (before @ after))
   \<and> (initializeYouTube env options w = (Some yt, w1) \<and> \<not> startsWith playlistId ''RD''
        \<and> yt_getPlaylist env (trace w1) playlistId = Some (Resolves playlist)
        \<and> truthy playlist \<and> jsget playlist ''videos'' = Arr videos
        \<longrightarrow> fst (getYouTubePlaylist env playlistId options w)
              = Inr (playlistObject playlistId playlist
                       (filter (\<lambda>t. t \<noteq> Null) (map (playlistEntry env) videos))))"
proof (intro conjI allI impI)
  show "batchLoop env 0 videos [] = filter (\<lambda>t. t \<noteq> Null) (map (playlistEntry env) videos)"
    by (rule batchLoop_filter)
  show "batchLoop env 0 videos [] = concat (map (validResults env) (batches 0 videos))"
    by (simp add: batchLoop_batches)
  show "concat (batches 0 videos) = videos"
    by (simp add: concat_batches)
  show "playlistEntry env video = Null
        \<longleftrightarrow> nullish video \<or> \<not> truthy (js_or (jsget video ''id'') (jsget video ''video_id''))"
    by (rule playlistEntry_Null_iff)
next
  fix k assume k: "k < length (batches 0 videos)"
  from batches_nth [OF k] have
    nth: "batches 0 videos ! k = take 10 (drop (10 * k) videos)" and lt: "10 * k < length videos"
    by (simp_all add: batchSize_def mult.commute)
  show "batches 0 videos ! k = take 10 (drop (10 * k) videos)" by (rule nth)
  from lt show "0 < length (batches 0 videos ! k)" by (simp add: nth)
  show "length (batches 0 videos ! k) \<le> 10" by (simp add: nth)
next
  assume h: "length before = 3 \<and> length after = 6 \<and> playlistEntry env failing = Null
        \<and> (\<forall>v \<in> set (before @ after). playlistEntry env v \<noteq> Null)"
  then have "filter (\<lambda>t. t \<noteq> Null) (map (playlistEntry env) (before @ after))
               = map (playlistEntry env) (before @ after)"
    by (intro filter_True) (metis (mono_tags, lifting) imageE list.set_map)
  with h show "batchLoop env 0 (before @ [failing] @ after) [] = map (playlistEntry env) (before @ after)"
    by (simp add: batchLoop_filter)
next
  assume "initializeYouTube env options w = (Some yt, w1) \<and> \<not> startsWith playlistId ''RD''
        \<and> yt_getPlaylist env (trace w1) playlistId = Some (Resolves playlist)
        \<and> truthy playlist \<and> jsget playlist ''videos'' = Arr videos"
  then show "fst (getYouTubePlaylist env playlistId options w)
              = Inr (playlistObject playlistId playlist
                       (filter (\<lambda>t. t \<noteq> Null) (map (playlistEntry env) videos)))"
    by (simp add: getYouTubePlaylist_tracks)
qed

lemma example_entry_resolves: "playlistEntry env (example_entry i) \<noteq> Null \<longleftrightarrow> i \<noteq> []"
  by (simp add: playlistEntry_def example_entry_def Let_def jsget_def js_or_def)

lemma example_failing_dropped: "playlistEntry env example_failing = Null"
  by (simp add: playlistEntry_def example_failing_def Let_def jsget_def js_or_def)

lemma example_init:
  "initializeYouTube example_playlist_env (youtubeiOptions example_extractor) example_world
     = (Some 0, example_world\<lparr>innertube := Some 0, lastCookies := CString ''SID=abc'',
          trace := [Create (initOptionsFor (youtubeiOptions example_extractor))]\<rparr>)"
  by (simp add: initializeYouTube_def example_playlist_env_def example_env_def example_world_def
      example_extractor_def Let_def emit_def)

theorem playlist_batches_preserve_order_witness:
  "length example_before = 3 \<and> length example_after = 6
   \<and> playlistEntry example_playlist_env example_failing = Null
   \<and> list_all (\<lambda>v. playlistEntry example_playlist_env v \<noteq> Null) (example_before @ example_after)
   \<and> batchLoop example_playlist_env 0 (example_before @ [example_failing] @ example_after) []
        = map (playlistEntry example_playlist_env) (example_before @ example_after)
   \<and> fst (getYouTubePlaylist example_playlist_env ''PLabc'' (youtubeiOptions example_extractor)
            example_world)
        = Inr (playlistObject ''PLabc'' example_playlist
                 (map (playlistEntry example_playlist_env) (example_before @ example_after)))"
proof -
  have l: "length example_before = 3" "length example_after = 6"
    by (simp_all add: example_before_def example_after_def)
  have ok: "\<forall>v \<in> set (example_before @ example_after). playlistEntry example_playlist_env v \<noteq> Null"
    by (simp add: example_before_def example_after_def example_entry_resolves)
  have rd: "\<not> startsWith ''PLabc'' ''RD''"
    by (simp add: startsWith_def)
  have pl: "yt_getPlaylist example_playlist_env
              (trace (example_world\<lparr>innertube := Some 0, lastCookies := CString ''SID=abc'',
                 trace := [Create (initOptionsFor (youtubeiOptions example_extractor))]\<rparr>)) ''PLabc''
            = Some (Resolves example_playlist)"
    by (simp add: example_playlist_env_def)
  have tr: "truthy example_playlist"
    by (simp add: example_playlist_def)
  have vs: "jsget example_playlist ''videos''
              = Arr (example_before @ [example_failing] @ example_after)"
    by (simp add: example_playlist_def jsget_def)
  have keep: "filter (\<lambda>t. t \<noteq> Null)
                (map (playlistEntry example_playlist_env) (example_before @ [example_failing] @ example_after))
              = map (playlistEntry example_playlist_env) (example_before @ example_after)"
    using ok example_failing_dropped by (simp add: filter_id_conv)
  show ?thesis
    using playlist_batches_preserve_order
      [of example_playlist_env "example_before @ [example_failing] @ example_after"
          example_failing example_before example_after example_failing
          "youtubeiOptions example_extractor" example_world 0
          "example_world\<lparr>innertube := Some 0, lastCookies := CString ''SID=abc'',
             trace := [Create (initOptionsFor (youtubeiOptions example_extractor))]\<rparr>"
          "''PLabc''" example_playlist]
      l ok example_failing_dropped example_init rd pl tr vs keep
    by (simp add: list_all_iff)
qed

subsection \<open>The temporary cookie file\<close>

lemma writeCookies_ok:
  "write_ok env (trace w) \<Longrightarrow>
   writeCookies env file cookies args w =
     (args @ [''--cookies'', file],
      w\<lparr>files := insert file (files w),
        trace := trace w @ [WriteFile file (convertToNetscapeFormat cookies)]\<rparr>)"
  by (simp add: writeCookies_def Let_def emit_def)

lemma cleanupCookies_removes:
  "unlink_ok env (trace w) \<Longrightarrow> file \<notin> files (cleanupCookies env file w)"
  by (simp add: cleanupCookies_def Let_def emit_def)

lemma getStreamingUrl_failed_run:
  assumes "binary \<in> files w" "s \<noteq> []" "trim s \<noteq> []" "write_ok env (trace w)"
    and "exec env (trace w @ [WriteFile (tempCookiesFile env) (convertToNetscapeFormat (CString s))])
           (commandLine binary (streamArgs quality @ [''--cookies'', tempCookiesFile env]) url)
         = ExecErr e"
  shows "getStreamingUrl env url binary quality (CString s) w =
     (Inl e,
      w\<lparr>files := insert (tempCookiesFile env) (files w),
        trace := trace w @
          [WriteFile (tempCookiesFile env) (convertToNetscapeFormat (CString s)),
           Exec (commandLine binary (streamArgs quality @ [''--cookies'', tempCookiesFile env]) url)]\<rparr>)"
  using assms by (simp add: getStreamingUrl_def writeCookies_ok Let_def emit_def)

lemma getYouTubeMetadataWithYtDlp_failed_run:
  assumes "binary \<in> files w" "cookies_truthy cookies" "write_ok env (trace w)"
    and "exec env (trace w @ [WriteFile (tempCookiesMetadataFile env) (convertToNetscapeFormat cookies)])
           (commandLine binary (metadataArgs @ [''--cookies'', tempCookiesMetadataFile env])
              (''https://www.youtube.com/watch?v='' @ videoId))
         = ExecErr e"
  shows "getYouTubeMetadataWithYtDlp env videoId binary cookies w =
     (Inl e,
      w\<lparr>files := insert (tempCookiesMetadataFile env) (files w),
        trace := trace w @
          [WriteFile (tempCookiesMetadataFile env) (convertToNetscapeFormat cookies),
           Exec (commandLine binary (metadataArgs @ [''--cookies'', tempCookiesMetadataFile env])
                   (''https://www.youtube.com/watch?v='' @ videoId))]\<rparr>)"
  using assms by (simp add: getYouTubeMetadataWithYtDlp_def writeCookies_ok Let_def emit_def)

text \<open>
  When the run of the extractor resolves and the removal succeeds, the cookie file is gone
  when the call returns, whatever is made of the output afterwards.
\<close>

lemma getStreamingUrl_resolved_run:
  assumes "binary \<in> files w" "s \<noteq> []" "trim s \<noteq> []" "write_ok env (trace w)"
    and "exec env (trace w @ [WriteFile (tempCookiesFile env) (convertToNetscapeFormat (CString s))])
           (commandLine binary (streamArgs quality @ [''--cookies'', tempCookiesFile env]) url)
         = ExecOk out err"
    and "\<forall>tr. unlink_ok env tr"
  shows "tempCookiesFile env \<notin> files (snd (getStreamingUrl env url binary quality (CString s) w))"
  using assms
  by (simp add: getStreamingUrl_def writeCookies_ok Let_def emit_def cleanupCookies_def)

lemma getYouTubeMetadataWithYtDlp_resolved_run:
  assumes "binary \<in> files w" "cookies_truthy cookies" "write_ok env (trace w)"
    and "exec env (trace w @ [WriteFile (tempCookiesMetadataFile env) (convertToNetscapeFormat cookies)])
           (commandLine binary (metadataArgs @ [''--cookies'', tempCookiesMetadataFile env])
              (''https://www.youtube.com/watch?v='' @ videoId))
         = ExecOk out err"
    and "\<forall>tr. unlink_ok env tr"
  shows "tempCookiesMetadataFile env
           \<notin> files (snd (getYouTubeMetadataWithYtDlp env videoId binary cookies w))"
  using assms
  by (simp add: getYouTubeMetadataWithYtDlp_def writeCookies_ok Let_def emit_def cleanupCookies_def
      split: option.splits)

text \<open>
  C3 does not hold of the code. The removal of the cookie file stands after
  \<^verbatim>\<open>await execAsync(...)\<close> and not in a \<^verbatim>\<open>finally\<close>: when the external process fails or is
  killed at its timeout, \<^verbatim>\<open>getStreamingUrl\<close> and \<^verbatim>\<open>getYouTubeMetadataWithYtDlp\<close> throw the
  error of the run, and the file they wrote is still there when they return; no removal
  has been attempted.
\<close>

theorem cookie_file_left_after_failed_run:
  "(binary \<in> files w \<and> s \<noteq> [] \<and> trim s \<noteq> [] \<and> write_ok env (trace w)
      \<and> exec env (trace w @ [WriteFile (tempCookiesFile env) (convertToNetscapeFormat (CString s))])
           (commandLine binary (streamArgs quality @ [''--cookies'', tempCookiesFile env]) url)
         = ExecErr e
    \<longrightarrow> fst (getStreamingUrl env url binary quality (CString s) w) = Inl e
        \<and> tempCookiesFile env \<in> files (snd (getStreamingUrl env url binary quality (CString s) w))
        \<and> Unlink (tempCookiesFile env)
            \<notin> set (trace (snd (getStreamingUrl env url binary quality (CString s) w)))
              - set (trace w))
   \<and> (binary \<in> files w \<and> cookies_truthy cookies \<and> write_ok env (trace w)
      \<and> exec env (trace w @ [WriteFile (tempCookiesMetadataFile env) (convertToNetscapeFormat cookies)])
           (commandLine binary (metadataArgs @ [''--cookies'', tempCookiesMetadataFile env])
              (''https://www.youtube.com/watch?v='' @ videoId))
         = ExecErr e
    \<longrightarrow> fst (getYouTubeMetadataWithYtDlp env videoId binary cookies w) = Inl e
        \<and> tempCookiesMetadataFile env
            \<in> files (snd (getYouTubeMetadataWithYtDlp env videoId binary cookies w))
        \<and> Unlink (tempCookiesMetadataFile env)
            \<notin> set (trace (snd (getYouTubeMetadataWithYtDlp env videoId binary cookies w)))
              - set (trace w))"
  by (auto simp: getStreamingUrl_failed_run getYouTubeMetadataWithYtDlp_failed_run)

theorem cookie_file_left_after_failed_run_witness:
  "fst (getStreamingUrl example_env ''https://www.youtube.com/watch?v=dQw4w9WgXcQ''
          ''/usr/bin/yt-dlp'' ''bestaudio'' (CString ''SID=abc'') example_world)
     = Inl ''Command failed''
   \<and> ''/app/temp_cookies.txt''
       \<in> files (snd (getStreamingUrl example_env ''https://www.youtube.com/watch?v=dQw4w9WgXcQ''
                       ''/usr/bin/yt-dlp'' ''bestaudio'' (CString ''SID=abc'') example_world))
   \<and> ''/app/temp_cookies.txt'' \<notin> files example_world
   \<and> fst (getYouTubeMetadataWithYtDlp example_env ''dQw4w9WgXcQ'' ''/usr/bin/yt-dlp''
            (CString ''SID=abc'') example_world)
     = Inl ''Command failed''
   \<and> ''/app/temp_cookies_metadata.txt''
       \<in> files (snd (getYouTubeMetadataWithYtDlp example_env ''dQw4w9WgXcQ'' ''/usr/bin/yt-dlp''
                       (CString ''SID=abc'') example_world))"
proof -
  have b: "''/usr/bin/yt-dlp'' \<in> files example_world"
    by (simp add: example_world_def)
  have t: "trim ''SID=abc'' \<noteq> []"
    by (simp add: trim_def is_space_def)
  have wr: "write_ok example_env (trace example_world)"
    by (simp add: example_env_def)
  have ex: "\<And>tr c. exec example_env tr c = ExecErr ''Command failed''"
    by (simp add: example_env_def)
  have f1: "tempCookiesFile example_env = ''/app/temp_cookies.txt''"
    by (simp add: tempCookiesFile_def example_env_def)
  have f2: "tempCookiesMetadataFile example_env = ''/app/temp_cookies_metadata.txt''"
    by (simp add: tempCookiesMetadataFile_def example_env_def)
  have n: "''/app/temp_cookies.txt'' \<notin> files example_world"
    by (simp add: example_world_def)
  show ?thesis
    using cookie_file_left_after_failed_run
      [of "''/usr/bin/yt-dlp''" example_world "''SID=abc''" example_env "''bestaudio''"
          "''https://www.youtube.com/watch?v=dQw4w9WgXcQ''" "''Command failed''"
          "CString ''SID=abc''" "''dQw4w9WgXcQ''"]
      b t wr ex f1 f2 n
    by simp
qed

subsection \<open>Stream resolution\<close>

lemma writeCookies_effect:
  "writeCookies env file cookies args w = (args', w') \<Longrightarrow>
   trace w' = trace w @ [WriteFile file (convertToNetscapeFormat cookies)]
   \<and> files w \<subseteq> files w'"
  by (auto simp: writeCookies_def Let_def emit_def split: if_splits)

lemma cleanupCookies_effect:
  "\<exists>post. trace (cleanupCookies env file w) = trace w @ post \<and> \<not> list_ex is_exec post
          \<and> files w - {file} \<subseteq> files (cleanupCookies env file w)"
  by (auto simp: cleanupCookies_def Let_def emit_def)

lemma streamOutcome_Inr:
  "streamOutcome r = Inr u \<Longrightarrow> u \<noteq> [] \<and> startsWith u ''http''"
  by (auto simp: streamOutcome_def split: exec_outcome.splits if_splits)

lemma writeCookies_args:
  "writeCookies env file cookies args w = (args', w') \<Longrightarrow>
   args' = args \<or> args' = args @ [''--cookies'', file]"
  by (auto simp: writeCookies_def Let_def split: if_splits)

lemma getStreamingUrl_step:
  assumes bin: "binary \<in> files w" and ne: "binary \<noteq> tempCookiesFile env"
  shows "\<exists>pre args post.
           trace (snd (getStreamingUrl env url binary quality cookies w))
             = trace w @ pre @ [Exec (commandLine binary args url)] @ post
           \<and> (args = streamArgs quality
                \<or> args = streamArgs quality @ [''--cookies'', tempCookiesFile env])
           \<and> \<not> list_ex is_exec (pre @ post)
           \<and> fst (getStreamingUrl env url binary quality cookies w)
               = streamOutcome (exec env (trace w @ pre) (commandLine binary args url))
           \<and> binary \<in> files (snd (getStreamingUrl env url binary quality cookies w))"
proof -
  define prep where "prep = (case cookies of
       CString s \<Rightarrow>
         if s \<noteq> [] \<and> trim s \<noteq> []
         then writeCookies env (tempCookiesFile env) cookies (streamArgs quality) w
         else (streamArgs quality, w)
     | other \<Rightarrow> (streamArgs quality, w))"
  obtain args w1 where p: "prep = (args, w1)" by (cases prep)
  have "\<exists>pre. trace w1 = trace w @ pre \<and> \<not> list_ex is_exec pre \<and> binary \<in> files w1
          \<and> (args = streamArgs quality
               \<or> args = streamArgs quality @ [''--cookies'', tempCookiesFile env])"
  proof (cases "\<exists>s. cookies = CString s \<and> s \<noteq> [] \<and> trim s \<noteq> []")
    case True
    with p have "writeCookies env (tempCookiesFile env) cookies (streamArgs quality) w = (args, w1)"
      by (auto simp: prep_def)
    from writeCookies_effect [OF this] writeCookies_args [OF this] bin show ?thesis by auto
  next
    case False
    with p have "w1 = w" "args = streamArgs quality"
      by (auto simp: prep_def split: cookies.splits if_splits)
    with bin show ?thesis by simp
  qed
  then obtain pre where pre: "trace w1 = trace w @ pre" "\<not> list_ex is_exec pre"
    and bin1: "binary \<in> files w1"
    and ar: "args = streamArgs quality
               \<or> args = streamArgs quality @ [''--cookies'', tempCookiesFile env]" by blast
  let ?cmd = "commandLine binary args url"
  let ?w2 = "emit (Exec ?cmd) w1"
  have run: "getStreamingUrl env url binary quality cookies w =
     (case exec env (trace w1) ?cmd of
        ExecErr e \<Rightarrow> (Inl e, ?w2)
      | ExecOk out err \<Rightarrow>
          (let w3 = (if cookies_truthy cookies
                     then cleanupCookies env (tempCookiesFile env) ?w2 else ?w2)
           in if err \<noteq> [] \<and> out = [] then (Inl (''yt-dlp error: '' @ err), w3)
              else if trim out = [] \<or> \<not> startsWith (trim out) ''http''
              then (Inl ''Invalid streaming URL returned'', w3)
              else (Inr (trim out), w3)))"
    using bin p by (simp add: getStreamingUrl_def prep_def [symmetric] Let_def)
  show ?thesis
  proof (cases "exec env (trace w1) ?cmd")
    case (ExecErr e)
    with run pre bin1 ar show ?thesis
      by (intro exI [of _ pre] exI [of _ args] exI [of _ "[]"])
         (simp add: streamOutcome_def emit_def)
  next
    case (ExecOk out err)
    define w3 where "w3 = (if cookies_truthy cookies
                     then cleanupCookies env (tempCookiesFile env) ?w2 else ?w2)"
    have "\<exists>post. trace w3 = trace ?w2 @ post \<and> \<not> list_ex is_exec post
                 \<and> files ?w2 - {tempCookiesFile env} \<subseteq> files w3"
      using cleanupCookies_effect [of env "tempCookiesFile env" ?w2]
      by (cases "cookies_truthy cookies") (auto simp: w3_def)
    then obtain post where post: "trace w3 = trace ?w2 @ post" "\<not> list_ex is_exec post"
      and keep: "files ?w2 - {tempCookiesFile env} \<subseteq> files w3" by blast
    from bin1 ne keep have bin3: "binary \<in> files w3"
      by (auto simp: emit_def)
    have res: "getStreamingUrl env url binary quality cookies w
                 = (streamOutcome (ExecOk out err), w3)"
      using run ExecOk by (simp add: streamOutcome_def w3_def Let_def)
    from post pre have tr: "trace w3 = trace w @ pre @ [Exec ?cmd] @ post"
      by (simp add: emit_def)
    show ?thesis
      using res tr pre post bin3 ExecOk ar
      by (intro exI [of _ pre] exI [of _ args] exI [of _ post]) simp
  qed
qed

lemma stream_step:
  assumes "\<not> nullish info"
    and "truthy (js_or (jsget info ''url'') (jsget (jsget info ''raw'') ''url''))"
    and "ytdlpPath this \<in> files w" and "ytdlpPath this \<noteq> tempCookiesFile env"
  shows "\<exists>pre args post.
           trace (snd (stream env this info w))
             = trace w @ pre @ [Exec (commandLine (ytdlpPath this) args
                 (to_str env (js_or (jsget info ''url'') (jsget (jsget info ''raw'') ''url''))))] @ post
           \<and> (args = streamArgs (streamQuality this)
                \<or> args = streamArgs (streamQuality this) @ [''--cookies'', tempCookiesFile env])
           \<and> \<not> list_ex is_exec (pre @ post)
           \<and> fst (stream env this info w)
               = streamOutcome (exec env (trace w @ pre) (commandLine (ytdlpPath this) args
                   (to_str env (js_or (jsget info ''url'') (jsget (jsget info ''raw'') ''url'')))))
           \<and> ytdlpPath this \<in> files (snd (stream env this info w))"
proof -
  let ?u = "to_str env (js_or (jsget info ''url'') (jsget (jsget info ''raw'') ''url''))"
  let ?g = "getStreamingUrl env ?u (ytdlpPath this) (streamQuality this) (cookiesOrNull this) w"
  from getStreamingUrl_step [OF assms(3) assms(4), of ?u "streamQuality this" "cookiesOrNull this"]
  obtain pre args post where
    g: "trace (snd ?g) = trace w @ pre @ [Exec (commandLine (ytdlpPath this) args ?u)] @ post"
       "args = streamArgs (streamQuality this)
          \<or> args = streamArgs (streamQuality this) @ [''--cookies'', tempCookiesFile env]"
       "\<not> list_ex is_exec (pre @ post)"
       "fst ?g = streamOutcome (exec env (trace w @ pre) (commandLine (ytdlpPath this) args ?u))"
       "ytdlpPath this \<in> files (snd ?g)"
    by blast
  have same: "stream env this info w = ?g"
  proof (cases "fst ?g")
    case (Inl e)
    then show ?thesis
      using assms(1,2) by (cases ?g) (simp add: stream_def Let_def)
  next
    case (Inr u)
    with g(4) have "u \<noteq> [] \<and> startsWith u ''http''"
      by (simp add: streamOutcome_Inr)
    with Inr show ?thesis
      using assms(1,2) by (cases ?g) (simp add: stream_def Let_def)
  qed
  from g show ?thesis
    unfolding same by blast
qed

text \<open>
  C8. For a track with a URL, on a host where the extractor's binary is installed (and is
  not itself the cookie file), every call of \<^verbatim>\<open>stream\<close> runs the external extractor
  once, and the command it runs is the quoted path of the extractor's binary, the options
  \<^verbatim>\<open>-f <quality> --get-url --no-playlist ...\<close> (followed by \<^verbatim>\<open>--cookies <file>\<close> when
  the cookie file was written) and the quoted URL of the track. What the call returns is made
  of what that run gave: nothing it returns is read from an earlier call. Two calls in a row
  for the same track make two runs, and the second result is that of the second run.
\<close>

theorem stream_runs_extractor_every_call:
  "\<not> nullish info
   \<and> truthy (js_or (jsget info ''url'') (jsget (jsget info ''raw'') ''url''))
   \<and> ytdlpPath this \<in> files w \<and> ytdlpPath this \<noteq> tempCookiesFile env
   \<longrightarrow> (\<exists>pre1 args1 post1 pre2 args2 post2 base cmd1 cmd2.
          base = [''-f'', streamQuality this, ''--get-url'', ''--no-playlist'', ''--no-warnings'',
                ''--no-check-certificates'', ''--prefer-insecure'', ''--skip-download'',
                ''--no-call-home'', ''--no-cache-dir'', ''--socket-timeout'', ''10'',
                ''--retries'', ''3'', ''--fragment-retries'', ''3'']
        \<and> (args1 = base \<or> args1 = base @ [''--cookies'', dirname env @ ''/temp_cookies.txt''])
        \<and> (args2 = base \<or> args2 = base @ [''--cookies'', dirname env @ ''/temp_cookies.txt''])
        \<and> cmd1 = [CHR 0x22] @ ytdlpPath this @ [CHR 0x22] @ '' '' @ join '' '' args1 @ '' ''
              @ [CHR 0x22] @ to_str env (js_or (jsget info ''url'') (jsget (jsget info ''raw'') ''url''))
              @ [CHR 0x22]
        \<and> cmd2 = [CHR 0x22] @ ytdlpPath this @ [CHR 0x22] @ '' '' @ join '' '' args2 @ '' ''
              @ [CHR 0x22] @ to_str env (js_or (jsget info ''url'') (jsget (jsget info ''raw'') ''url''))
              @ [CHR 0x22]
        \<and> trace (snd (stream env this info w)) = trace w @ pre1 @ [Exec cmd1] @ post1
        \<and> trace (snd (stream env this info (snd (stream env this info w))))
            = trace (snd (stream env this info w)) @ pre2 @ [Exec cmd2] @ post2
        \<and> \<not> list_ex is_exec (pre1 @ post1 @ pre2 @ post2)
        \<and> fst (stream env this info w) = streamOutcome (exec env (trace w @ pre1) cmd1)
        \<and> fst (stream env this info (snd (stream env this info w)))
            = streamOutcome (exec env (trace (snd (stream env this info w)) @ pre2) cmd2))
     \<and> length (filter is_exec (trace (snd (stream env this info (snd (stream env this info w))))))
         = length (filter is_exec (trace w)) + 2"
proof
  assume h: "\<not> nullish info
   \<and> truthy (js_or (jsget info ''url'') (jsget (jsget info ''raw'') ''url''))
   \<and> ytdlpPath this \<in> files w \<and> ytdlpPath this \<noteq> tempCookiesFile env"
  let ?u = "to_str env (js_or (jsget info ''url'') (jsget (jsget info ''raw'') ''url''))"
  let ?w1 = "snd (stream env this info w)"
  let ?w2 = "snd (stream env this info ?w1)"
  let ?base = "[''-f'', streamQuality this, ''--get-url'', ''--no-playlist'', ''--no-warnings'',
                ''--no-check-certificates'', ''--prefer-insecure'', ''--skip-download'',
                ''--no-call-home'', ''--no-cache-dir'', ''--socket-timeout'', ''10'',
                ''--retries'', ''3'', ''--fragment-retries'', ''3'']"
  let ?file = "dirname env @ ''/temp_cookies.txt''"
  have base_eq: "streamArgs (streamQuality this) = ?base"
    by (simp add: streamArgs_def)
  have file_eq: "tempCookiesFile env = ?file"
    by (simp add: tempCookiesFile_def)
  have cmd: "\<And>args. commandLine (ytdlpPath this) args ?u
      = [CHR 0x22] @ ytdlpPath this @ [CHR 0x22] @ '' '' @ join '' '' args @ '' ''
          @ [CHR 0x22] @ ?u @ [CHR 0x22]"
    by (simp add: commandLine_def)
  from h stream_step [of info this w env]
  obtain pre1 args1 post1 where
    s1: "trace ?w1 = trace w @ pre1 @ [Exec (commandLine (ytdlpPath this) args1 ?u)] @ post1"
        "args1 = ?base \<or> args1 = ?base @ [''--cookies'', ?file]"
        "\<not> list_ex is_exec (pre1 @ post1)"
        "fst (stream env this info w)
           = streamOutcome (exec env (trace w @ pre1) (commandLine (ytdlpPath this) args1 ?u))"
        "ytdlpPath this \<in> files ?w1"
    unfolding base_eq file_eq by blast
  from h s1(5) stream_step [of info this ?w1 env]
  obtain pre2 args2 post2 where
    s2: "trace ?w2 = trace ?w1 @ pre2 @ [Exec (commandLine (ytdlpPath this) args2 ?u)] @ post2"
        "args2 = ?base \<or> args2 = ?base @ [''--cookies'', ?file]"
        "\<not> list_ex is_exec (pre2 @ post2)"
        "fst (stream env this info ?w1)
           = streamOutcome (exec env (trace ?w1 @ pre2) (commandLine (ytdlpPath this) args2 ?u))"
    unfolding base_eq file_eq by blast
  from s1(3) s2(3) have n: "filter is_exec pre1 = []" "filter is_exec post1 = []"
      "filter is_exec pre2 = []" "filter is_exec post2 = []"
    by (simp_all add: list_ex_iff filter_empty_conv)
  have count: "length (filter is_exec (trace ?w2)) = length (filter is_exec (trace w)) + 2"
    by (simp add: s2(1) s1(1) n)
  have quiet: "\<not> list_ex is_exec (pre1 @ post1 @ pre2 @ post2)"
    using s1(3) s2(3) by simp
  let ?cmd1 = "[CHR 0x22] @ ytdlpPath this @ [CHR 0x22] @ '' '' @ join '' '' args1 @ '' ''
          @ [CHR 0x22] @ ?u @ [CHR 0x22]"
  let ?cmd2 = "[CHR 0x22] @ ytdlpPath this @ [CHR 0x22] @ '' '' @ join '' '' args2 @ '' ''
          @ [CHR 0x22] @ ?u @ [CHR 0x22]"
  have t1: "trace ?w1 = trace w @ pre1 @ [Exec ?cmd1] @ post1"
    using s1(1) unfolding cmd .
  have t2: "trace ?w2 = trace ?w1 @ pre2 @ [Exec ?cmd2] @ post2"
    using s2(1) unfolding cmd .
  have f1: "fst (stream env this info w) = streamOutcome (exec env (trace w @ pre1) ?cmd1)"
    using s1(4) unfolding cmd .
  have f2: "fst (stream env this info ?w1) = streamOutcome (exec env (trace ?w1 @ pre2) ?cmd2)"
    using s2(4) unfolding cmd .
  have ex: "\<exists>pre1 args1 post1 pre2 args2 post2 base cmd1 cmd2.
          base = ?base
        \<and> (args1 = base \<or> args1 = base @ [''--cookies'', ?file])
        \<and> (args2 = base \<or> args2 = base @ [''--cookies'', ?file])
        \<and> cmd1 = [CHR 0x22] @ ytdlpPath this @ [CHR 0x22] @ '' '' @ join '' '' args1 @ '' ''
              @ [CHR 0x22] @ ?u @ [CHR 0x22]
        \<and> cmd2 = [CHR 0x22] @ ytdlpPath this @ [CHR 0x22] @ '' '' @ join '' '' args2 @ '' ''
              @ [CHR 0x22] @ ?u @ [CHR 0x22]
        \<and> trace ?w1 = trace w @ pre1 @ [Exec cmd1] @ post1
        \<and> trace ?w2 = trace ?w1 @ pre2 @ [Exec cmd2] @ post2
        \<and> \<not> list_ex is_exec (pre1 @ post1 @ pre2 @ post2)
        \<and> fst (stream env this info w) = streamOutcome (exec env (trace w @ pre1) cmd1)
        \<and> fst (stream env this info ?w1) = streamOutcome (exec env (trace ?w1 @ pre2) cmd2)"
    using s1(2) s2(2) t1 t2 quiet f1 f2
    by (intro exI [of _ pre1] exI [of _ args1] exI [of _ post1]
              exI [of _ pre2] exI [of _ args2] exI [of _ post2]
              exI [of _ ?base] exI [of _ ?cmd1] exI [of _ ?cmd2] conjI refl)
  from ex count show "(\<exists>pre1 args1 post1 pre2 args2 post2 base cmd1 cmd2.
          base = [''-f'', streamQuality this, ''--get-url'', ''--no-playlist'', ''--no-warnings'',
                ''--no-check-certificates'', ''--prefer-insecure'', ''--skip-download'',
                ''--no-call-home'', ''--no-cache-dir'', ''--socket-timeout'', ''10'',
                ''--retries'', ''3'', ''--fragment-retries'', ''3'']
        \<and> (args1 = base \<or> args1 = base @ [''--cookies'', dirname env @ ''/temp_cookies.txt''])
        \<and> (args2 = base \<or> args2 = base @ [''--cookies'', dirname env @ ''/temp_cookies.txt''])
        \<and> cmd1 = [CHR 0x22] @ ytdlpPath this @ [CHR 0x22] @ '' '' @ join '' '' args1 @ '' ''
              @ [CHR 0x22] @ to_str env (js_or (jsget info ''url'') (jsget (jsget info ''raw'') ''url''))
              @ [CHR 0x22]
        \<and> cmd2 = [CHR 0x22] @ ytdlpPath this @ [CHR 0x22] @ '' '' @ join '' '' args2 @ '' ''
              @ [CHR 0x22] @ to_str env (js_or (jsget info ''url'') (jsget (jsget info ''raw'') ''url''))
              @ [CHR 0x22]
        \<and> trace (snd (stream env this info w)) = trace w @ pre1 @ [Exec cmd1] @ post1
        \<and> trace (snd (stream env this info (snd (stream env this info w))))
            = trace (snd (stream env this info w)) @ pre2 @ [Exec cmd2] @ post2
        \<and> \<not> list_ex is_exec (pre1 @ post1 @ pre2 @ post2)
        \<and> fst (stream env this info w) = streamOutcome (exec env (trace w @ pre1) cmd1)
        \<and> fst (stream env this info (snd (stream env this info w)))
            = streamOutcome (exec env (trace (snd (stream env this info w)) @ pre2) cmd2))
     \<and> length (filter is_exec (trace (snd (stream env this info (snd (stream env this info w))))))
         = length (filter is_exec (trace w)) + 2"
    by (rule conjI)
qed

theorem stream_runs_extractor_every_call_witness:
  "\<not> nullish example_track
   \<and> truthy (js_or (jsget example_track ''url'') (jsget (jsget example_track ''raw'') ''url''))
   \<and> ytdlpPath example_extractor \<in> files example_world
   \<and> ytdlpPath example_extractor \<noteq> tempCookiesFile example_stream_env
   \<and> length (filter is_exec (trace (snd (stream example_stream_env example_extractor example_track
        (snd (stream example_stream_env example_extractor example_track example_world)))))) = 2
   \<and> filter is_exec (trace (snd (stream example_stream_env example_extractor example_track
        example_world)))
       = [Exec ([CHR 0x22] @ ''/usr/bin/yt-dlp'' @ [CHR 0x22]
            @ '' -f bestaudio --get-url --no-playlist --no-warnings --no-check-certificates''
            @ '' --prefer-insecure --skip-download --no-call-home --no-cache-dir''
            @ '' --socket-timeout 10 --retries 3 --fragment-retries 3''
            @ '' --cookies /app/temp_cookies.txt ''
            @ [CHR 0x22] @ ''https://www.youtube.com/watch?v=dQw4w9WgXcQ'' @ [CHR 0x22])]
   \<and> fst (stream example_stream_env example_extractor example_track example_world)
       = Inr ''https://cdn.example/1''
   \<and> fst (stream example_stream_env example_extractor example_track
        (snd (stream example_stream_env example_extractor example_track example_world)))
       = Inr ''https://cdn.example/4''"
proof -
  have h1: "\<not> nullish example_track"
    by (simp add: example_track_def)
  have h2: "truthy (js_or (jsget example_track ''url'') (jsget (jsget example_track ''raw'') ''url''))"
    by (simp add: example_track_def jsget_def js_or_def)
  have h3: "ytdlpPath example_extractor \<in> files example_world"
    by (simp add: example_extractor_def example_world_def)
  have h4: "ytdlpPath example_extractor \<noteq> tempCookiesFile example_stream_env"
    by (simp add: example_extractor_def tempCookiesFile_def example_stream_env_def example_env_def)
  have t0: "filter is_exec (trace example_world) = []"
    by (simp add: example_world_def)
  have c1: "filter is_exec (trace (snd (stream example_stream_env example_extractor example_track
        example_world)))
       = [Exec ([CHR 0x22] @ ''/usr/bin/yt-dlp'' @ [CHR 0x22]
            @ '' -f bestaudio --get-url --no-playlist --no-warnings --no-check-certificates''
            @ '' --prefer-insecure --skip-download --no-call-home --no-cache-dir''
            @ '' --socket-timeout 10 --retries 3 --fragment-retries 3''
            @ '' --cookies /app/temp_cookies.txt ''
            @ [CHR 0x22] @ ''https://www.youtube.com/watch?v=dQw4w9WgXcQ'' @ [CHR 0x22])]"
    by code_simp
  have r1: "fst (stream example_stream_env example_extractor example_track example_world)
       = Inr ''https://cdn.example/1''"
    by code_simp
  have r2: "fst (stream example_stream_env example_extractor example_track
        (snd (stream example_stream_env example_extractor example_track example_world)))
       = Inr ''https://cdn.example/4''"
    by code_simp
  show ?thesis
    using stream_runs_extractor_every_call
      [of example_track example_extractor example_world example_stream_env]
      h1 h2 h3 h4 t0 c1 r1 r2
    by simp
qed

subsection \<open>Related tracks\<close>

lemma initializeYouTube_searches:
  "filter is_search (trace (snd (initializeYouTube env options w))) = filter is_search (trace w)"
  by (auto simp: initializeYouTube_def Let_def emit_def split: option.splits)

lemma getRelatedTracks_world:
  "snd (getRelatedTracks env videoId options limit w) = snd (initializeYouTube env options w)
   \<or> (\<exists>yt. snd (getRelatedTracks env videoId options limit w)
             = emit (YtGetInfo yt videoId) (snd (initializeYouTube env options w)))"
proof (cases "initializeYouTube env options w")
  case (Pair r w1)
  show ?thesis
  proof (cases r)
    case None
    with Pair show ?thesis by (simp add: getRelatedTracks_def)
  next
    case (Some yt)
    have "snd (getRelatedTracks env videoId options limit w) = emit (YtGetInfo yt videoId) w1"
      using Pair Some
      by (simp add: getRelatedTracks_def Let_def split: settled.splits jsval.splits)
    with Pair show ?thesis by auto
  qed
qed

lemma getRelatedTracks_searches:
  "filter is_search (trace (snd (getRelatedTracks env videoId options limit w)))
     = filter is_search (trace w)"
  using getRelatedTracks_world [of env videoId options limit w]
    initializeYouTube_searches [of env options w]
  by (auto simp: emit_def)

lemma related_main_path:
  assumes "jsget track ''url'' = Str url" "isYouTubeUrl url"
    and "extractYouTubeId url = Some videoId" "videoId \<noteq> []"
    and "getRelatedTracks env videoId (youtubeiOptions this) 10 w = (found, w1)"
  shows "snd (extractor_getRelatedTracks env this track history w) =
     (if found = [] \<and> truthy (jsget track ''author'') \<and> jsget track ''author'' \<noteq> Str ''Unknown Artist''
      then snd (searchYouTube env (to_str env (jsget track ''author'') @ '' music'') 5
                  (youtubeiOptions this) w1)
      else w1)"
proof -
  from assms(1) have nn: "\<not> nullish track"
    by (cases track) (simp_all add: jsget_def)
  show ?thesis
    using assms nn
    by (simp add: extractor_getRelatedTracks_def Let_def split: prod.splits)
qed

lemma related_other_paths:
  assumes "\<not> (\<exists>url videoId. jsget track ''url'' = Str url \<and> isYouTubeUrl url
             \<and> extractYouTubeId url = Some videoId \<and> videoId \<noteq> [])"
  shows "extractor_getRelatedTracks env this track history w = (createResponse Null [], w)"
  using assms
  by (auto simp: extractor_getRelatedTracks_def split: jsval.splits option.splits)

lemma related_empty_without_author:
  assumes "jsget track ''url'' = Str url" "isYouTubeUrl url"
    and "extractYouTubeId url = Some videoId" "videoId \<noteq> []"
    and "fst (getRelatedTracks env videoId (youtubeiOptions this) 10 w) = []"
    and "\<not> truthy (jsget track ''author'') \<or> jsget track ''author'' = Str ''Unknown Artist''"
  shows "fst (extractor_getRelatedTracks env this track history w) = createResponse Null []"
proof -
  from assms(1) have nn: "\<not> nullish track"
    by (cases track) (simp_all add: jsget_def)
  obtain w1 where "getRelatedTracks env videoId (youtubeiOptions this) 10 w = ([], w1)"
    using assms(5) by (cases "getRelatedTracks env videoId (youtubeiOptions this) 10 w") simp
  then show ?thesis
    using assms(1-4,6) nn
    by (auto simp: extractor_getRelatedTracks_def Let_def)
qed

text \<open>
  C10. In the related-track discovery of the extractor, a search is made only when the
  recommendations of the seed track came back empty and the track's author is present
  and is not \<^verbatim>\<open>'Unknown Artist'\<close>; it is then the search for \<^verbatim>\<open>"{author} music"\<close> with
  limit 5. For a seed track without an author, or with the author \<^verbatim>\<open>'Unknown Artist'\<close>,
  and without recommendations, the operation returns the empty response and no search has
  been made.
\<close>

theorem related_search_needs_known_author:
  "(filter is_search (trace (snd (extractor_getRelatedTracks env this track history w)))
      \<noteq> filter is_search (trace w)
    \<longrightarrow> truthy (jsget track ''author'') \<and> jsget track ''author'' \<noteq> Str ''Unknown Artist''
        \<and> (\<exists>url videoId. jsget track ''url'' = Str url \<and> isYouTubeUrl url
              \<and> extractYouTubeId url = Some videoId
              \<and> fst (getRelatedTracks env videoId (youtubeiOptions this) 10 w) = []
              \<and> snd (extractor_getRelatedTracks env this track history w)
                  = snd (searchYouTube env (to_str env (jsget track ''author'') @ '' music'') 5
                           (youtubeiOptions this)
                           (snd (getRelatedTracks env videoId (youtubeiOptions this) 10 w)))))
   \<and> (jsget track ''url'' = Str url \<and> isYouTubeUrl url \<and> extractYouTubeId url = Some videoId
        \<and> fst (getRelatedTracks env videoId (youtubeiOptions this) 10 w) = []
        \<and> (\<not> truthy (jsget track ''author'') \<or> jsget track ''author'' = Str ''Unknown Artist'')
      \<longrightarrow> fst (extractor_getRelatedTracks env this track history w) = createResponse Null []
          \<and> filter is_search (trace (snd (extractor_getRelatedTracks env this track history w)))
              = filter is_search (trace w))"
proof (intro conjI impI)
  assume ch: "filter is_search (trace (snd (extractor_getRelatedTracks env this track history w)))
      \<noteq> filter is_search (trace w)"
  have main: "\<exists>url videoId. jsget track ''url'' = Str url \<and> isYouTubeUrl url
             \<and> extractYouTubeId url = Some videoId \<and> videoId \<noteq> []"
  proof (rule ccontr)
    assume "\<not> ?thesis"
    from related_other_paths [OF this] ch show False by simp
  qed
  then obtain url videoId where u: "jsget track ''url'' = Str url" "isYouTubeUrl url"
      "extractYouTubeId url = Some videoId" "videoId \<noteq> []" by blast
  obtain found w1 where g: "getRelatedTracks env videoId (youtubeiOptions this) 10 w = (found, w1)"
    by (cases "getRelatedTracks env videoId (youtubeiOptions this) 10 w")
  have w1: "filter is_search (trace w1) = filter is_search (trace w)"
    using getRelatedTracks_searches [of env videoId "youtubeiOptions this" 10 w] g by simp
  note path = related_main_path [OF u g, of history]
  have cond: "found = [] \<and> truthy (jsget track ''author'')
                \<and> jsget track ''author'' \<noteq> Str ''Unknown Artist''"
  proof (rule ccontr)
    assume "\<not> ?thesis"
    with path have "snd (extractor_getRelatedTracks env this track history w) = w1" by auto
    with w1 ch show False by simp
  qed
  then show "truthy (jsget track ''author'')" "jsget track ''author'' \<noteq> Str ''Unknown Artist''"
    by simp_all
  from cond path g u
  show "\<exists>url videoId. jsget track ''url'' = Str url \<and> isYouTubeUrl url
              \<and> extractYouTubeId url = Some videoId
              \<and> fst (getRelatedTracks env videoId (youtubeiOptions this) 10 w) = []
              \<and> snd (extractor_getRelatedTracks env this track history w)
                  = snd (searchYouTube env (to_str env (jsget track ''author'') @ '' music'') 5
                           (youtubeiOptions this)
                           (snd (getRelatedTracks env videoId (youtubeiOptions this) 10 w)))"
    by (intro exI [of _ url] exI [of _ videoId]) simp
next
  assume h: "jsget track ''url'' = Str url \<and> isYouTubeUrl url \<and> extractYouTubeId url = Some videoId
        \<and> fst (getRelatedTracks env videoId (youtubeiOptions this) 10 w) = []
        \<and> (\<not> truthy (jsget track ''author'') \<or> jsget track ''author'' = Str ''Unknown Artist'')"
  obtain found w1 where g: "getRelatedTracks env videoId (youtubeiOptions this) 10 w = (found, w1)"
    by (cases "getRelatedTracks env videoId (youtubeiOptions this) 10 w")
  have w1: "filter is_search (trace w1) = filter is_search (trace w)"
    using getRelatedTracks_searches [of env videoId "youtubeiOptions this" 10 w] g by simp
  show "fst (extractor_getRelatedTracks env this track history w) = createResponse Null []"
  proof (cases "videoId = []")
    case True
    with h have "\<not> (\<exists>u v. jsget track ''url'' = Str u \<and> isYouTubeUrl u
             \<and> extractYouTubeId u = Some v \<and> v \<noteq> [])" by auto
    from related_other_paths [OF this] show ?thesis by simp
  next
    case False
    with h show ?thesis by (intro related_empty_without_author [of track url videoId]) simp_all
  qed
  show "filter is_search (trace (snd (extractor_getRelatedTracks env this track history w)))
              = filter is_search (trace w)"
  proof (cases "videoId = []")
    case True
    with h have "\<not> (\<exists>u v. jsget track ''url'' = Str u \<and> isYouTubeUrl u
             \<and> extractYouTubeId u = Some v \<and> v \<noteq> [])" by auto
    from related_other_paths [OF this] show ?thesis by simp
  next
    case False
    with h g have "snd (extractor_getRelatedTracks env this track history w) = w1"
      using related_main_path [of track url videoId env this w found w1 history]
      by auto
    with w1 show ?thesis by simp
  qed
qed

theorem related_search_needs_known_author_witness:
  "filter is_search (trace (snd (extractor_getRelatedTracks example_env example_extractor
        example_known_track [] example_world)))
     \<noteq> filter is_search (trace example_world)
   \<and> truthy (jsget example_known_track ''author'')
   \<and> jsget example_known_track ''author'' \<noteq> Str ''Unknown Artist''
   \<and> jsget example_unknown_track ''author'' = Str ''Unknown Artist''
   \<and> fst (getRelatedTracks example_env ''dQw4w9WgXcQ'' (youtubeiOptions example_extractor) 10
            example_world) = []
   \<and> fst (extractor_getRelatedTracks example_env example_extractor example_unknown_track []
            example_world) = createResponse Null []
   \<and> filter is_search (trace (snd (extractor_getRelatedTracks example_env example_extractor
        example_unknown_track [] example_world))) = []"
proof -
  have s1: "filter is_search (trace (snd (extractor_getRelatedTracks example_env example_extractor
        example_known_track [] example_world))) = [YtSearch 0 ''Rick Astley music'']"
    by code_simp
  have t0: "filter is_search (trace example_world) = []"
    by (simp add: example_world_def)
  have u: "jsget example_unknown_track ''url'' = Str ''https://www.youtube.com/watch?v=dQw4w9WgXcQ''"
    by (simp add: example_unknown_track_def jsget_def)
  have a: "jsget example_unknown_track ''author'' = Str ''Unknown Artist''"
    by (simp add: example_unknown_track_def jsget_def)
  have y: "isYouTubeUrl ''https://www.youtube.com/watch?v=dQw4w9WgXcQ''"
    by code_simp
  have i: "extractYouTubeId ''https://www.youtube.com/watch?v=dQw4w9WgXcQ'' = Some ''dQw4w9WgXcQ''"
    by code_simp
  have r: "fst (getRelatedTracks example_env ''dQw4w9WgXcQ'' (youtubeiOptions example_extractor) 10
            example_world) = []"
    by code_simp
  show ?thesis
    using related_search_needs_known_author
        [of example_env example_extractor example_known_track "[]" example_world]
      related_search_needs_known_author
        [of example_env example_extractor example_unknown_track "[]" example_world
            "''https://www.youtube.com/watch?v=dQw4w9WgXcQ''" "''dQw4w9WgXcQ''"]
      s1 t0 u a y i r
    by simp
qed

subsection \<open>Mix playlists\<close>

lemma playlistCatch_invalid_mix:
  "playlistCatch ''Invalid YouTube Mix playlist ID format'' = ''Invalid YouTube Mix playlist ID format''"
  by code_simp

lemma playlistCatch_mix_unavailable:
  "playlistCatch ''Unable to access Mix playlist. This may be a private or unavailable Mix.''
     = ''This playlist is private or requires authentication. Please check your YouTube cookies.''"
  by code_simp

text \<open>
  A mix identifier whose remainder after \<^verbatim>\<open>RD\<close> is not 11 characters long is rejected
  with the invalid-mix-id error, before any call to the backend.
\<close>

lemma mix_invalid_id:
  assumes "startsWith playlistId ''RD''" "length playlistId \<noteq> 13"
  shows "getYouTubePlaylist env playlistId options w
           = (Inl ''Invalid YouTube Mix playlist ID format'', w)"
proof -
  have "playlistBody env playlistId options w = (Inl ''Invalid YouTube Mix playlist ID format'', w)"
    using assms by (auto simp: playlistBody_def Let_def)
  then show ?thesis
    by (simp add: getYouTubePlaylist_def playlistCatch_invalid_mix)
qed

text \<open>
  A well-formed mix identifier whose seed video resolves, with at least 19 playable
  recommended items: the playlist has exactly 20 tracks, the first is the seed video,
  the title is \<^verbatim>\<open>Mix - {seed title}\<close> and the author \<^verbatim>\<open>YouTube\<close>.
\<close>

lemma mix_twenty_tracks:
  assumes id: "startsWith playlistId ''RD''" "length playlistId = 13"
    and sess: "initializeYouTube env options w = (Some yt, w1)"
    and seed: "yt_getInfo env (trace w1) (drop 2 playlistId) = Resolves seedVideo" "truthy seedVideo"
    and title: "jsget (jsget seedVideo ''basic_info'') ''title'' = Str t" "t \<noteq> []"
    and feed: "jsget seedVideo ''watch_next_feed'' = Arr items" "\<not> list_ex nullish items"
      "19 \<le> length (filter playable items)"
  shows "\<exists>tracks. fst (getYouTubePlaylist env playlistId options w) = Inr (Obj [
             (''id'', Str playlistId),
             (''title'', Str (''Mix - '' @ t)),
             (''description'', Str ''YouTube Mix playlist (auto-generated)''),
             (''thumbnail'', js_or (jsget (at0 (jsget (jsget seedVideo ''basic_info'') ''thumbnail'')) ''url'') Null),
             (''author'', Str ''YouTube''),
             (''url'', Str (''https://www.youtube.com/playlist?list='' @ playlistId)),
             (''tracks'', Arr tracks)])
           \<and> length tracks = 20
           \<and> jsget (hd tracks) ''id'' = Str (drop 2 playlistId)
           \<and> jsget (hd tracks) ''title'' = Str t
           \<and> tl tracks = map (videoTrack env) (take 19 (filter playable items))"
proof -
  let ?seed = "drop 2 playlistId"
  have len: "length ?seed = 11" using id by simp
  have m: "\<exists>seedTrack. mixFromSeed env playlistId ?seed (Resolves seedVideo) = Inr (Obj [
             (''id'', Str playlistId),
             (''title'', Str (''Mix - '' @ t)),
             (''description'', Str ''YouTube Mix playlist (auto-generated)''),
             (''thumbnail'', js_or (jsget (at0 (jsget (jsget seedVideo ''basic_info'') ''thumbnail'')) ''url'') Null),
             (''author'', Str ''YouTube''),
             (''url'', Str (''https://www.youtube.com/playlist?list='' @ playlistId)),
             (''tracks'', Arr (seedTrack # map (videoTrack env) (take 19 (filter playable items))))])
           \<and> jsget seedTrack ''id'' = Str ?seed \<and> jsget seedTrack ''title'' = Str t"
    using seed(2) title feed(1,2)
    by (simp add: mixFromSeed_def Let_def js_or_def jsget_def)
  then obtain seedTrack where st: "mixFromSeed env playlistId ?seed (Resolves seedVideo) = Inr (Obj [
             (''id'', Str playlistId),
             (''title'', Str (''Mix - '' @ t)),
             (''description'', Str ''YouTube Mix playlist (auto-generated)''),
             (''thumbnail'', js_or (jsget (at0 (jsget (jsget seedVideo ''basic_info'') ''thumbnail'')) ''url'') Null),
             (''author'', Str ''YouTube''),
             (''url'', Str (''https://www.youtube.com/playlist?list='' @ playlistId)),
             (''tracks'', Arr (seedTrack # map (videoTrack env) (take 19 (filter playable items))))])"
      and sid: "jsget seedTrack ''id'' = Str ?seed" "jsget seedTrack ''title'' = Str t"
    by blast
  have body: "fst (playlistBody env playlistId options w)
                = mixFromSeed env playlistId ?seed (Resolves seedVideo)"
    using id len sess seed(1) st by (simp add: playlistBody_def Let_def)
  have "fst (getYouTubePlaylist env playlistId options w)
          = mixFromSeed env playlistId ?seed (Resolves seedVideo)"
    using body st
    by (cases "playlistBody env playlistId options w") (simp add: getYouTubePlaylist_def)
  with st sid feed(3) show ?thesis
    by (intro exI [of _ "seedTrack # map (videoTrack env) (take 19 (filter playable items))"]) simp
qed

text \<open>
  C7 does not hold of the code in its last part. For a well-formed mix identifier and a
  live session, when fetching the seed fails in any way the inner \<^verbatim>\<open>catch\<close> throws the
  mix-unavailable error \<^verbatim>\<open>Unable to access Mix playlist. This may be a private or
  unavailable Mix.\<close>; that message contains \<^verbatim>\<open>private\<close>, so the outer \<^verbatim>\<open>catch\<close> of the same
  function replaces it, and the caller receives the error of a private playlist.
\<close>

theorem mix_failure_reported_as_private_playlist:
  "startsWith playlistId ''RD'' \<and> length playlistId = 13
   \<and> initializeYouTube env options w = (Some yt, w1)
   \<and> mixFromSeed env playlistId (drop 2 playlistId) (yt_getInfo env (trace w1) (drop 2 playlistId)) = Inl e
   \<longrightarrow> fst (getYouTubePlaylist env playlistId options w)
         = Inl ''This playlist is private or requires authentication. Please check your YouTube cookies.''
       \<and> fst (getYouTubePlaylist env playlistId options w)
         \<noteq> Inl ''Unable to access Mix playlist. This may be a private or unavailable Mix.''"
proof
  assume h: "startsWith playlistId ''RD'' \<and> length playlistId = 13
   \<and> initializeYouTube env options w = (Some yt, w1)
   \<and> mixFromSeed env playlistId (drop 2 playlistId) (yt_getInfo env (trace w1) (drop 2 playlistId)) = Inl e"
  then have "length (drop 2 playlistId) = 11" by simp
  with h have "fst (playlistBody env playlistId options w)
      = Inl ''Unable to access Mix playlist. This may be a private or unavailable Mix.''"
    by (simp add: playlistBody_def Let_def)
  then have "fst (getYouTubePlaylist env playlistId options w)
         = Inl ''This playlist is private or requires authentication. Please check your YouTube cookies.''"
    by (cases "playlistBody env playlistId options w")
       (simp add: getYouTubePlaylist_def playlistCatch_mix_unavailable)
  then show "fst (getYouTubePlaylist env playlistId options w)
         = Inl ''This playlist is private or requires authentication. Please check your YouTube cookies.''
       \<and> fst (getYouTubePlaylist env playlistId options w)
         \<noteq> Inl ''Unable to access Mix playlist. This may be a private or unavailable Mix.''"
    by simp
qed

theorem mix_failure_reported_as_private_playlist_witness:
  "startsWith ''RDdQw4w9WgXcQ'' ''RD'' \<and> length ''RDdQw4w9WgXcQ'' = 13
   \<and> mixFromSeed example_env ''RDdQw4w9WgXcQ'' ''dQw4w9WgXcQ''
        (yt_getInfo example_env [Create (initOptionsFor (youtubeiOptions example_extractor))]
           ''dQw4w9WgXcQ'') = Inl ''Video unavailable''
   \<and> fst (getYouTubePlaylist example_env ''RDdQw4w9WgXcQ'' (youtubeiOptions example_extractor)
            example_world)
       = Inl ''This playlist is private or requires authentication. Please check your YouTube cookies.''"
proof -
  have i: "initializeYouTube example_env (youtubeiOptions example_extractor) example_world
     = (Some 0, example_world\<lparr>innertube := Some 0, lastCookies := CString ''SID=abc'',
          trace := [Create (initOptionsFor (youtubeiOptions example_extractor))]\<rparr>)"
    by (simp add: initializeYouTube_def example_env_def example_world_def
        example_extractor_def Let_def emit_def)
  have m: "mixFromSeed example_env ''RDdQw4w9WgXcQ'' ''dQw4w9WgXcQ''
        (yt_getInfo example_env [Create (initOptionsFor (youtubeiOptions example_extractor))]
           ''dQw4w9WgXcQ'') = Inl ''Video unavailable''"
    by (simp add: mixFromSeed_def example_env_def)
  have s: "startsWith ''RDdQw4w9WgXcQ'' ''RD''"
    by (simp add: startsWith_def)
  show ?thesis
    using mix_failure_reported_as_private_playlist
      [of "''RDdQw4w9WgXcQ''" example_env "youtubeiOptions example_extractor" example_world 0
          "example_world\<lparr>innertube := Some 0, lastCookies := CString ''SID=abc'',
             trace := [Create (initOptionsFor (youtubeiOptions example_extractor))]\<rparr>"
          "''Video unavailable''"]
      i m s
    by simp
qed

subsection \<open>Empty playlists\<close>

lemma playlistObject_tracks: "jsget (playlistObject playlistId playlist ts) ''tracks'' = Arr ts"
  by (simp add: playlistObject_def jsget_def)

lemma many_rests_shorter: "r \<in> set (many_rests p s) \<Longrightarrow> length r \<le> length s"
  by (induction s) (auto split: if_splits)

lemma rx_exec_run: "rx_exec r s = Some m \<Longrightarrow> \<exists>t. m \<in> set (rx_run r (None, t))"
proof (induction s)
  case Nil
  then show ?case
    by (cases "rx_run r (None, [])") (auto intro: exI [of _ "[]"])
next
  case (Cons c cs)
  show ?case
  proof (cases "rx_run r (None, c # cs)")
    case Nil
    with Cons show ?thesis by simp
  next
    case (Cons m' ms)
    with Cons.prems have "m \<in> set (rx_run r (None, c # cs))" by simp
    then show ?thesis by blast
  qed
qed

lemma rx_run_Seq_mem: "m \<in> set (rx_run (Seq a b) st) \<Longrightarrow> \<exists>st'. m \<in> set (rx_run b st')"
  by auto

lemma cap_many1_nonempty:
  "m \<in> set (rx_run (Cap (Many1 p)) st) \<Longrightarrow> \<exists>cap. fst m = Some cap \<and> cap \<noteq> []"
  by (cases st) (auto split: list.splits if_splits dest!: many_rests_shorter)

lemma playlistRegex_capture:
  assumes "m \<in> set (rx_run playlistRegex (None, t))"
  shows "\<exists>cap. fst m = Some cap \<and> cap \<noteq> []"
proof -
  from assms obtain st1 where
    "m \<in> set (rx_run (Seq (Lit ''list='') (Cap (Many1 list_id_char))) st1)"
    unfolding playlistRegex_def by (blast dest: rx_run_Seq_mem)
  then obtain st2 where "m \<in> set (rx_run (Cap (Many1 list_id_char)) st2)"
    by (blast dest: rx_run_Seq_mem)
  then show ?thesis by (rule cap_many1_nonempty)
qed

lemma extractYouTubePlaylistId_nonempty:
  "extractYouTubePlaylistId url = Some playlistId \<Longrightarrow> playlistId \<noteq> []"
proof -
  assume a: "extractYouTubePlaylistId url = Some playlistId"
  then obtain m where m: "rx_exec playlistRegex url = Some m" "fst m = Some playlistId"
    by (auto simp: extractYouTubePlaylistId_def rx_group1_def split: option.splits)
  from rx_exec_run [OF m(1)] obtain t where "m \<in> set (rx_run playlistRegex (None, t))" by blast
  from playlistRegex_capture [OF this] m(2) show ?thesis by simp
qed

lemma handleYouTubePlaylist_error:
  assumes "extractYouTubePlaylistId url = Some playlistId"
    and "fst (getYouTubePlaylist env playlistId (youtubeiOptions this) w) = Inl e"
  shows "fst (handleYouTubePlaylist env this url context w) = Inl e"
  using assms extractYouTubePlaylistId_nonempty [OF assms(1)]
  by (cases "getYouTubePlaylist env playlistId (youtubeiOptions this) w")
     (simp add: handleYouTubePlaylist_def)

lemma handleYouTubePlaylist_empty:
  assumes "extractYouTubePlaylistId url = Some playlistId"
    and "fst (getYouTubePlaylist env playlistId (youtubeiOptions this) w)
           = Inr (playlistObject playlistId playlist [])"
  shows "fst (handleYouTubePlaylist env this url context w)
           = Inl ''Could not get playlist information or playlist is empty''"
  using assms extractYouTubePlaylistId_nonempty [OF assms(1)]
  by (cases "getYouTubePlaylist env playlistId (youtubeiOptions this) w")
     (simp add: handleYouTubePlaylist_def playlistObject_tracks)

text \<open>
  C4, as the code has it. For an ordinary playlist that the backend returns with a list
  of entries of which none resolves (the list may be empty), the playlist fetch
  \<^verbatim>\<open>getYouTubePlaylist\<close> returns a playlist value whose \<^verbatim>\<open>tracks\<close> are empty, and not an
  error. The handler of a playlist URL, \<^verbatim>\<open>handleYouTubePlaylist\<close>, rejects that value: it
  throws \<^verbatim>\<open>Could not get playlist information or playlist is empty\<close>.
\<close>

theorem empty_playlist_valid_for_fetch_rejected_by_handler:
  "initializeYouTube env (youtubeiOptions this) w = (Some yt, w1)
   \<and> \<not> startsWith playlistId ''RD''
   \<and> yt_getPlaylist env (trace w1) playlistId = Some (Resolves playlist)
   \<and> truthy playlist \<and> jsget playlist ''videos'' = Arr videos
   \<and> (\<forall>v \<in> set videos. playlistEntry env v = Null)
   \<longrightarrow> fst (getYouTubePlaylist env playlistId (youtubeiOptions this) w)
         = Inr (playlistObject playlistId playlist [])
       \<and> jsget (playlistObject playlistId playlist []) ''tracks'' = Arr []
       \<and> (extractYouTubePlaylistId url = Some playlistId
           \<longrightarrow> fst (handleYouTubePlaylist env this url context w)
                 = Inl ''Could not get playlist information or playlist is empty'')"
proof (intro impI conjI)
  assume h: "initializeYouTube env (youtubeiOptions this) w = (Some yt, w1)
   \<and> \<not> startsWith playlistId ''RD''
   \<and> yt_getPlaylist env (trace w1) playlistId = Some (Resolves playlist)
   \<and> truthy playlist \<and> jsget playlist ''videos'' = Arr videos
   \<and> (\<forall>v \<in> set videos. playlistEntry env v = Null)"
  then have none: "filter (\<lambda>t. t \<noteq> Null) (map (playlistEntry env) videos) = []"
    by (simp add: filter_empty_conv)
  from h have "getYouTubePlaylist env playlistId (youtubeiOptions this) w =
           (Inr (playlistObject playlistId playlist
                   (filter (\<lambda>t. t \<noteq> Null) (map (playlistEntry env) videos))),
            emit (YtGetPlaylist yt playlistId) w1)"
    by (intro getYouTubePlaylist_tracks) simp_all
  with none show fetch: "fst (getYouTubePlaylist env playlistId (youtubeiOptions this) w)
         = Inr (playlistObject playlistId playlist [])"
    by simp
  show "jsget (playlistObject playlistId playlist []) ''tracks'' = Arr []"
    by (rule playlistObject_tracks)
  assume "extractYouTubePlaylistId url = Some playlistId"
  from handleYouTubePlaylist_empty [OF this fetch]
  show "fst (handleYouTubePlaylist env this url context w)
                 = Inl ''Could not get playlist information or playlist is empty''" .
qed

theorem empty_playlist_valid_for_fetch_rejected_by_handler_witness:
  "initializeYouTube example_env (youtubeiOptions example_extractor) example_world
     = (Some 0, example_world\<lparr>innertube := Some 0, lastCookies := CString ''SID=abc'',
          trace := [Create (initOptionsFor (youtubeiOptions example_extractor))]\<rparr>)
   \<and> extractYouTubePlaylistId ''https://www.youtube.com/playlist?list=PLabc'' = Some ''PLabc''
   \<and> fst (getYouTubePlaylist example_env ''PLabc'' (youtubeiOptions example_extractor) example_world)
       = Inr (playlistObject ''PLabc'' (Obj [(''videos'', Arr [])]) [])
   \<and> fst (handleYouTubePlaylist example_env example_extractor
            ''https://www.youtube.com/playlist?list=PLabc'' (Obj []) example_world)
       = Inl ''Could not get playlist information or playlist is empty''"
proof -
  have i: "initializeYouTube example_env (youtubeiOptions example_extractor) example_world
     = (Some 0, example_world\<lparr>innertube := Some 0, lastCookies := CString ''SID=abc'',
          trace := [Create (initOptionsFor (youtubeiOptions example_extractor))]\<rparr>)"
    by (simp add: initializeYouTube_def example_env_def example_world_def
        example_extractor_def Let_def emit_def)
  have x: "extractYouTubePlaylistId ''https://www.youtube.com/playlist?list=PLabc'' = Some ''PLabc''"
    by code_simp
  have rd: "\<not> startsWith ''PLabc'' ''RD''"
    by (simp add: startsWith_def)
  have pl: "yt_getPlaylist example_env [Create (initOptionsFor (youtubeiOptions example_extractor))]
              ''PLabc'' = Some (Resolves (Obj [(''videos'', Arr [])]))"
    by (simp add: example_env_def)
  have vs: "jsget (Obj [(''videos'', Arr [])]) ''videos'' = Arr []"
    by (simp add: jsget_def)
  show ?thesis
    using empty_playlist_valid_for_fetch_rejected_by_handler
      [of example_env example_extractor example_world 0
          "example_world\<lparr>innertube := Some 0, lastCookies := CString ''SID=abc'',
             trace := [Create (initOptionsFor (youtubeiOptions example_extractor))]\<rparr>"
          "''PLabc''" "Obj [(''videos'', Arr [])]" "[]"
          "''https://www.youtube.com/playlist?list=PLabc''" "Obj []"]
      i x rd pl vs
    by simp
qed

text \<open>
  C4 as stated fails for a playlist URL: the playlist \<^verbatim>\<open>PLabc\<close> is accessible and has no
  entries, and resolving its URL ends in an error.
\<close>

theorem empty_playlist_url_counterexample:
  "isYouTubePlaylistUrl ''https://www.youtube.com/playlist?list=PLabc''
   \<and> yt_getPlaylist example_env [Create (initOptionsFor (youtubeiOptions example_extractor))] ''PLabc''
       = Some (Resolves (Obj [(''videos'', Arr [])]))
   \<and> fst (handleYouTubePlaylist example_env example_extractor
            ''https://www.youtube.com/playlist?list=PLabc'' (Obj []) example_world)
       = Inl ''Could not get playlist information or playlist is empty''
   \<and> fst (handleDirectUrl example_env example_extractor
            ''https://www.youtube.com/playlist?list=PLabc'' (Obj []) example_world)
       = Inl ''Could not get playlist information or playlist is empty''"
  by code_simp

subsection \<open>Failures without a fallback\<close>

lemma handle_never_throws: "\<exists>r. fst (handle env this query context w) = Inr r"
proof -
  obtain res w1 where
    "(if isValidUrl env query then handleDirectUrl env this query context w
      else handleSearchQuery env this query context w) = (res, w1)"
    by (cases "if isValidUrl env query then handleDirectUrl env this query context w
               else handleSearchQuery env this query context w")
  then show ?thesis
    by (cases res) (simp_all add: handle_def)
qed

lemma handle_catches:
  assumes "isValidUrl env query" "fst (handleDirectUrl env this query context w) = Inl e"
  shows "handle env this query context w
           = (Inr (createResponse Null []), snd (handleDirectUrl env this query context w))"
  using assms by (cases "handleDirectUrl env this query context w") (simp add: handle_def)

lemma handleDirectUrl_other_site_error:
  assumes "validateUrl env (Str url) = Inr True" "\<not> isYouTubeUrl url"
    and "fst (getBasicInfo env url (ytdlpPath this) w) = Inl e"
  shows "fst (handleDirectUrl env this url context w) = Inl e"
  using assms
  by (cases "getBasicInfo env url (ytdlpPath this) w") (simp add: handleDirectUrl_def)

lemma handleDirectUrl_playlist_error:
  assumes "validateUrl env (Str url) = Inr True" "isYouTubePlaylistUrl url"
    and "extractYouTubePlaylistId url = Some playlistId"
    and "fst (getYouTubePlaylist env playlistId (youtubeiOptions this) w) = Inl e"
  shows "fst (handleDirectUrl env this url context w) = Inl e"
proof -
  from assms(2) have "isYouTubeUrl url" by (simp add: isYouTubePlaylistUrl_def)
  with assms(1,2) have "handleDirectUrl env this url context w
                          = handleYouTubePlaylist env this url context w"
    by (simp add: handleDirectUrl_def)
  with handleYouTubePlaylist_error [OF assms(3,4)] show ?thesis by simp
qed

lemma validateUrl_isValidUrl: "validateUrl env (Str url) = Inr True \<Longrightarrow> isValidUrl env url"
  by (auto simp: validateUrl_def split: if_splits)

text \<open>
  C1, as the code has it. When the fetch of a playlist fails, or the extractor fetch for
  a URL of another site, \<^verbatim>\<open>handleDirectUrl\<close> throws that error to its caller. Its caller
  is \<^verbatim>\<open>handle\<close>, whose \<^verbatim>\<open>catch\<close> takes every error: \<^verbatim>\<open>handle\<close> never throws, and in both
  cases it returns the empty response (no playlist, no tracks).
\<close>

theorem failure_propagates_to_handle_and_stops_there:
  "(\<exists>r. fst (handle env this query context w) = Inr r)
   \<and> (validateUrl env (Str url) = Inr True \<and> \<not> isYouTubeUrl url
        \<and> fst (getBasicInfo env url (ytdlpPath this) w) = Inl e
      \<longrightarrow> fst (handleDirectUrl env this url context w) = Inl e
          \<and> fst (handle env this url context w) = Inr (createResponse Null []))
   \<and> (validateUrl env (Str url) = Inr True \<and> isYouTubePlaylistUrl url
        \<and> extractYouTubePlaylistId url = Some playlistId
        \<and> fst (getYouTubePlaylist env playlistId (youtubeiOptions this) w) = Inl e
      \<longrightarrow> fst (handleDirectUrl env this url context w) = Inl e
          \<and> fst (handle env this url context w) = Inr (createResponse Null []))"
proof (intro conjI impI)
  show "\<exists>r. fst (handle env this query context w) = Inr r"
    by (rule handle_never_throws)
next
  assume h: "validateUrl env (Str url) = Inr True \<and> \<not> isYouTubeUrl url
        \<and> fst (getBasicInfo env url (ytdlpPath this) w) = Inl e"
  then show d: "fst (handleDirectUrl env this url context w) = Inl e"
    by (simp add: handleDirectUrl_other_site_error)
  from h have "isValidUrl env url" by (simp add: validateUrl_isValidUrl)
  from handle_catches [OF this d]
  show "fst (handle env this url context w) = Inr (createResponse Null [])" by simp
next
  assume h: "validateUrl env (Str url) = Inr True \<and> isYouTubePlaylistUrl url
        \<and> extractYouTubePlaylistId url = Some playlistId
        \<and> fst (getYouTubePlaylist env playlistId (youtubeiOptions this) w) = Inl e"
  then show d: "fst (handleDirectUrl env this url context w) = Inl e"
    by (intro handleDirectUrl_playlist_error [of env url playlistId]) simp_all
  from h have "isValidUrl env url" by (simp add: validateUrl_isValidUrl)
  from handle_catches [OF this d]
  show "fst (handle env this url context w) = Inr (createResponse Null [])" by simp
qed

theorem failure_propagates_to_handle_and_stops_there_witness:
  "validateUrl example_timeout_env (Str ''https://vimeo.com/76979871'') = Inr True
   \<and> \<not> isYouTubeUrl ''https://vimeo.com/76979871''
   \<and> fst (getBasicInfo example_timeout_env ''https://vimeo.com/76979871''
            (ytdlpPath example_extractor) example_world) = Inl ''Command failed''
   \<and> fst (handleDirectUrl example_timeout_env example_extractor ''https://vimeo.com/76979871''
            (Obj []) example_world) = Inl ''Command failed''
   \<and> validateUrl example_timeout_env (Str ''https://www.youtube.com/playlist?list=PLabc'') = Inr True
   \<and> isYouTubePlaylistUrl ''https://www.youtube.com/playlist?list=PLabc''
   \<and> extractYouTubePlaylistId ''https://www.youtube.com/playlist?list=PLabc'' = Some ''PLabc''
   \<and> fst (getYouTubePlaylist example_timeout_env ''PLabc'' (youtubeiOptions example_extractor)
            example_world) = Inl ''Playlist request timed out. Please try again.''
   \<and> fst (handleDirectUrl example_timeout_env example_extractor
            ''https://www.youtube.com/playlist?list=PLabc'' (Obj []) example_world)
       = Inl ''Playlist request timed out. Please try again.''"
proof -
  have v1: "validateUrl example_timeout_env (Str ''https://vimeo.com/76979871'') = Inr True"
    by code_simp
  have y1: "\<not> isYouTubeUrl ''https://vimeo.com/76979871''"
    by code_simp
  have b1: "fst (getBasicInfo example_timeout_env ''https://vimeo.com/76979871''
            (ytdlpPath example_extractor) example_world) = Inl ''Command failed''"
    by code_simp
  have v2: "validateUrl example_timeout_env (Str ''https://www.youtube.com/playlist?list=PLabc'')
              = Inr True"
    by code_simp
  have y2: "isYouTubePlaylistUrl ''https://www.youtube.com/playlist?list=PLabc''"
    by code_simp
  have x2: "extractYouTubePlaylistId ''https://www.youtube.com/playlist?list=PLabc'' = Some ''PLabc''"
    by code_simp
  have g2: "fst (getYouTubePlaylist example_timeout_env ''PLabc'' (youtubeiOptions example_extractor)
            example_world) = Inl ''Playlist request timed out. Please try again.''"
    by code_simp
  show ?thesis
    using failure_propagates_to_handle_and_stops_there
        [of example_timeout_env example_extractor "''q''" "Obj []" example_world
            "''https://vimeo.com/76979871''" "''Command failed''" "''PLabc''"]
      failure_propagates_to_handle_and_stops_there
        [of example_timeout_env example_extractor "''q''" "Obj []" example_world
            "''https://www.youtube.com/playlist?list=PLabc''"
            "''Playlist request timed out. Please try again.''" "''PLabc''"]
      v1 y1 b1 v2 y2 x2 g2
    by simp
qed

text \<open>
  C1 as stated fails: for the URL of another site whose extractor fetch fails, and for a
  playlist URL whose fetch times out, \<^verbatim>\<open>handle\<close> returns the empty response to its caller
  and no error.
\<close>

theorem handle_swallows_failure_counterexample:
  "fst (handleDirectUrl example_timeout_env example_extractor ''https://vimeo.com/76979871''
          (Obj []) example_world) = Inl ''Command failed''
   \<and> fst (handle example_timeout_env example_extractor ''https://vimeo.com/76979871''
          (Obj []) example_world) = Inr (createResponse Null [])
   \<and> fst (handleDirectUrl example_timeout_env example_extractor
            ''https://www.youtube.com/playlist?list=PLabc'' (Obj []) example_world)
       = Inl ''Playlist request timed out. Please try again.''
   \<and> fst (handle example_timeout_env example_extractor
            ''https://www.youtube.com/playlist?list=PLabc'' (Obj []) example_world)
       = Inr (createResponse Null [])"
  by code_simp

end
